theory Spec2Isabelle
  imports Main
begin

section \<open>Data model of So-final.c\<close>

text \<open>
  The airport simulator shares three resource classes (pistas = runways, portoes = gates,
  torres = tower slots) between one worker thread per aircraft. The embedding follows
  So-final.c; where So_refatorado_corrigido.c or So.c differ and a claim is about the
  difference, the variant gets a definition of its own, named after the file.

  C \<open>int\<close> and \<open>time_t\<close> values are HOL integers: every counter of the program moves by
  0 or 1 per operation and stays far inside the range of \<open>int\<close>. C truth values
  (\<open>has_pista\<close>, \<open>em_alerta_critico\<close>, \<open>simulacao_ativa\<close>) are booleans.
\<close>

datatype TipoVoo = DOMESTICO | INTERNACIONAL

text \<open>
  \<open>StatusAviao\<close> of So-final.c is SUCESSO, FALHA, ALERTA_CRITICO, STARVATION, DEADLOCK, with
  SUCESSO also the value a new aircraft starts with. So_refatorado_corrigido.c adds
  PENDENTE as the initial value; no definition taken from So-final.c produces it.
\<close>

datatype StatusAviao = PENDENTE | SUCESSO | FALHA | ALERTA_CRITICO | STARVATION | DEADLOCK

record Aviao =
  tipo :: TipoVoo
  inicio_pouso :: int
  fim_pouso :: int
  inicio_desembarque :: int
  fim_desembarque :: int
  inicio_decolagem :: int
  fim_decolagem :: int
  status_final :: StatusAviao
  em_alerta_critico :: bool
  ultimo_tempo_espera :: int
  has_pista :: bool
  has_portao :: bool
  has_torre :: bool

text \<open>
  The process-wide variables: the three semaphores (their values), the counters of the
  atomic reservation, the two waiting counts of the priority queue and the statistics.
\<close>

record Global =
  pistas :: int
  portoes :: int
  torres :: int
  pistas_disp :: int
  portoes_disp :: int
  torres_disp :: int
  esperando_internacional :: int
  esperando_domestico :: int
  deadlock_count :: int
  acidentes_count :: int
  simulacao_ativa :: bool

abbreviation (input) SEM_OK :: int where "SEM_OK \<equiv> 0"

abbreviation (input) SEM_TIMEOUT :: int where "SEM_TIMEOUT \<equiv> - 1"

abbreviation (input) SEM_SIM_ENCERRADA :: int where "SEM_SIM_ENCERRADA \<equiv> - 2"

abbreviation (input) SEM_AVIAO_FALHOU :: int where "SEM_AVIAO_FALHOU \<equiv> - 3"

abbreviation (input) ALERTA_CRITICO_SECS :: int where "ALERTA_CRITICO_SECS \<equiv> 60"

abbreviation (input) TEMPO_MAXIMO_ESPERA :: int where "TEMPO_MAXIMO_ESPERA \<equiv> 90"

abbreviation (input) TIMEOUT_OPERACAO :: int where "TIMEOUT_OPERACAO \<equiv> 10"

abbreviation (input) LIMITE_DEADLOCK :: int where "LIMITE_DEADLOCK \<equiv> 30"

abbreviation (input) MAX_AVIOES :: nat where "MAX_AVIOES \<equiv> 1000"

section \<open>Starvation check and failure predicate\<close>

text \<open>
  \<open>verificar_starvation\<close> (So-final.c): \<open>agora\<close> is the reading of \<open>time(NULL)\<close>. The
  broadcasts on the condition variables change no variable and are left out.
\<close>

definition verificar_starvation :: "int \<Rightarrow> Aviao \<Rightarrow> Global \<Rightarrow> Aviao \<times> Global" where
  "verificar_starvation agora a g =
     (if status_final a = FALHA \<or> status_final a = STARVATION \<or> status_final a = DEADLOCK
      then (a, g)
      else
        let tempo_espera = agora - ultimo_tempo_espera a in
        if tempo_espera \<ge> ALERTA_CRITICO_SECS \<and> tempo_espera < TEMPO_MAXIMO_ESPERA
             \<and> \<not> em_alerta_critico a
        then (a\<lparr>em_alerta_critico := True, status_final := ALERTA_CRITICO\<rparr>, g)
        else if tempo_espera \<ge> TEMPO_MAXIMO_ESPERA
        then (if tipo a = DOMESTICO
              then (a\<lparr>status_final := STARVATION\<rparr>,
                    g\<lparr>acidentes_count := acidentes_count g + 1\<rparr>)
              else (a\<lparr>status_final := DEADLOCK\<rparr>,
                    g\<lparr>deadlock_count := deadlock_count g + 1\<rparr>))
        else (a, g))"

text \<open>
  \<open>checa_falha\<close> (So-final.c) runs the starvation check and then tests the status for
  FALHA and STARVATION only.
\<close>

definition checa_falha :: "int \<Rightarrow> Aviao \<Rightarrow> Global \<Rightarrow> bool \<times> Aviao \<times> Global" where
  "checa_falha agora a g =
     (let (a1, g1) = verificar_starvation agora a g
      in (status_final a1 = FALHA \<or> status_final a1 = STARVATION, a1, g1))"

text \<open>
  The same two functions in So_refatorado_corrigido.c: the alert only overwrites a
  PENDENTE status, and the failure predicate also tests DEADLOCK.
\<close>

definition verificar_starvation_corrigido :: "int \<Rightarrow> Aviao \<Rightarrow> Global \<Rightarrow> Aviao \<times> Global" where
  "verificar_starvation_corrigido t a g =
     (if status_final a = FALHA \<or> status_final a = STARVATION \<or> status_final a = DEADLOCK
      then (a, g)
      else
        let espera = t - ultimo_tempo_espera a in
        if espera \<ge> ALERTA_CRITICO_SECS \<and> espera < TEMPO_MAXIMO_ESPERA
             \<and> \<not> em_alerta_critico a
        then ((if status_final a = PENDENTE
               then a\<lparr>em_alerta_critico := True, status_final := ALERTA_CRITICO\<rparr>
               else a\<lparr>em_alerta_critico := True\<rparr>), g)
        else if espera \<ge> TEMPO_MAXIMO_ESPERA
        then (if tipo a = DOMESTICO
              then (a\<lparr>status_final := STARVATION\<rparr>,
                    g\<lparr>acidentes_count := acidentes_count g + 1\<rparr>)
              else (a\<lparr>status_final := DEADLOCK\<rparr>,
                    g\<lparr>deadlock_count := deadlock_count g + 1\<rparr>))
        else (a, g))"

definition checa_falha_corrigido :: "int \<Rightarrow> Aviao \<Rightarrow> Global \<Rightarrow> bool \<times> Aviao \<times> Global" where
  "checa_falha_corrigido t a g =
     (let (a1, g1) = verificar_starvation_corrigido t a g
      in (status_final a1 = FALHA \<or> status_final a1 = STARVATION \<or> status_final a1 = DEADLOCK,
          a1, g1))"

section \<open>Atomic reservation\<close>

text \<open>
  One pass through the \<open>while (1)\<close> of \<open>reservar_recursos\<close> (So-final.c), run under
  \<open>reserva_mutex\<close>: either the call returns a code, or the thread goes to
  \<open>pthread_cond_timedwait\<close> and the next pass starts when it wakes. \<open>inicio\<close> is the
  local \<open>start\<close>, \<open>agora\<close> the clock.
\<close>

datatype Tentativa = Retorna int | Aguarda

definition espera_ou_timeout :: "int \<Rightarrow> int \<Rightarrow> int \<Rightarrow> Tentativa" where
  "espera_ou_timeout agora inicio timeout_seg =
     (let rem = timeout_seg - (agora - inicio)
      in if rem \<le> 0 then Retorna SEM_TIMEOUT else Aguarda)"

definition debita :: "int \<Rightarrow> int \<Rightarrow> int \<Rightarrow> Global \<Rightarrow> Global" where
  "debita need_pista need_portao need_torre g =
     g\<lparr>pistas_disp := pistas_disp g - need_pista,
       portoes_disp := portoes_disp g - need_portao,
       torres_disp := torres_disp g - need_torre\<rparr>"

definition disponivel :: "int \<Rightarrow> int \<Rightarrow> int \<Rightarrow> Global \<Rightarrow> bool" where
  "disponivel need_pista need_portao need_torre g \<longleftrightarrow>
     pistas_disp g \<ge> need_pista \<and> portoes_disp g \<ge> need_portao \<and> torres_disp g \<ge> need_torre"

definition reservar_iteracao ::
  "int \<Rightarrow> int \<Rightarrow> int \<Rightarrow> int \<Rightarrow> int \<Rightarrow> int \<Rightarrow> Aviao \<Rightarrow> Global \<Rightarrow> Tentativa \<times> Aviao \<times> Global" where
  "reservar_iteracao agora inicio timeout_seg need_pista need_portao need_torre a g =
     (if \<not> simulacao_ativa g then (Retorna SEM_SIM_ENCERRADA, a, g)
      else
        let (falhou, a1, g1) = checa_falha agora a g in
        if falhou then (Retorna SEM_AVIAO_FALHOU, a1, g1)
        else if em_alerta_critico a1
        then (if disponivel need_pista need_portao need_torre g1
              then (Retorna SEM_OK, a1, debita need_pista need_portao need_torre g1)
              else (espera_ou_timeout agora inicio timeout_seg, a1, g1))
        else if tipo a1 = DOMESTICO \<and> esperando_internacional g1 > 0
        then (espera_ou_timeout agora inicio timeout_seg, a1, g1)
        else if disponivel need_pista need_portao need_torre g1
        then (Retorna SEM_OK, a1, debita need_pista need_portao need_torre g1)
        else (espera_ou_timeout agora inicio timeout_seg, a1, g1))"

text \<open>
  The same pass in So_refatorado_corrigido.c, which folds the two branches into the flag
  \<open>domestico_deve_esperar\<close> and tests the elapsed time against the timeout.
\<close>

definition reservar_iteracao_corrigido ::
  "int \<Rightarrow> int \<Rightarrow> int \<Rightarrow> int \<Rightarrow> int \<Rightarrow> int \<Rightarrow> Aviao \<Rightarrow> Global \<Rightarrow> Tentativa \<times> Aviao \<times> Global" where
  "reservar_iteracao_corrigido agora_t inicio timeout_seg need_p need_g need_t a g =
     (if \<not> simulacao_ativa g then (Retorna SEM_SIM_ENCERRADA, a, g)
      else
        let (falhou, a1, g1) = checa_falha_corrigido agora_t a g in
        if falhou then (Retorna SEM_AVIAO_FALHOU, a1, g1)
        else
          let prioridade_alerta = em_alerta_critico a1;
              domestico_deve_esperar =
                (tipo a1 = DOMESTICO \<and> esperando_internacional g1 > 0 \<and> \<not> prioridade_alerta)
          in if \<not> domestico_deve_esperar \<and> disponivel need_p need_g need_t g1
             then (Retorna SEM_OK, a1, debita need_p need_g need_t g1)
             else (let decorrido = agora_t - inicio
                   in if decorrido \<ge> timeout_seg then (Retorna SEM_TIMEOUT, a1, g1)
                      else (Aguarda, a1, g1)))"

definition liberar_reserva :: "int \<Rightarrow> int \<Rightarrow> int \<Rightarrow> Global \<Rightarrow> Global" where
  "liberar_reserva need_pista need_portao need_torre g =
     g\<lparr>pistas_disp := pistas_disp g + need_pista,
       portoes_disp := portoes_disp g + need_portao,
       torres_disp := torres_disp g + need_torre\<rparr>"

section \<open>Priority queue\<close>

text \<open>
  \<open>aguardar_prioridade\<close> (So-final.c) in three parts: the registration before the loop,
  the test of the \<open>while\<close> (with C's short-circuit order, so \<open>checa_falha\<close> only runs
  when the tests before it hold), and the statement after the loop.
\<close>

definition aguardar_prioridade_entra :: "int \<Rightarrow> Aviao \<Rightarrow> Global \<Rightarrow> Aviao \<times> Global" where
  "aguardar_prioridade_entra agora a g =
     (let a1 = a\<lparr>ultimo_tempo_espera := agora\<rparr>
      in if tipo a = INTERNACIONAL
         then (a1, g\<lparr>esperando_internacional := esperando_internacional g + 1\<rparr>)
         else (a1, g\<lparr>esperando_domestico := esperando_domestico g + 1\<rparr>))"

definition aguardar_prioridade_teste :: "int \<Rightarrow> Aviao \<Rightarrow> Global \<Rightarrow> bool \<times> Aviao \<times> Global" where
  "aguardar_prioridade_teste agora a g =
     (if (if tipo a = INTERNACIONAL then esperando_internacional g > 1
          else esperando_internacional g > 0) \<and> simulacao_ativa g
      then (let (falhou, a1, g1) = checa_falha agora a g
            in (\<not> falhou \<and> \<not> em_alerta_critico a1, a1, g1))
      else (False, a, g))"

definition aguardar_prioridade_sai :: "int \<Rightarrow> Aviao \<Rightarrow> Global \<Rightarrow> Aviao \<times> Global" where
  "aguardar_prioridade_sai agora a g =
     (let (sai, a1, g1) =
            (if \<not> simulacao_ativa g then (True, a, g) else checa_falha agora a g)
      in if sai
         then (if tipo a = INTERNACIONAL
               then (a1, g1\<lparr>esperando_internacional := esperando_internacional g1 - 1\<rparr>)
               else (a1, g1\<lparr>esperando_domestico := esperando_domestico g1 - 1\<rparr>))
         else (a1, g1))"

definition liberar_prioridade :: "TipoVoo \<Rightarrow> Global \<Rightarrow> Global" where
  "liberar_prioridade t g =
     (if t = INTERNACIONAL
      then (if esperando_internacional g > 0
            then g\<lparr>esperando_internacional := esperando_internacional g - 1\<rparr> else g)
      else (if esperando_domestico g > 0
            then g\<lparr>esperando_domestico := esperando_domestico g - 1\<rparr> else g))"

section \<open>The three operations, one suspension point at a time\<close>

text \<open>
  A worker thread runs \<open>aviao_thread\<close>: \<open>pouso\<close>, \<open>desembarque\<close>, \<open>decolagem\<close>. Other
  threads run while it is suspended, so the operations are embedded as a step function:
  one step is the code a thread runs from one suspension point (a
  \<open>pthread_cond_timedwait\<close>, a \<open>sem_wait\<close>, a \<open>sleep\<close>, the entry of
  \<open>reservar_recursos\<close>) to the next. \<open>Ponto\<close> names the suspension points of an
  operation, \<open>Fio\<close> holds the thread's program counter and the locals that live across
  suspension points: \<open>need_pista\<close>, \<open>need_portao\<close>, \<open>need_torre\<close> of the operation,
  \<open>start\<close> of \<open>reservar_recursos\<close>, and \<open>r\<close> of \<open>aviao_thread\<close> (here \<open>ret\<close>).

  A step is atomic and reads the clock once (\<open>agora\<close>). The reservation counters and
  the waiting counts are only written under their mutex, and the record of an aircraft
  only by its own thread and, for the status, by the monitor.
\<close>

datatype Fase = Pouso | Desembarque | Decolagem

datatype Ponto =
    Entrada | Fila | PosFila | Reservando | AdqTorre | AdqPortao | AdqPista | Corpo | Ocupacao

datatype Pc = NaoIniciado | Em Fase Ponto | Terminado

record Fio =
  pc :: Pc
  need_pista :: int
  need_portao :: int
  need_torre :: int
  start :: int
  ret :: int

text \<open>
  What \<open>aviao_thread\<close> does with the value an operation returns: any value other than 0
  ends the thread; 0 resets the wait clock and enters the next operation, and after
  \<open>decolagem\<close> marks the aircraft SUCESSO.
\<close>

definition retorna :: "int \<Rightarrow> Fase \<Rightarrow> int \<Rightarrow> Aviao \<Rightarrow> Fio \<Rightarrow> Global \<Rightarrow> Aviao \<times> Fio \<times> Global" where
  "retorna agora f rv a l g =
     (if rv \<noteq> 0 then (a, l\<lparr>pc := Terminado, ret := rv\<rparr>, g)
      else case f of
          Pouso \<Rightarrow> (a\<lparr>ultimo_tempo_espera := agora\<rparr>, l\<lparr>pc := Em Desembarque Entrada, ret := rv\<rparr>, g)
        | Desembarque \<Rightarrow>
            (a\<lparr>ultimo_tempo_espera := agora\<rparr>, l\<lparr>pc := Em Decolagem Entrada, ret := rv\<rparr>, g)
        | Decolagem \<Rightarrow> (a\<lparr>status_final := SUCESSO\<rparr>, l\<lparr>pc := Terminado, ret := rv\<rparr>, g))"

text \<open>The head of \<open>aviao_thread\<close>: reset the wait clock and the three flags, call \<open>pouso\<close>.\<close>

definition inicia_thread :: "int \<Rightarrow> Aviao \<Rightarrow> Fio \<Rightarrow> Global \<Rightarrow> Aviao \<times> Fio \<times> Global" where
  "inicia_thread agora a l g =
     (a\<lparr>ultimo_tempo_espera := agora, has_pista := False, has_portao := False, has_torre := False\<rparr>,
      l\<lparr>pc := Em Pouso Entrada\<rparr>, g)"

text \<open>
  Entry of an operation: \<open>if (checa_falha(aviao)) return -1;\<close> and the registration of
  \<open>aguardar_prioridade\<close>.
\<close>

definition entrada :: "int \<Rightarrow> Fase \<Rightarrow> Aviao \<Rightarrow> Fio \<Rightarrow> Global \<Rightarrow> Aviao \<times> Fio \<times> Global" where
  "entrada agora f a l g =
     (let (falhou, a1, g1) = checa_falha agora a g in
      if falhou then retorna agora f (- 1) a1 l g1
      else let (a2, g2) = aguardar_prioridade_entra agora a1 g1
           in (a2, l\<lparr>pc := Em f Fila\<rparr>, g2))"

text \<open>
  One wake-up inside the loop of \<open>aguardar_prioridade\<close>: wait again while the test
  holds, otherwise run the statement after the loop and return to the operation.
\<close>

definition fila :: "int \<Rightarrow> Fase \<Rightarrow> Aviao \<Rightarrow> Fio \<Rightarrow> Global \<Rightarrow> Aviao \<times> Fio \<times> Global" where
  "fila agora f a l g =
     (let (continua, a1, g1) = aguardar_prioridade_teste agora a g in
      if continua then (a1, l, g1)
      else let (a2, g2) = aguardar_prioridade_sai agora a1 g1
           in (a2, l\<lparr>pc := Em f PosFila\<rparr>, g2))"

fun marca_inicio :: "Fase \<Rightarrow> int \<Rightarrow> Aviao \<Rightarrow> Aviao" where
  "marca_inicio Pouso t a = a\<lparr>inicio_pouso := t\<rparr>"
| "marca_inicio Desembarque t a = a\<lparr>inicio_desembarque := t\<rparr>"
| "marca_inicio Decolagem t a = a\<lparr>inicio_decolagem := t\<rparr>"

text \<open>The remaining needs each operation computes from the progress flags.\<close>

fun necessidades :: "Fase \<Rightarrow> Aviao \<Rightarrow> int \<times> int \<times> int" where
  "necessidades Pouso a = (if has_pista a then 0 else 1, 0, if has_torre a then 0 else 1)"
| "necessidades Desembarque a = (0, if has_portao a then 0 else 1, if has_torre a then 0 else 1)"
| "necessidades Decolagem a =
     (if has_pista a then 0 else 1, if has_portao a then 0 else 1, if has_torre a then 0 else 1)"

text \<open>
  After \<open>aguardar_prioridade\<close>: the second failure check, the start time stamp, the
  remaining needs, and the head of \<open>reservar_recursos\<close> (\<open>start = time(NULL)\<close>).
\<close>

definition pos_fila :: "int \<Rightarrow> Fase \<Rightarrow> Aviao \<Rightarrow> Fio \<Rightarrow> Global \<Rightarrow> Aviao \<times> Fio \<times> Global" where
  "pos_fila agora f a l g =
     (let (falhou, a1, g1) = checa_falha agora a g in
      if falhou then retorna agora f (- 1) a1 l (liberar_prioridade (tipo a1) g1)
      else let a2 = marca_inicio f agora a1;
               (np, ng, nt) = necessidades f a2
           in (a2, l\<lparr>pc := Em f Reservando, need_pista := np, need_portao := ng,
                     need_torre := nt, start := agora\<rparr>, g1))"

text \<open>
  One pass of \<open>reservar_recursos\<close> and, when it returns, the operation's handling of the
  code: anything but SEM_OK ends the operation (a timeout first marks the aircraft FALHA),
  SEM_OK goes on to the first \<open>sem_wait\<close>.
\<close>

definition reservando :: "int \<Rightarrow> Fase \<Rightarrow> Aviao \<Rightarrow> Fio \<Rightarrow> Global \<Rightarrow> Aviao \<times> Fio \<times> Global" where
  "reservando agora f a l g =
     (let (res, a1, g1) =
            reservar_iteracao agora (start l) TIMEOUT_OPERACAO
              (need_pista l) (need_portao l) (need_torre l) a g
      in case res of
           Aguarda \<Rightarrow> (a1, l, g1)
         | Retorna rc \<Rightarrow>
             if rc \<noteq> SEM_OK
             then (let a2 = (if rc = SEM_TIMEOUT then a1\<lparr>status_final := FALHA\<rparr> else a1)
                   in retorna agora f
                        (if rc = SEM_SIM_ENCERRADA \<or> rc = SEM_AVIAO_FALHOU then rc else - 1)
                        a2 l (liberar_prioridade (tipo a2) g1))
             else (a1, l\<lparr>pc := Em f AdqTorre\<rparr>, g1))"

section \<open>Physical acquisition and release\<close>

datatype Recurso = TORRE | PORTAO | PISTA

fun possui :: "Recurso \<Rightarrow> Aviao \<Rightarrow> bool" where
  "possui TORRE a = has_torre a"
| "possui PORTAO a = has_portao a"
| "possui PISTA a = has_pista a"

fun marca :: "Recurso \<Rightarrow> bool \<Rightarrow> Aviao \<Rightarrow> Aviao" where
  "marca TORRE b a = a\<lparr>has_torre := b\<rparr>"
| "marca PORTAO b a = a\<lparr>has_portao := b\<rparr>"
| "marca PISTA b a = a\<lparr>has_pista := b\<rparr>"

fun sem_valor :: "Recurso \<Rightarrow> Global \<Rightarrow> int" where
  "sem_valor TORRE g = torres g"
| "sem_valor PORTAO g = portoes g"
| "sem_valor PISTA g = pistas g"

fun sem_post :: "Recurso \<Rightarrow> Global \<Rightarrow> Global" where
  "sem_post TORRE g = g\<lparr>torres := torres g + 1\<rparr>"
| "sem_post PORTAO g = g\<lparr>portoes := portoes g + 1\<rparr>"
| "sem_post PISTA g = g\<lparr>pistas := pistas g + 1\<rparr>"

text \<open>The effect of a \<open>sem_wait\<close> that returns 0 (the caller has seen a positive value).\<close>

fun sem_wait :: "Recurso \<Rightarrow> Global \<Rightarrow> Global" where
  "sem_wait TORRE g = g\<lparr>torres := torres g - 1\<rparr>"
| "sem_wait PORTAO g = g\<lparr>portoes := portoes g - 1\<rparr>"
| "sem_wait PISTA g = g\<lparr>pistas := pistas g - 1\<rparr>"

text \<open>
  The statement \<open>if (aviao->has_x) { sem_post(&x); aviao->has_x = 0; }\<close> of the release
  and rollback paths.
\<close>

definition devolve :: "Recurso \<Rightarrow> Aviao \<times> Global \<Rightarrow> Aviao \<times> Global" where
  "devolve rc = (\<lambda>(a, g). if possui rc a then (marca rc False a, sem_post rc g) else (a, g))"

text \<open>
  The block \<open>if (!aviao->has_x) { if (sem_wait(&x) != 0) { rollback; return -1; } has_x = 1; }\<close>.
  \<open>ok\<close> says whether this \<open>sem_wait\<close> returns 0; a \<open>sem_wait\<close> on a semaphore at 0 that
  is not interrupted stays blocked, and the step changes nothing. \<open>desfaz\<close> is the
  rollback the source writes before \<open>liberar_reserva\<close> at this block, \<open>prox\<close> the next
  suspension point. A flag that is already set skips the block.
\<close>

definition adquire ::
  "Recurso \<Rightarrow> bool \<Rightarrow> (Aviao \<times> Global \<Rightarrow> Aviao \<times> Global) \<Rightarrow> Ponto \<Rightarrow> int \<Rightarrow> Fase \<Rightarrow>
   Aviao \<Rightarrow> Fio \<Rightarrow> Global \<Rightarrow> Aviao \<times> Fio \<times> Global" where
  "adquire rc ok desfaz prox agora f a l g =
     (if \<not> possui rc a
      then (if \<not> ok
            then (let (a1, g1) = desfaz (a, g);
                      g2 = liberar_reserva (need_pista l) (need_portao l) (need_torre l) g1
                  in retorna agora f (- 1) a1 l (liberar_prioridade (tipo a1) g2))
            else if sem_valor rc g > 0
            then (marca rc True a, l\<lparr>pc := Em f prox\<rparr>, sem_wait rc g)
            else (a, l, g))
      else (a, l\<lparr>pc := Em f prox\<rparr>, g))"

text \<open>The bookkeeping block at the end of each operation.\<close>

fun marca_fim :: "Fase \<Rightarrow> int \<Rightarrow> Aviao \<Rightarrow> Aviao" where
  "marca_fim Pouso t a =
     a\<lparr>fim_pouso := t, ultimo_tempo_espera := t, em_alerta_critico := False,
       status_final := (if status_final a = ALERTA_CRITICO then SUCESSO else status_final a)\<rparr>"
| "marca_fim Desembarque t a =
     a\<lparr>fim_desembarque := t, ultimo_tempo_espera := t, em_alerta_critico := False,
       status_final := (if status_final a = ALERTA_CRITICO then SUCESSO else status_final a)\<rparr>"
| "marca_fim Decolagem t a =
     a\<lparr>fim_decolagem := t, ultimo_tempo_espera := t, em_alerta_critico := False,
       status_final := (if status_final a = ALERTA_CRITICO then SUCESSO else status_final a)\<rparr>"

text \<open>\<open>pouso\<close> after its \<open>sleep(1)\<close>: runway, tower, the reservation, bookkeeping, priority.\<close>

definition pouso_fim :: "int \<Rightarrow> Aviao \<Rightarrow> Fio \<Rightarrow> Global \<Rightarrow> Aviao \<times> Fio \<times> Global" where
  "pouso_fim agora a l g =
     (let (a1, g1) = devolve TORRE (devolve PISTA (a, g));
          g2 = liberar_reserva (need_pista l) (need_portao l) (need_torre l) g1;
          a2 = marca_fim Pouso agora a1
      in retorna agora Pouso 0 a2 l (liberar_prioridade (tipo a2) g2))"

text \<open>
  \<open>desembarque\<close> after its first \<open>sleep(1)\<close>: the tower and its part of the reservation
  go back at once, then the thread sleeps again holding the gate.
\<close>

definition desembarque_libera_torre :: "Aviao \<Rightarrow> Fio \<Rightarrow> Global \<Rightarrow> Aviao \<times> Fio \<times> Global" where
  "desembarque_libera_torre a l g =
     (let (a1, g1) = devolve TORRE (a, g);
          g2 = liberar_reserva 0 0 (need_torre l) g1
      in (a1, l\<lparr>pc := Em Desembarque Ocupacao\<rparr>, g2))"

definition desembarque_fim :: "int \<Rightarrow> Aviao \<Rightarrow> Fio \<Rightarrow> Global \<Rightarrow> Aviao \<times> Fio \<times> Global" where
  "desembarque_fim agora a l g =
     (let (a1, g1) = devolve PORTAO (a, g);
          g2 = liberar_reserva 0 (need_portao l) 0 g1;
          a2 = marca_fim Desembarque agora a1
      in retorna agora Desembarque 0 a2 l (liberar_prioridade (tipo a2) g2))"

definition decolagem_fim :: "int \<Rightarrow> Aviao \<Rightarrow> Fio \<Rightarrow> Global \<Rightarrow> Aviao \<times> Fio \<times> Global" where
  "decolagem_fim agora a l g =
     (let (a1, g1) = devolve PISTA (devolve PORTAO (devolve TORRE (a, g)));
          g2 = liberar_reserva (need_pista l) (need_portao l) (need_torre l) g1;
          a2 = marca_fim Decolagem agora a1
      in retorna agora Decolagem 0 a2 l (liberar_prioridade (tipo a2) g2))"

text \<open>
  The step of a thread inside an operation. The acquisition blocks stand in the order of
  the source: \<open>pouso\<close> tower, runway; \<open>desembarque\<close> tower, gate; \<open>decolagem\<close> tower,
  gate, runway, each with the rollback written at that block.
\<close>

fun passo_fase ::
  "int \<Rightarrow> bool \<Rightarrow> Fase \<Rightarrow> Ponto \<Rightarrow> Aviao \<Rightarrow> Fio \<Rightarrow> Global \<Rightarrow> Aviao \<times> Fio \<times> Global" where
  "passo_fase agora ok f Entrada a l g = entrada agora f a l g"
| "passo_fase agora ok f Fila a l g = fila agora f a l g"
| "passo_fase agora ok f PosFila a l g = pos_fila agora f a l g"
| "passo_fase agora ok f Reservando a l g = reservando agora f a l g"
| "passo_fase agora ok Pouso AdqTorre a l g = adquire TORRE ok id AdqPista agora Pouso a l g"
| "passo_fase agora ok Pouso AdqPista a l g =
     adquire PISTA ok (devolve TORRE) Corpo agora Pouso a l g"
| "passo_fase agora ok Pouso Corpo a l g = pouso_fim agora a l g"
| "passo_fase agora ok Desembarque AdqTorre a l g =
     adquire TORRE ok id AdqPortao agora Desembarque a l g"
| "passo_fase agora ok Desembarque AdqPortao a l g =
     adquire PORTAO ok (devolve TORRE) Corpo agora Desembarque a l g"
| "passo_fase agora ok Desembarque Corpo a l g = desembarque_libera_torre a l g"
| "passo_fase agora ok Desembarque Ocupacao a l g = desembarque_fim agora a l g"
| "passo_fase agora ok Decolagem AdqTorre a l g =
     adquire TORRE ok id AdqPortao agora Decolagem a l g"
| "passo_fase agora ok Decolagem AdqPortao a l g =
     adquire PORTAO ok (devolve TORRE) AdqPista agora Decolagem a l g"
| "passo_fase agora ok Decolagem AdqPista a l g =
     adquire PISTA ok (\<lambda>x. devolve TORRE (devolve PORTAO x)) Corpo agora Decolagem a l g"
| "passo_fase agora ok Decolagem Corpo a l g = decolagem_fim agora a l g"
| "passo_fase agora ok Pouso AdqPortao a l g = (a, l, g)"
| "passo_fase agora ok Pouso Ocupacao a l g = (a, l, g)"
| "passo_fase agora ok Desembarque AdqPista a l g = (a, l, g)"
| "passo_fase agora ok Decolagem Ocupacao a l g = (a, l, g)"

fun passo_aviao :: "int \<Rightarrow> bool \<Rightarrow> Pc \<Rightarrow> Aviao \<Rightarrow> Fio \<Rightarrow> Global \<Rightarrow> Aviao \<times> Fio \<times> Global" where
  "passo_aviao agora ok NaoIniciado a l g = inicia_thread agora a l g"
| "passo_aviao agora ok (Em f p) a l g = passo_fase agora ok f p a l g"
| "passo_aviao agora ok Terminado a l g = (a, l, g)"

section \<open>The whole simulation\<close>

text \<open>
  The state of the process: the clock, the configured capacities, the process-wide
  variables, and for each created aircraft its record and its thread.
\<close>

record Sistema =
  relogio :: int
  N_PISTAS :: int
  N_PORTOES :: int
  N_TORRES :: int
  glob :: Global
  fios :: "(Aviao \<times> Fio) list"

text \<open>\<open>inicializarRecursos\<close> and the initial values of the globals, at clock \<open>t0\<close>.\<close>

definition inicial :: "int \<Rightarrow> int \<Rightarrow> int \<Rightarrow> int \<Rightarrow> Sistema" where
  "inicial t0 n_pistas n_portoes n_torres =
     \<lparr>relogio = t0, N_PISTAS = n_pistas, N_PORTOES = n_portoes, N_TORRES = n_torres,
      glob = \<lparr>pistas = n_pistas, portoes = n_portoes, torres = n_torres,
              pistas_disp = n_pistas, portoes_disp = n_portoes, torres_disp = n_torres,
              esperando_internacional = 0, esperando_domestico = 0,
              deadlock_count = 0, acidentes_count = 0, simulacao_ativa = True\<rparr>,
      fios = []\<rparr>"

text \<open>The record \<open>main\<close> fills in for a new aircraft, and its thread before it first runs.\<close>

definition novo_aviao :: "TipoVoo \<Rightarrow> int \<Rightarrow> Aviao" where
  "novo_aviao t agora =
     \<lparr>tipo = t, inicio_pouso = 0, fim_pouso = 0, inicio_desembarque = 0, fim_desembarque = 0,
      inicio_decolagem = 0, fim_decolagem = 0, status_final = SUCESSO,
      em_alerta_critico = False, ultimo_tempo_espera = agora,
      has_pista = False, has_portao = False, has_torre = False\<rparr>"

definition fio_novo :: Fio where
  "fio_novo = \<lparr>pc = NaoIniciado, need_pista = 0, need_portao = 0, need_torre = 0,
               start = 0, ret = 0\<rparr>"

text \<open>One sweep of \<open>monitor_deadlock\<close> over the aircraft.\<close>

definition parado :: "int \<Rightarrow> Aviao \<Rightarrow> bool" where
  "parado agora a \<longleftrightarrow>
     (inicio_pouso a > 0 \<and> fim_pouso a = 0 \<and> agora - inicio_pouso a > LIMITE_DEADLOCK) \<or>
     (inicio_desembarque a > 0 \<and> fim_desembarque a = 0
        \<and> agora - inicio_desembarque a > LIMITE_DEADLOCK) \<or>
     (inicio_decolagem a > 0 \<and> fim_decolagem a = 0
        \<and> agora - inicio_decolagem a > LIMITE_DEADLOCK)"

definition detectado :: "int \<Rightarrow> Aviao \<Rightarrow> bool" where
  "detectado agora a \<longleftrightarrow>
     \<not> (status_final a = SUCESSO \<or> status_final a = FALHA \<or> status_final a = STARVATION
        \<or> status_final a = DEADLOCK) \<and> parado agora a"

definition monitor_deadlock :: "Sistema \<Rightarrow> Sistema" where
  "monitor_deadlock s =
     (let agora = relogio s;
          detectados = int (length (filter (\<lambda>(a, l). detectado agora a) (fios s)))
      in s\<lparr>fios := map (\<lambda>(a, l). (if detectado agora a then a\<lparr>status_final := DEADLOCK\<rparr> else a, l))
                      (fios s),
           glob := (glob s)\<lparr>deadlock_count := deadlock_count (glob s) + detectados\<rparr>\<rparr>)"

text \<open>
  The end of \<open>main\<close>: the stop flag, and one post on each semaphore per created aircraft.
\<close>

definition encerra :: "Sistema \<Rightarrow> Sistema" where
  "encerra s =
     (let n = int (length (fios s)); g = glob s
      in s\<lparr>glob := g\<lparr>simulacao_ativa := False, pistas := pistas g + n,
                      portoes := portoes g + n, torres := torres g + n\<rparr>\<rparr>)"

text \<open>
  The events of an execution: thread \<open>i\<close> runs its next step (with the outcome of the
  \<open>sem_wait\<close> it may call), the clock moves by one second, \<open>main\<close> creates an aircraft
  (while the simulation is active and the array has room), the monitor sweeps, \<open>main\<close>
  ends the simulation. An execution is a list of events: every interleaving of the
  threads is some list.
\<close>

datatype Evento = Executa nat bool | Tique | Cria TipoVoo | Monitor | Encerra

fun passo :: "Evento \<Rightarrow> Sistema \<Rightarrow> Sistema" where
  "passo (Executa i ok) s =
     (if i < length (fios s)
      then (let (a, l) = fios s ! i;
                (a1, l1, g1) = passo_aviao (relogio s) ok (pc l) a l (glob s)
            in s\<lparr>glob := g1, fios := (fios s)[i := (a1, l1)]\<rparr>)
      else s)"
| "passo Tique s = s\<lparr>relogio := relogio s + 1\<rparr>"
| "passo (Cria t) s =
     (if simulacao_ativa (glob s) \<and> length (fios s) < MAX_AVIOES
      then s\<lparr>fios := fios s @ [(novo_aviao t (relogio s), fio_novo)]\<rparr>
      else s)"
| "passo Monitor s = monitor_deadlock s"
| "passo Encerra s = (if simulacao_ativa (glob s) then encerra s else s)"

definition executa :: "Evento list \<Rightarrow> Sistema \<Rightarrow> Sistema" where
  "executa evs s = fold passo evs s"

section \<open>So.c: aging and the order of acquisition\<close>

text \<open>
  So.c has no reservation counters; its aircraft carry a \<open>boosted\<close> flag. Of its record
  the fields \<open>checa_starvation\<close> reads or writes are kept, with the three statistics the
  function counts.
\<close>

record AviaoSo =
  tipo_so :: TipoVoo
  inicio_espera :: int
  alertas_starvation :: int
  falhou :: bool
  boosted :: bool
  prioridade_efetiva :: int
  em_falha :: bool

record EstatSo =
  total_falha :: int
  total_alertas_starvation :: int
  total_boosts :: int

text \<open>
  \<open>checa_starvation\<close> (So.c); \<open>em_falha\<close> stands for \<open>estado == EST_FALHA\<close>, the only
  state the function assigns.
\<close>

definition checa_starvation :: "int \<Rightarrow> AviaoSo \<Rightarrow> EstatSo \<Rightarrow> bool \<times> AviaoSo \<times> EstatSo" where
  "checa_starvation t a e =
     (let espera = t - inicio_espera a;
          (a1, e1) =
            (if \<not> falhou a \<and> espera \<ge> ALERTA_CRITICO_SECS \<and> alertas_starvation a = 0
             then (let a' = a\<lparr>alertas_starvation := alertas_starvation a + 1\<rparr>;
                       (a'', e') =
                         (if \<not> boosted a'
                          then (a'\<lparr>boosted := True, prioridade_efetiva := 3\<rparr>,
                                e\<lparr>total_boosts := total_boosts e + 1\<rparr>)
                          else (a', e))
                   in (a'', e'\<lparr>total_alertas_starvation := total_alertas_starvation e' + 1\<rparr>))
             else (a, e))
      in if \<not> falhou a1 \<and> espera \<ge> TEMPO_MAXIMO_ESPERA
         then (True, a1\<lparr>falhou := True, em_falha := True\<rparr>, e1\<lparr>total_falha := total_falha e1 + 1\<rparr>)
         else (False, a1, e1))"

text \<open>
  The yield test at the head of \<open>adquirir_recurso_prioritario\<close> (So.c): a Domestic
  aircraft without boost waits while an International one is waiting.
\<close>

definition domestico_cede :: "AviaoSo \<Rightarrow> int \<Rightarrow> bool" where
  "domestico_cede a aguardando_internacional \<longleftrightarrow>
     tipo_so a = DOMESTICO \<and> \<not> boosted a \<and> aguardando_internacional > 0"


section \<open>So_restrito.c: incremental acquisition\<close>

text \<open>
  The array \<open>ordem\<close> that \<open>adquirir_fase\<close> fills for a phase and a class.
\<close>

fun ordem_restrito :: "Fase \<Rightarrow> TipoVoo \<Rightarrow> Recurso list" where
  "ordem_restrito Pouso t = (if t = INTERNACIONAL then [PISTA, TORRE] else [TORRE, PISTA])"
| "ordem_restrito Desembarque t =
     (if t = INTERNACIONAL then [PORTAO, TORRE] else [TORRE, PORTAO])"
| "ordem_restrito Decolagem t =
     (if t = INTERNACIONAL then [PORTAO, PISTA, TORRE] else [TORRE, PORTAO, PISTA])"

text \<open>
  The \<open>for\<close> loop of one pass of \<open>while (!a->falhou)\<close> in \<open>adquirir_fase\<close>, with
  \<open>MODO_FORCAR_DEADLOCK\<close> at its default 0 and no other thread posting meanwhile:
  \<open>sem_trywait\<close> takes a unit of a positive semaphore; on a semaphore at zero the polling
  ends either because \<open>TIMEOUT_RECURSO\<close> has passed (the units taken so far are posted
  back and \<open>acquired\<close> is reset) or because \<open>checa_starvation\<close> has set \<open>a->falhou\<close> (the
  loop is left at once). \<open>feitos\<close> is \<open>ordem[0..acquired-1]\<close>; the result is
  \<open>acquired\<close>, \<open>a->falhou\<close> and the semaphores.
\<close>

datatype Desfecho = Expirou | Falhou

fun adquirir_fase_for ::
  "Recurso list \<Rightarrow> Recurso list \<Rightarrow> Desfecho \<Rightarrow> Global \<Rightarrow> nat \<times> bool \<times> Global" where
  "adquirir_fase_for feitos [] d g = (length feitos, False, g)"
| "adquirir_fase_for feitos (rc # resto) d g =
     (if sem_valor rc g > 0
      then adquirir_fase_for (feitos @ [rc]) resto d (sem_wait rc g)
      else (case d of
              Expirou \<Rightarrow> (0, False, fold sem_post feitos g)
            | Falhou \<Rightarrow> (length feitos, True, g)))"

text \<open>
  The pass as a whole: \<open>return -1\<close> when \<open>a->falhou\<close>, \<open>return 0\<close> when all of \<open>ordem\<close>
  was acquired, another pass otherwise. The count \<open>aguardando_internacional\<close> goes up
  before the \<open>for\<close> loop and down after it on every path.
\<close>

definition adquirir_fase_passo ::
  "Fase \<Rightarrow> TipoVoo \<Rightarrow> Desfecho \<Rightarrow> Global \<Rightarrow> Tentativa \<times> Global" where
  "adquirir_fase_passo f t d g =
     (let ordem = ordem_restrito f t;
          (acquired, falhou, g1) = adquirir_fase_for [] ordem d g
      in if falhou then (Retorna (- 1), g1)
         else if acquired = length ordem then (Retorna 0, g1)
         else (Aguarda, g1))"

section \<open>Observations used by the theorems\<close>

text \<open>
  The progress flags of an aircraft as a triple (runway, gate, tower), and the units of
  the reservation counters a thread has debited and not yet credited back, read off its
  program counter and its locals: from the grant of \<open>reservar_recursos\<close> to the
  \<open>liberar_reserva\<close> of the operation the thread owes its remaining needs; in
  \<open>desembarque\<close>, after the tower part went back, it still owes the gate part.
\<close>

definition bandeiras :: "Aviao \<Rightarrow> bool \<times> bool \<times> bool" where
  "bandeiras a = (has_pista a, has_portao a, has_torre a)"

fun deve :: "Pc \<Rightarrow> bool" where
  "deve (Em f AdqTorre) = True"
| "deve (Em f AdqPortao) = True"
| "deve (Em f AdqPista) = True"
| "deve (Em f Corpo) = True"
| "deve p = False"

definition res_pista :: "Fio \<Rightarrow> int" where
  "res_pista l = (if deve (pc l) then need_pista l else 0)"

definition res_portao :: "Fio \<Rightarrow> int" where
  "res_portao l =
     (if deve (pc l) \<or> pc l = Em Desembarque Ocupacao then need_portao l else 0)"

definition res_torre :: "Fio \<Rightarrow> int" where
  "res_torre l = (if deve (pc l) then need_torre l else 0)"

definition total :: "(Fio \<Rightarrow> int) \<Rightarrow> Sistema \<Rightarrow> int" where
  "total h s = sum_list (map (\<lambda>(a, l). h l) (fios s))"

text \<open>The number of aircraft whose flag for a resource is set.\<close>

definition com_bandeira :: "Recurso \<Rightarrow> Sistema \<Rightarrow> int" where
  "com_bandeira rc s = sum_list (map (\<lambda>(a, l). if possui rc a then 1 else 0) (fios s))"

text \<open>
  The resources each operation needs, as (runway, gate, tower), after the comments at the
  head of \<open>pouso\<close>, \<open>desembarque\<close> and \<open>decolagem\<close>; and the flags (runway, gate,
  tower) a thread has set at each suspension point when it entered the operation with
  none.
\<close>

fun requisitos :: "Fase \<Rightarrow> int \<times> int \<times> int" where
  "requisitos Pouso = (1, 0, 1)"
| "requisitos Desembarque = (0, 1, 1)"
| "requisitos Decolagem = (1, 1, 1)"

fun bandeiras_em :: "Pc \<Rightarrow> bool \<times> bool \<times> bool" where
  "bandeiras_em (Em Pouso AdqPista) = (False, False, True)"
| "bandeiras_em (Em Pouso Corpo) = (True, False, True)"
| "bandeiras_em (Em Desembarque AdqPortao) = (False, False, True)"
| "bandeiras_em (Em Desembarque Corpo) = (False, True, True)"
| "bandeiras_em (Em Desembarque Ocupacao) = (False, True, False)"
| "bandeiras_em (Em Decolagem AdqPortao) = (False, False, True)"
| "bandeiras_em (Em Decolagem AdqPista) = (False, True, True)"
| "bandeiras_em (Em Decolagem Corpo) = (True, True, True)"
| "bandeiras_em p = (False, False, False)"

text \<open>Suspension points that belong to the operation, and points past the reservation.\<close>

fun ponto_da_fase :: "Fase \<Rightarrow> Ponto \<Rightarrow> bool" where
  "ponto_da_fase Pouso AdqPortao = False"
| "ponto_da_fase Pouso Ocupacao = False"
| "ponto_da_fase Desembarque AdqPista = False"
| "ponto_da_fase Decolagem Ocupacao = False"
| "ponto_da_fase f p = True"

fun com_necessidades :: "Ponto \<Rightarrow> bool" where
  "com_necessidades Entrada = False"
| "com_necessidades Fila = False"
| "com_necessidades PosFila = False"
| "com_necessidades p = True"

text \<open>
  The invariant of one thread: its flags are those of its program counter, and from the
  reservation on its locals hold the full requirement of the operation.
\<close>

fun fio_ok :: "Aviao \<times> Fio \<Rightarrow> bool" where
  "fio_ok (a, l) \<longleftrightarrow>
     bandeiras a = bandeiras_em (pc l) \<and>
     (case pc l of
        Em f p \<Rightarrow> ponto_da_fase f p \<and>
          (if com_necessidades p
           then (need_pista l, need_portao l, need_torre l) = requisitos f else True)
      | _ \<Rightarrow> True)"

text \<open>
  The invariant of the system: every thread is in order, each reservation counter is
  non-negative, and counter plus the units the threads owe is the configured capacity.
\<close>

definition inv :: "Sistema \<Rightarrow> bool" where
  "inv s \<longleftrightarrow>
     list_all fio_ok (fios s) \<and>
     0 \<le> pistas_disp (glob s) \<and> 0 \<le> portoes_disp (glob s) \<and> 0 \<le> torres_disp (glob s) \<and>
     pistas_disp (glob s) + total res_pista s = N_PISTAS s \<and>
     portoes_disp (glob s) + total res_portao s = N_PORTOES s \<and>
     torres_disp (glob s) + total res_torre s = N_TORRES s"




text \<open>
  The suspension points from which a thread runs the bookkeeping block that ends an
  operation (\<open>em_alerta_critico = 0\<close> among its assignments).
\<close>

fun bloco_final :: "Pc \<Rightarrow> bool" where
  "bloco_final (Em Pouso Corpo) = True"
| "bloco_final (Em Desembarque Ocupacao) = True"
| "bloco_final (Em Decolagem Corpo) = True"
| "bloco_final p = False"

text \<open>
  The program counters of a thread that has not been granted a landing reservation: not
  started, inside \<open>pouso\<close> up to the reservation, or ended.
\<close>

fun sem_reserva :: "Pc \<Rightarrow> bool" where
  "sem_reserva NaoIniciado = True"
| "sem_reserva Terminado = True"
| "sem_reserva (Em Pouso Entrada) = True"
| "sem_reserva (Em Pouso Fila) = True"
| "sem_reserva (Em Pouso PosFila) = True"
| "sem_reserva (Em Pouso Reservando) = True"
| "sem_reserva p = False"

text \<open>
  What holds of a thread while no landing reservation has been granted to it: it has
  not completed a landing, and if it has ended, it ended with a failure value and, unless
  that value is SEM_SIM_ENCERRADA, with the status FALHA or STARVATION.
\<close>

fun fio_sem_pouso :: "Aviao \<times> Fio \<Rightarrow> bool" where
  "fio_sem_pouso (a, l) \<longleftrightarrow>
     fio_ok (a, l) \<and> sem_reserva (pc l) \<and> fim_pouso a = 0 \<and>
     (if pc l = Terminado
      then ret l \<noteq> 0 \<and>
           (if ret l = SEM_SIM_ENCERRADA then True
            else status_final a = FALHA \<or> status_final a = STARVATION)
      else True)"

text \<open>
  What holds of a thread whose aircraft is FALHA or STARVATION: it has ended, or it is at
  the check that follows the priority wait.
\<close>

definition falha_parada :: "Aviao \<times> Fio \<Rightarrow> bool" where
  "falha_parada x \<longleftrightarrow>
     (status_final (fst x) = FALHA \<or> status_final (fst x) = STARVATION \<longrightarrow>
        pc (snd x) = Terminado \<or> pc (snd x) = Em Pouso PosFila
        \<or> pc (snd x) = Em Desembarque PosFila \<or> pc (snd x) = Em Decolagem PosFila)"

section \<open>Scenarios\<close>

text \<open>
  Executions used to show the theorems at work, each run from \<open>inicial\<close>.
\<close>

text \<open>
  One aircraft with the default capacities, up to the pass of \<open>reservar_recursos\<close>
  that grants its landing reservation.
\<close>

definition cenario_antes_da_reserva :: "Evento list" where
  "cenario_antes_da_reserva =
     [Cria INTERNACIONAL, Executa 0 True, Executa 0 True, Executa 0 True, Executa 0 True]"

text \<open>The same aircraft after the grant, before its first \<open>sem_wait\<close>.\<close>

definition cenario_reserva :: "Evento list" where
  "cenario_reserva =
     [Cria INTERNACIONAL, Executa 0 True, Executa 0 True, Executa 0 True, Executa 0 True,
      Executa 0 True]"


definition cenario_corpo :: "Evento list" where
  "cenario_corpo = cenario_reserva @ [Executa 0 True, Executa 0 True]"

text \<open>
  An International and a Domestic aircraft arrive at clock 0 with the default capacities
  (3 runways, 5 gates, 2 tower slots). The International one registers in the priority
  queue and is not scheduled again. The Domestic one waits in the queue behind it for 60
  seconds, is put in critical alert by its next wake-up and leaves the queue.
\<close>

definition cenario_alerta :: "Evento list" where
  "cenario_alerta =
     [Cria INTERNACIONAL, Cria DOMESTICO, Executa 0 True, Executa 0 True, Executa 0 True,
      Executa 1 True, Executa 1 True] @ replicate 60 Tique @ [Executa 1 True]"

text \<open>
  The Domestic aircraft then runs alone: it reserves, takes tower and runway, lands,
  enters \<open>desembarque\<close>, registers in the queue and wakes up once in the queue.
\<close>

definition cenario_apos_pouso :: "Evento list" where
  "cenario_apos_pouso =
     cenario_alerta @ [Executa 1 True, Executa 1 True, Executa 1 True, Executa 1 True,
                       Executa 1 True, Executa 1 True, Executa 1 True]"

text \<open>
  One International aircraft with no runway configured: it reaches the reservation, makes
  one pass, and \<open>main\<close> ends the simulation before the timeout.
\<close>

definition cenario_sem_pista :: "Evento list" where
  "cenario_sem_pista =
     [Cria INTERNACIONAL, Executa 0 True, Executa 0 True, Executa 0 True, Executa 0 True,
      Executa 0 True, Encerra, Executa 0 True]"

text \<open>
  One International aircraft with no runway configured, at its landing reservation 10
  seconds after the reservation began, before the pass that finds the timeout.
\<close>

definition cenario_espera :: "Evento list" where
  "cenario_espera =
     [Cria INTERNACIONAL, Executa 0 True, Executa 0 True, Executa 0 True, Executa 0 True]
     @ replicate 10 Tique"

text \<open>
  One International aircraft with no runway configured whose landing reservation waits
  for the whole timeout of 10 seconds.
\<close>

definition cenario_timeout :: "Evento list" where
  "cenario_timeout =
     [Cria INTERNACIONAL, Executa 0 True, Executa 0 True, Executa 0 True, Executa 0 True]
     @ replicate 10 Tique @ [Executa 0 True]"

text \<open>The initial globals with one International aircraft registered in the queue.\<close>

definition cenario_fila_internacional :: Global where
  "cenario_fila_internacional = (glob (inicial 0 3 5 2))\<lparr>esperando_internacional := 1\<rparr>"

section \<open>Basic facts about the operations\<close>

subsection \<open>verificar_starvation and checa_falha\<close>

lemma verificar_starvation_global [simp]:
  "pistas_disp (snd (verificar_starvation t a g)) = pistas_disp g"
  "portoes_disp (snd (verificar_starvation t a g)) = portoes_disp g"
  "torres_disp (snd (verificar_starvation t a g)) = torres_disp g"
  "esperando_internacional (snd (verificar_starvation t a g)) = esperando_internacional g"
  "esperando_domestico (snd (verificar_starvation t a g)) = esperando_domestico g"
  "simulacao_ativa (snd (verificar_starvation t a g)) = simulacao_ativa g"
  "pistas (snd (verificar_starvation t a g)) = pistas g"
  "portoes (snd (verificar_starvation t a g)) = portoes g"
  "torres (snd (verificar_starvation t a g)) = torres g"
  by (simp_all add: verificar_starvation_def Let_def)

lemma verificar_starvation_aviao [simp]:
  "tipo (fst (verificar_starvation t a g)) = tipo a"
  "has_pista (fst (verificar_starvation t a g)) = has_pista a"
  "has_portao (fst (verificar_starvation t a g)) = has_portao a"
  "has_torre (fst (verificar_starvation t a g)) = has_torre a"
  "ultimo_tempo_espera (fst (verificar_starvation t a g)) = ultimo_tempo_espera a"
  by (simp_all add: verificar_starvation_def Let_def)

lemma verificar_starvation_alerta_mono:
  "em_alerta_critico a \<Longrightarrow> em_alerta_critico (fst (verificar_starvation t a g))"
  by (simp add: verificar_starvation_def Let_def)

lemma verificar_starvation_terminal:
  "status_final a = FALHA \<or> status_final a = STARVATION \<or> status_final a = DEADLOCK \<Longrightarrow>
   verificar_starvation t a g = (a, g)"
  by (simp add: verificar_starvation_def)

lemma checa_falha_proj [simp]:
  "fst (checa_falha t a g) =
     (status_final (fst (verificar_starvation t a g)) = FALHA
        \<or> status_final (fst (verificar_starvation t a g)) = STARVATION)"
  "fst (snd (checa_falha t a g)) = fst (verificar_starvation t a g)"
  "snd (snd (checa_falha t a g)) = snd (verificar_starvation t a g)"
  by (simp_all add: checa_falha_def case_prod_beta)

subsection \<open>Reservation counters\<close>

lemma espera_ou_timeout_nao_ok [simp]: "espera_ou_timeout t i tmo \<noteq> Retorna SEM_OK"
  by (simp add: espera_ou_timeout_def Let_def)

lemma debita_campos [simp]:
  "pistas_disp (debita np ng nt g) = pistas_disp g - np"
  "portoes_disp (debita np ng nt g) = portoes_disp g - ng"
  "torres_disp (debita np ng nt g) = torres_disp g - nt"
  "pistas (debita np ng nt g) = pistas g"
  "portoes (debita np ng nt g) = portoes g"
  "torres (debita np ng nt g) = torres g"
  "esperando_internacional (debita np ng nt g) = esperando_internacional g"
  "esperando_domestico (debita np ng nt g) = esperando_domestico g"
  "simulacao_ativa (debita np ng nt g) = simulacao_ativa g"
  by (simp_all add: debita_def)

lemma liberar_reserva_campos [simp]:
  "pistas_disp (liberar_reserva np ng nt g) = pistas_disp g + np"
  "portoes_disp (liberar_reserva np ng nt g) = portoes_disp g + ng"
  "torres_disp (liberar_reserva np ng nt g) = torres_disp g + nt"
  "pistas (liberar_reserva np ng nt g) = pistas g"
  "portoes (liberar_reserva np ng nt g) = portoes g"
  "torres (liberar_reserva np ng nt g) = torres g"
  "esperando_internacional (liberar_reserva np ng nt g) = esperando_internacional g"
  "esperando_domestico (liberar_reserva np ng nt g) = esperando_domestico g"
  "simulacao_ativa (liberar_reserva np ng nt g) = simulacao_ativa g"
  by (simp_all add: liberar_reserva_def)

lemma liberar_prioridade_campos [simp]:
  "pistas_disp (liberar_prioridade tp g) = pistas_disp g"
  "portoes_disp (liberar_prioridade tp g) = portoes_disp g"
  "torres_disp (liberar_prioridade tp g) = torres_disp g"
  "pistas (liberar_prioridade tp g) = pistas g"
  "portoes (liberar_prioridade tp g) = portoes g"
  "torres (liberar_prioridade tp g) = torres g"
  "simulacao_ativa (liberar_prioridade tp g) = simulacao_ativa g"
  by (simp_all add: liberar_prioridade_def)

lemma reservar_iteracao_ok:
  "fst (reservar_iteracao t i tmo np ng nt a g) = Retorna SEM_OK \<longleftrightarrow>
     simulacao_ativa g \<and> \<not> fst (checa_falha t a g) \<and> disponivel np ng nt g
     \<and> \<not> (tipo a = DOMESTICO \<and> \<not> em_alerta_critico (fst (verificar_starvation t a g))
           \<and> esperando_internacional g > 0)"
  by (simp add: reservar_iteracao_def case_prod_beta disponivel_def)

lemma reservar_iteracao_disp:
  "pistas_disp (snd (snd (reservar_iteracao t i tmo np ng nt a g))) =
     (if fst (reservar_iteracao t i tmo np ng nt a g) = Retorna SEM_OK
      then pistas_disp g - np else pistas_disp g)"
  "portoes_disp (snd (snd (reservar_iteracao t i tmo np ng nt a g))) =
     (if fst (reservar_iteracao t i tmo np ng nt a g) = Retorna SEM_OK
      then portoes_disp g - ng else portoes_disp g)"
  "torres_disp (snd (snd (reservar_iteracao t i tmo np ng nt a g))) =
     (if fst (reservar_iteracao t i tmo np ng nt a g) = Retorna SEM_OK
      then torres_disp g - nt else torres_disp g)"
  by (simp_all add: reservar_iteracao_def case_prod_beta)

lemma reservar_iteracao_global [simp]:
  "pistas (snd (snd (reservar_iteracao t i tmo np ng nt a g))) = pistas g"
  "portoes (snd (snd (reservar_iteracao t i tmo np ng nt a g))) = portoes g"
  "torres (snd (snd (reservar_iteracao t i tmo np ng nt a g))) = torres g"
  "esperando_internacional (snd (snd (reservar_iteracao t i tmo np ng nt a g)))
     = esperando_internacional g"
  "esperando_domestico (snd (snd (reservar_iteracao t i tmo np ng nt a g)))
     = esperando_domestico g"
  "simulacao_ativa (snd (snd (reservar_iteracao t i tmo np ng nt a g))) = simulacao_ativa g"
  by (simp_all add: reservar_iteracao_def case_prod_beta)

lemma reservar_iteracao_aviao [simp]:
  "tipo (fst (snd (reservar_iteracao t i tmo np ng nt a g))) = tipo a"
  "has_pista (fst (snd (reservar_iteracao t i tmo np ng nt a g))) = has_pista a"
  "has_portao (fst (snd (reservar_iteracao t i tmo np ng nt a g))) = has_portao a"
  "has_torre (fst (snd (reservar_iteracao t i tmo np ng nt a g))) = has_torre a"
  by (simp_all add: reservar_iteracao_def case_prod_beta)

lemma reservar_iteracao_alerta_mono:
  "em_alerta_critico a \<Longrightarrow>
   em_alerta_critico (fst (snd (reservar_iteracao t i tmo np ng nt a g)))"
  by (simp add: reservar_iteracao_def case_prod_beta verificar_starvation_alerta_mono)

subsection \<open>Return to aviao_thread\<close>

lemma retorna_pc [simp]:
  "pc (fst (snd (retorna t f rv a l g))) =
     (if rv \<noteq> 0 then Terminado
      else case f of Pouso \<Rightarrow> Em Desembarque Entrada | Desembarque \<Rightarrow> Em Decolagem Entrada
           | Decolagem \<Rightarrow> Terminado)"
  by (cases f) (simp_all add: retorna_def)

lemma retorna_fio [simp]:
  "need_pista (fst (snd (retorna t f rv a l g))) = need_pista l"
  "need_portao (fst (snd (retorna t f rv a l g))) = need_portao l"
  "need_torre (fst (snd (retorna t f rv a l g))) = need_torre l"
  "ret (fst (snd (retorna t f rv a l g))) = rv"
  by (cases f; simp add: retorna_def)+

lemma retorna_global [simp]: "snd (snd (retorna t f rv a l g)) = g"
  by (cases f) (simp_all add: retorna_def)

lemma retorna_aviao [simp]:
  "tipo (fst (retorna t f rv a l g)) = tipo a"
  "has_pista (fst (retorna t f rv a l g)) = has_pista a"
  "has_portao (fst (retorna t f rv a l g)) = has_portao a"
  "has_torre (fst (retorna t f rv a l g)) = has_torre a"
  "em_alerta_critico (fst (retorna t f rv a l g)) = em_alerta_critico a"
  by (cases f; simp add: retorna_def)+

lemma retorna_falha [simp]: "rv \<noteq> 0 \<Longrightarrow> fst (retorna t f rv a l g) = a"
  by (simp add: retorna_def)

subsection \<open>Entry, queue, re-check\<close>

lemma aguardar_prioridade_entra_proj [simp]:
  "tipo (fst (aguardar_prioridade_entra t a g)) = tipo a"
  "has_pista (fst (aguardar_prioridade_entra t a g)) = has_pista a"
  "has_portao (fst (aguardar_prioridade_entra t a g)) = has_portao a"
  "has_torre (fst (aguardar_prioridade_entra t a g)) = has_torre a"
  "em_alerta_critico (fst (aguardar_prioridade_entra t a g)) = em_alerta_critico a"
  "pistas_disp (snd (aguardar_prioridade_entra t a g)) = pistas_disp g"
  "portoes_disp (snd (aguardar_prioridade_entra t a g)) = portoes_disp g"
  "torres_disp (snd (aguardar_prioridade_entra t a g)) = torres_disp g"
  "pistas (snd (aguardar_prioridade_entra t a g)) = pistas g"
  "portoes (snd (aguardar_prioridade_entra t a g)) = portoes g"
  "torres (snd (aguardar_prioridade_entra t a g)) = torres g"
  by (simp_all add: aguardar_prioridade_entra_def Let_def)

lemma entrada_pc:
  "pc (fst (snd (entrada t f a l g))) =
     (if fst (checa_falha t a g) then Terminado else Em f Fila)"
  by (simp add: entrada_def case_prod_beta)

lemma entrada_proj [simp]:
  "need_pista (fst (snd (entrada t f a l g))) = need_pista l"
  "need_portao (fst (snd (entrada t f a l g))) = need_portao l"
  "need_torre (fst (snd (entrada t f a l g))) = need_torre l"
  "tipo (fst (entrada t f a l g)) = tipo a"
  "has_pista (fst (entrada t f a l g)) = has_pista a"
  "has_portao (fst (entrada t f a l g)) = has_portao a"
  "has_torre (fst (entrada t f a l g)) = has_torre a"
  "pistas_disp (snd (snd (entrada t f a l g))) = pistas_disp g"
  "portoes_disp (snd (snd (entrada t f a l g))) = portoes_disp g"
  "torres_disp (snd (snd (entrada t f a l g))) = torres_disp g"
  "pistas (snd (snd (entrada t f a l g))) = pistas g"
  "portoes (snd (snd (entrada t f a l g))) = portoes g"
  "torres (snd (snd (entrada t f a l g))) = torres g"
  by (simp_all add: entrada_def case_prod_beta)

lemma entrada_alerta_mono:
  "em_alerta_critico a \<Longrightarrow> em_alerta_critico (fst (entrada t f a l g))"
  by (simp add: entrada_def case_prod_beta verificar_starvation_alerta_mono)

lemma aguardar_prioridade_teste_proj [simp]:
  "tipo (fst (snd (aguardar_prioridade_teste t a g))) = tipo a"
  "has_pista (fst (snd (aguardar_prioridade_teste t a g))) = has_pista a"
  "has_portao (fst (snd (aguardar_prioridade_teste t a g))) = has_portao a"
  "has_torre (fst (snd (aguardar_prioridade_teste t a g))) = has_torre a"
  "pistas_disp (snd (snd (aguardar_prioridade_teste t a g))) = pistas_disp g"
  "portoes_disp (snd (snd (aguardar_prioridade_teste t a g))) = portoes_disp g"
  "torres_disp (snd (snd (aguardar_prioridade_teste t a g))) = torres_disp g"
  "pistas (snd (snd (aguardar_prioridade_teste t a g))) = pistas g"
  "portoes (snd (snd (aguardar_prioridade_teste t a g))) = portoes g"
  "torres (snd (snd (aguardar_prioridade_teste t a g))) = torres g"
  by (simp_all add: aguardar_prioridade_teste_def case_prod_beta)

lemma aguardar_prioridade_teste_alerta_mono:
  "em_alerta_critico a \<Longrightarrow> em_alerta_critico (fst (snd (aguardar_prioridade_teste t a g)))"
  by (simp add: aguardar_prioridade_teste_def case_prod_beta verificar_starvation_alerta_mono)

lemma aguardar_prioridade_sai_proj [simp]:
  "tipo (fst (aguardar_prioridade_sai t a g)) = tipo a"
  "has_pista (fst (aguardar_prioridade_sai t a g)) = has_pista a"
  "has_portao (fst (aguardar_prioridade_sai t a g)) = has_portao a"
  "has_torre (fst (aguardar_prioridade_sai t a g)) = has_torre a"
  "pistas_disp (snd (aguardar_prioridade_sai t a g)) = pistas_disp g"
  "portoes_disp (snd (aguardar_prioridade_sai t a g)) = portoes_disp g"
  "torres_disp (snd (aguardar_prioridade_sai t a g)) = torres_disp g"
  "pistas (snd (aguardar_prioridade_sai t a g)) = pistas g"
  "portoes (snd (aguardar_prioridade_sai t a g)) = portoes g"
  "torres (snd (aguardar_prioridade_sai t a g)) = torres g"
  by (simp_all add: aguardar_prioridade_sai_def case_prod_beta)

lemma aguardar_prioridade_sai_alerta_mono:
  "em_alerta_critico a \<Longrightarrow> em_alerta_critico (fst (aguardar_prioridade_sai t a g))"
  by (simp add: aguardar_prioridade_sai_def case_prod_beta verificar_starvation_alerta_mono)

lemma fila_pc:
  "pc (fst (snd (fila t f a l g))) =
     (if fst (aguardar_prioridade_teste t a g) then pc l else Em f PosFila)"
  by (simp add: fila_def case_prod_beta)

lemma fila_proj [simp]:
  "need_pista (fst (snd (fila t f a l g))) = need_pista l"
  "need_portao (fst (snd (fila t f a l g))) = need_portao l"
  "need_torre (fst (snd (fila t f a l g))) = need_torre l"
  "tipo (fst (fila t f a l g)) = tipo a"
  "has_pista (fst (fila t f a l g)) = has_pista a"
  "has_portao (fst (fila t f a l g)) = has_portao a"
  "has_torre (fst (fila t f a l g)) = has_torre a"
  "pistas_disp (snd (snd (fila t f a l g))) = pistas_disp g"
  "portoes_disp (snd (snd (fila t f a l g))) = portoes_disp g"
  "torres_disp (snd (snd (fila t f a l g))) = torres_disp g"
  "pistas (snd (snd (fila t f a l g))) = pistas g"
  "portoes (snd (snd (fila t f a l g))) = portoes g"
  "torres (snd (snd (fila t f a l g))) = torres g"
  by (simp_all add: fila_def case_prod_beta)

lemma fila_alerta_mono:
  "em_alerta_critico a \<Longrightarrow> em_alerta_critico (fst (fila t f a l g))"
  by (simp add: fila_def case_prod_beta aguardar_prioridade_teste_alerta_mono
        aguardar_prioridade_sai_alerta_mono)

lemma marca_inicio_proj [simp]:
  "tipo (marca_inicio f t a) = tipo a"
  "has_pista (marca_inicio f t a) = has_pista a"
  "has_portao (marca_inicio f t a) = has_portao a"
  "has_torre (marca_inicio f t a) = has_torre a"
  "em_alerta_critico (marca_inicio f t a) = em_alerta_critico a"
  "status_final (marca_inicio f t a) = status_final a"
  by (cases f; simp)+

lemma pos_fila_pc:
  "pc (fst (snd (pos_fila t f a l g))) =
     (if fst (checa_falha t a g) then Terminado else Em f Reservando)"
  by (simp add: pos_fila_def case_prod_beta Let_def)

lemma pos_fila_need:
  "\<not> fst (checa_falha t a g) \<Longrightarrow>
   (need_pista (fst (snd (pos_fila t f a l g))), need_portao (fst (snd (pos_fila t f a l g))),
    need_torre (fst (snd (pos_fila t f a l g)))) = necessidades f a"
  by (cases f) (simp_all add: pos_fila_def case_prod_beta Let_def)

lemma pos_fila_proj [simp]:
  "tipo (fst (pos_fila t f a l g)) = tipo a"
  "has_pista (fst (pos_fila t f a l g)) = has_pista a"
  "has_portao (fst (pos_fila t f a l g)) = has_portao a"
  "has_torre (fst (pos_fila t f a l g)) = has_torre a"
  "pistas_disp (snd (snd (pos_fila t f a l g))) = pistas_disp g"
  "portoes_disp (snd (snd (pos_fila t f a l g))) = portoes_disp g"
  "torres_disp (snd (snd (pos_fila t f a l g))) = torres_disp g"
  "pistas (snd (snd (pos_fila t f a l g))) = pistas g"
  "portoes (snd (snd (pos_fila t f a l g))) = portoes g"
  "torres (snd (snd (pos_fila t f a l g))) = torres g"
  by (simp_all add: pos_fila_def case_prod_beta Let_def)

lemma pos_fila_alerta_mono:
  "em_alerta_critico a \<Longrightarrow> em_alerta_critico (fst (pos_fila t f a l g))"
  by (simp add: pos_fila_def case_prod_beta Let_def verificar_starvation_alerta_mono)

subsection \<open>Reservation step\<close>

lemma reservando_pc:
  "pc (fst (snd (reservando t f a l g))) =
     (case fst (reservar_iteracao t (start l) TIMEOUT_OPERACAO
                  (need_pista l) (need_portao l) (need_torre l) a g) of
        Aguarda \<Rightarrow> pc l
      | Retorna rc \<Rightarrow> if rc = SEM_OK then Em f AdqTorre else Terminado)"
  by (simp add: reservando_def case_prod_beta Let_def split: Tentativa.split)

lemma reservando_proj [simp]:
  "need_pista (fst (snd (reservando t f a l g))) = need_pista l"
  "need_portao (fst (snd (reservando t f a l g))) = need_portao l"
  "need_torre (fst (snd (reservando t f a l g))) = need_torre l"
  "tipo (fst (reservando t f a l g)) = tipo a"
  "has_pista (fst (reservando t f a l g)) = has_pista a"
  "has_portao (fst (reservando t f a l g)) = has_portao a"
  "has_torre (fst (reservando t f a l g)) = has_torre a"
  "pistas (snd (snd (reservando t f a l g))) = pistas g"
  "portoes (snd (snd (reservando t f a l g))) = portoes g"
  "torres (snd (snd (reservando t f a l g))) = torres g"
  by (simp_all add: reservando_def case_prod_beta Let_def split: Tentativa.split)

lemma reservando_disp:
  "pistas_disp (snd (snd (reservando t f a l g))) =
     pistas_disp (snd (snd (reservar_iteracao t (start l) TIMEOUT_OPERACAO
                              (need_pista l) (need_portao l) (need_torre l) a g)))"
  "portoes_disp (snd (snd (reservando t f a l g))) =
     portoes_disp (snd (snd (reservar_iteracao t (start l) TIMEOUT_OPERACAO
                              (need_pista l) (need_portao l) (need_torre l) a g)))"
  "torres_disp (snd (snd (reservando t f a l g))) =
     torres_disp (snd (snd (reservar_iteracao t (start l) TIMEOUT_OPERACAO
                              (need_pista l) (need_portao l) (need_torre l) a g)))"
  by (simp_all add: reservando_def case_prod_beta Let_def split: Tentativa.split)

lemma reservando_alerta_mono:
  "em_alerta_critico a \<Longrightarrow> em_alerta_critico (fst (reservando t f a l g))"
  by (simp add: reservando_def case_prod_beta Let_def reservar_iteracao_alerta_mono
        split: Tentativa.split)

subsection \<open>Acquisition and release\<close>

lemma devolve_bandeiras [simp]:
  "possui rc' (fst (devolve rc x)) = (if rc' = rc then False else possui rc' (fst x))"
  by (cases rc; cases rc'; cases x; simp add: devolve_def)

lemma devolve_aviao [simp]:
  "tipo (fst (devolve rc x)) = tipo (fst x)"
  "em_alerta_critico (fst (devolve rc x)) = em_alerta_critico (fst x)"
  "status_final (fst (devolve rc x)) = status_final (fst x)"
  by (cases rc; cases x; simp add: devolve_def)+

lemma devolve_sem [simp]:
  "sem_valor rc' (snd (devolve rc x)) =
     (if rc' = rc \<and> possui rc (fst x) then sem_valor rc' (snd x) + 1 else sem_valor rc' (snd x))"
  by (cases rc; cases rc'; cases x; simp add: devolve_def)

lemma devolve_global [simp]:
  "pistas_disp (snd (devolve rc x)) = pistas_disp (snd x)"
  "portoes_disp (snd (devolve rc x)) = portoes_disp (snd x)"
  "torres_disp (snd (devolve rc x)) = torres_disp (snd x)"
  "esperando_internacional (snd (devolve rc x)) = esperando_internacional (snd x)"
  "esperando_domestico (snd (devolve rc x)) = esperando_domestico (snd x)"
  "simulacao_ativa (snd (devolve rc x)) = simulacao_ativa (snd x)"
  by (cases rc; cases x; simp add: devolve_def)+

lemma has_possui:
  "has_torre a = possui TORRE a" "has_portao a = possui PORTAO a" "has_pista a = possui PISTA a"
  by simp_all

lemma sem_valor_campos:
  "torres g = sem_valor TORRE g" "portoes g = sem_valor PORTAO g" "pistas g = sem_valor PISTA g"
  by simp_all

lemma marca_possui [simp]:
  "possui rc' (marca rc b a) = (if rc' = rc then b else possui rc' a)"
  by (cases rc; cases rc'; simp)

lemma marca_aviao [simp]:
  "tipo (marca rc b a) = tipo a"
  "em_alerta_critico (marca rc b a) = em_alerta_critico a"
  "status_final (marca rc b a) = status_final a"
  by (cases rc; simp)+

lemma sem_wait_campos [simp]:
  "sem_valor rc' (sem_wait rc g) = (if rc' = rc then sem_valor rc' g - 1 else sem_valor rc' g)"
  "pistas_disp (sem_wait rc g) = pistas_disp g"
  "portoes_disp (sem_wait rc g) = portoes_disp g"
  "torres_disp (sem_wait rc g) = torres_disp g"
  "esperando_internacional (sem_wait rc g) = esperando_internacional g"
  "esperando_domestico (sem_wait rc g) = esperando_domestico g"
  by (cases rc; cases rc'; simp)+

lemma marca_fim_proj [simp]:
  "tipo (marca_fim f t a) = tipo a"
  "has_pista (marca_fim f t a) = has_pista a"
  "has_portao (marca_fim f t a) = has_portao a"
  "has_torre (marca_fim f t a) = has_torre a"
  "em_alerta_critico (marca_fim f t a) = False"
  by (cases f; simp)+

subsection \<open>Each step keeps the thread invariant\<close>

lemma fio_ok_inicia:
  "fio_ok (fst (inicia_thread t a l g), fst (snd (inicia_thread t a l g)))"
  by (simp add: inicia_thread_def bandeiras_def)

lemma fio_ok_entrada:
  "fio_ok (a, l) \<Longrightarrow> pc l = Em f Entrada \<Longrightarrow>
   fio_ok (fst (entrada t f a l g), fst (snd (entrada t f a l g)))"
  by (simp add: bandeiras_def entrada_pc)

lemma fio_ok_fila:
  "fio_ok (a, l) \<Longrightarrow> pc l = Em f Fila \<Longrightarrow>
   fio_ok (fst (fila t f a l g), fst (snd (fila t f a l g)))"
  by (simp add: bandeiras_def fila_pc)

lemma necessidades_sem_bandeiras:
  "\<not> has_pista a \<Longrightarrow> \<not> has_portao a \<Longrightarrow> \<not> has_torre a \<Longrightarrow> necessidades f a = requisitos f"
  by (cases f) simp_all

lemma fio_ok_pos_fila:
  "fio_ok (a, l) \<Longrightarrow> pc l = Em f PosFila \<Longrightarrow>
   fio_ok (fst (pos_fila t f a l g), fst (snd (pos_fila t f a l g)))"
  using pos_fila_need [of t a g f l]
  by (simp add: bandeiras_def pos_fila_pc necessidades_sem_bandeiras del: checa_falha_proj)

lemma fio_ok_reservando:
  "fio_ok (a, l) \<Longrightarrow> pc l = Em f Reservando \<Longrightarrow>
   fio_ok (fst (reservando t f a l g), fst (snd (reservando t f a l g)))"
  by (simp add: bandeiras_def reservando_pc split: Tentativa.split)

lemma fio_ok_adquire:
  "fio_ok (a, l) \<Longrightarrow> pc l = Em f p \<Longrightarrow>
   p = AdqTorre \<or> p = AdqPortao \<or> p = AdqPista \<Longrightarrow>
   fio_ok (fst (passo_fase t ok f p a l g), fst (snd (passo_fase t ok f p a l g)))"
  by (cases f; elim disjE; simp add: bandeiras_def adquire_def devolve_def retorna_def)

lemma fio_ok_fim:
  "fio_ok (a, l) \<Longrightarrow> pc l = Em f p \<Longrightarrow> p = Corpo \<or> p = Ocupacao \<Longrightarrow>
   fio_ok (fst (passo_fase t ok f p a l g), fst (snd (passo_fase t ok f p a l g)))"
  by (cases f; elim disjE;
      simp add: bandeiras_def pouso_fim_def desembarque_libera_torre_def desembarque_fim_def
        decolagem_fim_def devolve_def retorna_def)

lemma fio_ok_passo_aviao:
  assumes "fio_ok (a, l)"
  shows "fio_ok (fst (passo_aviao t ok (pc l) a l g), fst (snd (passo_aviao t ok (pc l) a l g)))"
proof (cases "pc l")
  case NaoIniciado
  then show ?thesis by (simp add: fio_ok_inicia del: fio_ok.simps)
next
  case (Em f p)
  then show ?thesis
    using assms fio_ok_entrada [of a l f t g] fio_ok_fila [of a l f t g]
      fio_ok_pos_fila [of a l f t g] fio_ok_reservando [of a l f t g]
      fio_ok_adquire [of a l f p t ok g] fio_ok_fim [of a l f p t ok g]
    by (cases p) (simp_all del: fio_ok.simps)
next
  case Terminado
  then show ?thesis using assms by simp
qed

subsection \<open>Each step keeps counter plus debt, and keeps the counters non-negative\<close>

lemma conserva_cedo:
  assumes "fio_ok (a, l)" "pc l = Em f p" "p = Entrada \<or> p = Fila \<or> p = PosFila"
  shows "pistas_disp (snd (snd (passo_fase t ok f p a l g)))
           + res_pista (fst (snd (passo_fase t ok f p a l g))) = pistas_disp g + res_pista l
       \<and> portoes_disp (snd (snd (passo_fase t ok f p a l g)))
           + res_portao (fst (snd (passo_fase t ok f p a l g))) = portoes_disp g + res_portao l
       \<and> torres_disp (snd (snd (passo_fase t ok f p a l g)))
           + res_torre (fst (snd (passo_fase t ok f p a l g))) = torres_disp g + res_torre l
       \<and> pistas_disp (snd (snd (passo_fase t ok f p a l g))) = pistas_disp g
       \<and> portoes_disp (snd (snd (passo_fase t ok f p a l g))) = portoes_disp g
       \<and> torres_disp (snd (snd (passo_fase t ok f p a l g))) = torres_disp g"
  using assms
  by (elim disjE; cases f;
      simp add: res_pista_def res_portao_def res_torre_def entrada_pc fila_pc pos_fila_pc
        del: checa_falha_proj)

lemma conserva_reservando:
  assumes "fio_ok (a, l)" "pc l = Em f Reservando"
  shows "pistas_disp (snd (snd (reservando t f a l g)))
           + res_pista (fst (snd (reservando t f a l g))) = pistas_disp g + res_pista l
       \<and> portoes_disp (snd (snd (reservando t f a l g)))
           + res_portao (fst (snd (reservando t f a l g))) = portoes_disp g + res_portao l
       \<and> torres_disp (snd (snd (reservando t f a l g)))
           + res_torre (fst (snd (reservando t f a l g))) = torres_disp g + res_torre l"
  using assms
  by (cases f;
      simp add: res_pista_def res_portao_def res_torre_def reservando_pc reservando_disp
        reservar_iteracao_disp split: Tentativa.split)

lemma nao_negativo_reservando:
  "0 \<le> pistas_disp g \<and> 0 \<le> portoes_disp g \<and> 0 \<le> torres_disp g \<Longrightarrow>
   0 \<le> pistas_disp (snd (snd (reservando t f a l g)))
   \<and> 0 \<le> portoes_disp (snd (snd (reservando t f a l g)))
   \<and> 0 \<le> torres_disp (snd (snd (reservando t f a l g)))"
  using reservar_iteracao_ok [of t "start l" TIMEOUT_OPERACAO "need_pista l" "need_portao l"
      "need_torre l" a g]
  by (simp add: reservando_disp reservar_iteracao_disp disponivel_def del: checa_falha_proj)

lemma conserva_tarde:
  assumes "fio_ok (a, l)" "pc l = Em f p"
    "p = AdqTorre \<or> p = AdqPortao \<or> p = AdqPista \<or> p = Corpo \<or> p = Ocupacao"
  shows "pistas_disp (snd (snd (passo_fase t ok f p a l g)))
           + res_pista (fst (snd (passo_fase t ok f p a l g))) = pistas_disp g + res_pista l
       \<and> portoes_disp (snd (snd (passo_fase t ok f p a l g)))
           + res_portao (fst (snd (passo_fase t ok f p a l g))) = portoes_disp g + res_portao l
       \<and> torres_disp (snd (snd (passo_fase t ok f p a l g)))
           + res_torre (fst (snd (passo_fase t ok f p a l g))) = torres_disp g + res_torre l
       \<and> pistas_disp g \<le> pistas_disp (snd (snd (passo_fase t ok f p a l g)))
       \<and> portoes_disp g \<le> portoes_disp (snd (snd (passo_fase t ok f p a l g)))
       \<and> torres_disp g \<le> torres_disp (snd (snd (passo_fase t ok f p a l g)))"
  using assms
  by (elim disjE; cases f;
      simp add: res_pista_def res_portao_def res_torre_def bandeiras_def adquire_def devolve_def
        pouso_fim_def desembarque_libera_torre_def desembarque_fim_def decolagem_fim_def
        case_prod_beta Let_def)

lemma conserva_passo_aviao:
  assumes "fio_ok (a, l)"
  shows "pistas_disp (snd (snd (passo_aviao t ok (pc l) a l g)))
           + res_pista (fst (snd (passo_aviao t ok (pc l) a l g))) = pistas_disp g + res_pista l
       \<and> portoes_disp (snd (snd (passo_aviao t ok (pc l) a l g)))
           + res_portao (fst (snd (passo_aviao t ok (pc l) a l g))) = portoes_disp g + res_portao l
       \<and> torres_disp (snd (snd (passo_aviao t ok (pc l) a l g)))
           + res_torre (fst (snd (passo_aviao t ok (pc l) a l g))) = torres_disp g + res_torre l"
proof (cases "pc l")
  case NaoIniciado
  then show ?thesis
    by (simp add: inicia_thread_def res_pista_def res_portao_def res_torre_def)
next
  case (Em f p)
  then show ?thesis
    using assms conserva_cedo [of a l f p t ok g] conserva_reservando [of a l f t g]
      conserva_tarde [of a l f p t ok g]
    by (cases p) (simp_all del: fio_ok.simps)
next
  case Terminado
  then show ?thesis by simp
qed

lemma nao_negativo_passo_aviao:
  assumes "fio_ok (a, l)"
    and "0 \<le> pistas_disp g \<and> 0 \<le> portoes_disp g \<and> 0 \<le> torres_disp g"
  shows "0 \<le> pistas_disp (snd (snd (passo_aviao t ok (pc l) a l g)))
       \<and> 0 \<le> portoes_disp (snd (snd (passo_aviao t ok (pc l) a l g)))
       \<and> 0 \<le> torres_disp (snd (snd (passo_aviao t ok (pc l) a l g)))"
proof (cases "pc l")
  case NaoIniciado
  then show ?thesis using assms(2) by (simp add: inicia_thread_def)
next
  case (Em f p)
  then show ?thesis
    using assms conserva_cedo [of a l f p t ok g] nao_negativo_reservando [of g t f a l]
      conserva_tarde [of a l f p t ok g]
    by (cases p) (simp_all del: fio_ok.simps)
next
  case Terminado
  then show ?thesis using assms(2) by simp
qed

subsection \<open>The invariant holds along every execution\<close>

lemma sum_list_map_update:
  fixes h :: "'a \<Rightarrow> int"
  shows "i < length xs \<Longrightarrow>
         sum_list (map h (xs[i := y])) = sum_list (map h xs) - h (xs ! i) + h y"
proof (induction xs arbitrary: i)
  case Nil
  then show ?case by simp
next
  case (Cons x xs)
  then show ?case by (cases i) simp_all
qed

lemma total_update:
  assumes "i < length (fios s)" "fios s ! i = (a, l)"
  shows "total h (s\<lparr>glob := g1, fios := (fios s)[i := (a1, l1)]\<rparr>) = total h s - h l + h l1"
  using assms sum_list_map_update [of i "fios s" "\<lambda>(a, l). h l" "(a1, l1)"]
  by (simp add: total_def)

lemma list_all_update:
  "list_all P xs \<Longrightarrow> P y \<Longrightarrow> list_all P (xs[i := y])"
  by (induction xs arbitrary: i) (auto split: nat.splits)

lemma inv_executa_fio:
  assumes "inv s" "i < length (fios s)"
  shows "inv (passo (Executa i ok) s)"
proof -
  obtain a l where al: "fios s ! i = (a, l)" by fastforce
  let ?x = "passo_aviao (relogio s) ok (pc l) a l (glob s)"
  let ?s = "s\<lparr>glob := snd (snd ?x), fios := (fios s)[i := (fst ?x, fst (snd ?x))]\<rparr>"
  have p: "passo (Executa i ok) s = ?s"
    using assms(2) al by (simp add: case_prod_beta)
  have all: "list_all fio_ok (fios s)" using assms(1) by (simp add: inv_def)
  then have ok: "fio_ok (a, l)"
    using assms(2) al by (metis list_all_length)
  have nn: "0 \<le> pistas_disp (glob s) \<and> 0 \<le> portoes_disp (glob s) \<and> 0 \<le> torres_disp (glob s)"
    using assms(1) by (simp add: inv_def)
  note c = conserva_passo_aviao [OF ok, of "relogio s" ok "glob s"]
  note n = nao_negativo_passo_aviao [OF ok nn, of "relogio s" ok]
  note f = fio_ok_passo_aviao [OF ok, of "relogio s" ok "glob s"]
  have a1: "list_all fio_ok (fios ?s)"
    using all f by (simp add: list_all_update del: fio_ok.simps)
  have t: "total res_pista ?s = total res_pista s - res_pista l + res_pista (fst (snd ?x))"
    "total res_portao ?s = total res_portao s - res_portao l + res_portao (fst (snd ?x))"
    "total res_torre ?s = total res_torre s - res_torre l + res_torre (fst (snd ?x))"
    using total_update [OF assms(2) al] by simp_all
  have "inv ?s"
    unfolding inv_def using a1 t c n assms(1) by (simp add: inv_def)
  then show ?thesis by (simp only: p)
qed

lemma fio_ok_status [simp]: "fio_ok (a\<lparr>status_final := st\<rparr>, l) = fio_ok (a, l)"
  by (simp add: bandeiras_def)

lemma total_monitor [simp]: "total h (monitor_deadlock s) = total h s"
  by (simp add: total_def monitor_deadlock_def Let_def split_def comp_def)

lemma inv_monitor: "inv s \<Longrightarrow> inv (monitor_deadlock s)"
proof -
  assume i: "inv s"
  have "list_all fio_ok (fios (monitor_deadlock s))"
    using i by (auto simp: inv_def monitor_deadlock_def Let_def list_all_iff simp del: fio_ok.simps)
  moreover have "pistas_disp (glob (monitor_deadlock s)) = pistas_disp (glob s)"
    "portoes_disp (glob (monitor_deadlock s)) = portoes_disp (glob s)"
    "torres_disp (glob (monitor_deadlock s)) = torres_disp (glob s)"
    "N_PISTAS (monitor_deadlock s) = N_PISTAS s" "N_PORTOES (monitor_deadlock s) = N_PORTOES s"
    "N_TORRES (monitor_deadlock s) = N_TORRES s"
    by (simp_all add: monitor_deadlock_def Let_def)
  ultimately show ?thesis using i by (simp add: inv_def)
qed

lemma inv_cria: "inv s \<Longrightarrow> inv (passo (Cria tp) s)"
  by (simp add: inv_def total_def fio_novo_def novo_aviao_def bandeiras_def res_pista_def
        res_portao_def res_torre_def)

lemma inv_encerra: "inv s \<Longrightarrow> inv (passo Encerra s)"
  by (simp add: inv_def total_def encerra_def Let_def)

lemma inv_passo: "inv s \<Longrightarrow> inv (passo ev s)"
proof (cases ev)
  case (Executa i ok)
  assume "inv s"
  then show ?thesis using Executa inv_executa_fio [of s i ok] by (cases "i < length (fios s)") simp_all
next
  case Tique
  assume "inv s"
  then show ?thesis using Tique by (simp add: inv_def total_def)
next
  case (Cria tp)
  assume "inv s"
  then show ?thesis using Cria inv_cria by simp
next
  case Monitor
  assume "inv s"
  then show ?thesis using Monitor inv_monitor by simp
next
  case Encerra
  assume "inv s"
  then show ?thesis using Encerra inv_encerra by simp
qed

lemma inv_inicial:
  "0 \<le> n_pistas \<Longrightarrow> 0 \<le> n_portoes \<Longrightarrow> 0 \<le> n_torres \<Longrightarrow>
   inv (inicial t0 n_pistas n_portoes n_torres)"
  by (simp add: inv_def inicial_def total_def)

lemma executa_Nil [simp]: "executa [] s = s"
  by (simp add: executa_def)

lemma executa_Cons [simp]: "executa (ev # evs) s = executa evs (passo ev s)"
  by (simp add: executa_def)

lemma inv_executa: "inv s \<Longrightarrow> inv (executa evs s)"
  by (induction evs arbitrary: s) (simp_all add: inv_passo)

subsection \<open>The reservation pass of So_refatorado_corrigido.c\<close>

lemma verificar_starvation_corrigido_proj [simp]:
  "pistas_disp (snd (verificar_starvation_corrigido t a g)) = pistas_disp g"
  "portoes_disp (snd (verificar_starvation_corrigido t a g)) = portoes_disp g"
  "torres_disp (snd (verificar_starvation_corrigido t a g)) = torres_disp g"
  "esperando_internacional (snd (verificar_starvation_corrigido t a g)) = esperando_internacional g"
  "simulacao_ativa (snd (verificar_starvation_corrigido t a g)) = simulacao_ativa g"
  "tipo (fst (verificar_starvation_corrigido t a g)) = tipo a"
  by (simp_all add: verificar_starvation_corrigido_def Let_def)

lemma checa_falha_corrigido_proj [simp]:
  "fst (checa_falha_corrigido t a g) =
     (status_final (fst (verificar_starvation_corrigido t a g)) = FALHA
        \<or> status_final (fst (verificar_starvation_corrigido t a g)) = STARVATION
        \<or> status_final (fst (verificar_starvation_corrigido t a g)) = DEADLOCK)"
  "fst (snd (checa_falha_corrigido t a g)) = fst (verificar_starvation_corrigido t a g)"
  "snd (snd (checa_falha_corrigido t a g)) = snd (verificar_starvation_corrigido t a g)"
  by (simp_all add: checa_falha_corrigido_def case_prod_beta)

lemma reservar_iteracao_corrigido_ok:
  "fst (reservar_iteracao_corrigido t i tmo np ng nt a g) = Retorna SEM_OK \<longleftrightarrow>
     simulacao_ativa g \<and> \<not> fst (checa_falha_corrigido t a g) \<and> disponivel np ng nt g
     \<and> \<not> (tipo a = DOMESTICO
           \<and> \<not> em_alerta_critico (fst (verificar_starvation_corrigido t a g))
           \<and> esperando_internacional g > 0)"
  by (auto simp: reservar_iteracao_corrigido_def case_prod_beta disponivel_def Let_def)

lemma reservar_iteracao_corrigido_disp:
  "pistas_disp (snd (snd (reservar_iteracao_corrigido t i tmo np ng nt a g))) =
     (if fst (reservar_iteracao_corrigido t i tmo np ng nt a g) = Retorna SEM_OK
      then pistas_disp g - np else pistas_disp g)"
  "portoes_disp (snd (snd (reservar_iteracao_corrigido t i tmo np ng nt a g))) =
     (if fst (reservar_iteracao_corrigido t i tmo np ng nt a g) = Retorna SEM_OK
      then portoes_disp g - ng else portoes_disp g)"
  "torres_disp (snd (snd (reservar_iteracao_corrigido t i tmo np ng nt a g))) =
     (if fst (reservar_iteracao_corrigido t i tmo np ng nt a g) = Retorna SEM_OK
      then torres_disp g - nt else torres_disp g)"
  by (simp_all add: reservar_iteracao_corrigido_def case_prod_beta Let_def)

lemma reservar_iteracao_resultado:
  "simulacao_ativa g \<Longrightarrow>
   fst (snd (reservar_iteracao t i tmo np ng nt a g)) = fst (verificar_starvation t a g)"
  "simulacao_ativa g \<Longrightarrow> fst (checa_falha t a g) \<Longrightarrow>
   fst (reservar_iteracao t i tmo np ng nt a g) = Retorna SEM_AVIAO_FALHOU"
  "\<not> simulacao_ativa g \<Longrightarrow>
   reservar_iteracao t i tmo np ng nt a g = (Retorna SEM_SIM_ENCERRADA, a, g)"
  by (simp_all add: reservar_iteracao_def case_prod_beta)

lemma reservar_iteracao_corrigido_resultado:
  "simulacao_ativa g \<Longrightarrow>
   fst (snd (reservar_iteracao_corrigido t i tmo np ng nt a g))
     = fst (verificar_starvation_corrigido t a g)"
  "simulacao_ativa g \<Longrightarrow> fst (checa_falha_corrigido t a g) \<Longrightarrow>
   fst (reservar_iteracao_corrigido t i tmo np ng nt a g) = Retorna SEM_AVIAO_FALHOU"
  by (simp_all add: reservar_iteracao_corrigido_def case_prod_beta Let_def)

lemma aviao_novo_campos [simp]:
  "tipo (novo_aviao tp t) = tp" "status_final (novo_aviao tp t) = SUCESSO"
  "em_alerta_critico (novo_aviao tp t) = False" "ultimo_tempo_espera (novo_aviao tp t) = t"
  "has_pista (novo_aviao tp t) = False" "has_portao (novo_aviao tp t) = False"
  "has_torre (novo_aviao tp t) = False"
  by (simp_all add: novo_aviao_def)

lemma verificar_starvation_cedo:
  "status_final a \<noteq> FALHA \<Longrightarrow> status_final a \<noteq> STARVATION \<Longrightarrow> status_final a \<noteq> DEADLOCK \<Longrightarrow>
   t - ultimo_tempo_espera a < ALERTA_CRITICO_SECS \<Longrightarrow> verificar_starvation t a g = (a, g)"
  by (simp add: verificar_starvation_def)

lemma verificar_starvation_corrigido_cedo:
  "status_final a \<noteq> FALHA \<Longrightarrow> status_final a \<noteq> STARVATION \<Longrightarrow> status_final a \<noteq> DEADLOCK \<Longrightarrow>
   t - ultimo_tempo_espera a < ALERTA_CRITICO_SECS \<Longrightarrow>
   verificar_starvation_corrigido t a g = (a, g)"
  by (simp add: verificar_starvation_corrigido_def)

lemma verificar_starvation_maximo:
  assumes "status_final a \<noteq> FALHA" "status_final a \<noteq> STARVATION" "status_final a \<noteq> DEADLOCK"
    and "t - ultimo_tempo_espera a \<ge> TEMPO_MAXIMO_ESPERA"
  shows "verificar_starvation t a g =
           (if tipo a = DOMESTICO
            then (a\<lparr>status_final := STARVATION\<rparr>, g\<lparr>acidentes_count := acidentes_count g + 1\<rparr>)
            else (a\<lparr>status_final := DEADLOCK\<rparr>, g\<lparr>deadlock_count := deadlock_count g + 1\<rparr>))"
    and "verificar_starvation_corrigido t a g =
           (if tipo a = DOMESTICO
            then (a\<lparr>status_final := STARVATION\<rparr>, g\<lparr>acidentes_count := acidentes_count g + 1\<rparr>)
            else (a\<lparr>status_final := DEADLOCK\<rparr>, g\<lparr>deadlock_count := deadlock_count g + 1\<rparr>))"
  using assms by (simp_all add: verificar_starvation_def verificar_starvation_corrigido_def)

lemma verificar_starvation_classe:
  "status_final (fst (verificar_starvation t a g)) = STARVATION \<Longrightarrow>
   status_final a \<noteq> STARVATION \<Longrightarrow> tipo a = DOMESTICO"
  "status_final (fst (verificar_starvation t a g)) = DEADLOCK \<Longrightarrow>
   status_final a \<noteq> DEADLOCK \<Longrightarrow> tipo a = INTERNACIONAL"
  "status_final (fst (verificar_starvation_corrigido t a g)) = STARVATION \<Longrightarrow>
   status_final a \<noteq> STARVATION \<Longrightarrow> tipo a = DOMESTICO"
  "status_final (fst (verificar_starvation_corrigido t a g)) = DEADLOCK \<Longrightarrow>
   status_final a \<noteq> DEADLOCK \<Longrightarrow> tipo a = INTERNACIONAL"
  by (cases "tipo a"; simp add: verificar_starvation_def verificar_starvation_corrigido_def
        Let_def split: if_splits)+

subsection \<open>The outcomes of a reservation pass\<close>

lemma verificar_starvation_corrigido_alerta_mono:
  "em_alerta_critico a \<Longrightarrow> em_alerta_critico (fst (verificar_starvation_corrigido t a g))"
  by (simp add: verificar_starvation_corrigido_def Let_def)

lemma reservar_iteracao_espera:
  "fst (reservar_iteracao t i tmo np ng nt a g) = Retorna SEM_TIMEOUT \<longleftrightarrow>
     simulacao_ativa g \<and> \<not> fst (checa_falha t a g)
     \<and> fst (reservar_iteracao t i tmo np ng nt a g) \<noteq> Retorna SEM_OK \<and> tmo \<le> t - i"
  "fst (reservar_iteracao t i tmo np ng nt a g) = Aguarda \<longleftrightarrow>
     simulacao_ativa g \<and> \<not> fst (checa_falha t a g)
     \<and> fst (reservar_iteracao t i tmo np ng nt a g) \<noteq> Retorna SEM_OK \<and> t - i < tmo"
  "fst (reservar_iteracao t i tmo np ng nt a g) = Retorna SEM_AVIAO_FALHOU \<longleftrightarrow>
     simulacao_ativa g \<and> fst (checa_falha t a g)"
  "fst (reservar_iteracao t i tmo np ng nt a g) = Retorna SEM_SIM_ENCERRADA \<longleftrightarrow>
     \<not> simulacao_ativa g"
  by (auto simp: reservar_iteracao_def case_prod_beta espera_ou_timeout_def Let_def)

lemma reservar_iteracao_corrigido_espera:
  "fst (reservar_iteracao_corrigido t i tmo np ng nt a g) = Retorna SEM_TIMEOUT \<longleftrightarrow>
     simulacao_ativa g \<and> \<not> fst (checa_falha_corrigido t a g)
     \<and> fst (reservar_iteracao_corrigido t i tmo np ng nt a g) \<noteq> Retorna SEM_OK \<and> tmo \<le> t - i"
  "fst (reservar_iteracao_corrigido t i tmo np ng nt a g) = Aguarda \<longleftrightarrow>
     simulacao_ativa g \<and> \<not> fst (checa_falha_corrigido t a g)
     \<and> fst (reservar_iteracao_corrigido t i tmo np ng nt a g) \<noteq> Retorna SEM_OK \<and> t - i < tmo"
  "fst (reservar_iteracao_corrigido t i tmo np ng nt a g) = Retorna SEM_AVIAO_FALHOU \<longleftrightarrow>
     simulacao_ativa g \<and> fst (checa_falha_corrigido t a g)"
  "fst (reservar_iteracao_corrigido t i tmo np ng nt a g) = Retorna SEM_SIM_ENCERRADA \<longleftrightarrow>
     \<not> simulacao_ativa g"
  by (auto simp: reservar_iteracao_corrigido_def case_prod_beta Let_def)

lemma alerta_cedo:
  "\<not> em_alerta_critico a \<Longrightarrow> t - ultimo_tempo_espera a < ALERTA_CRITICO_SECS \<Longrightarrow>
   \<not> em_alerta_critico (fst (verificar_starvation t a g))"
  "\<not> em_alerta_critico a \<Longrightarrow> t - ultimo_tempo_espera a < ALERTA_CRITICO_SECS \<Longrightarrow>
   \<not> em_alerta_critico (fst (verificar_starvation_corrigido t a g))"
  by (simp_all add: verificar_starvation_def verificar_starvation_corrigido_def Let_def)

subsection \<open>Executions\<close>

lemma executa_append: "executa (xs @ ys) s = executa ys (executa xs s)"
  by (simp add: executa_def)

lemma executa_tiques: "executa (replicate n Tique) s = s\<lparr>relogio := relogio s + int n\<rparr>"
  by (induction n arbitrary: s) (simp_all add: add.commute add.left_commute)

lemmas passos_defs = inicial_def novo_aviao_def fio_novo_def inicia_thread_def entrada_def
  checa_falha_def verificar_starvation_def aguardar_prioridade_entra_def fila_def
  aguardar_prioridade_teste_def aguardar_prioridade_sai_def retorna_def pos_fila_def
  reservando_def reservar_iteracao_def disponivel_def debita_def espera_ou_timeout_def
  liberar_prioridade_def liberar_reserva_def adquire_def devolve_def pouso_fim_def
  encerra_def

subsection \<open>A failed aircraft at the check points\<close>

lemma checa_falha_terminal:
  "status_final a = FALHA \<or> status_final a = STARVATION \<Longrightarrow> checa_falha t a g = (True, a, g)"
  by (auto simp: checa_falha_def verificar_starvation_terminal)

lemma checa_falha_corrigido_terminal:
  "status_final a = FALHA \<or> status_final a = STARVATION \<or> status_final a = DEADLOCK \<Longrightarrow>
   checa_falha_corrigido t a g = (True, a, g)"
  by (auto simp: checa_falha_corrigido_def verificar_starvation_corrigido_def)

lemma checa_falha_deadlock_final:
  "status_final a = DEADLOCK \<Longrightarrow> checa_falha t a g = (False, a, g)"
  by (simp add: checa_falha_def verificar_starvation_terminal)

lemma reservando_falhou:
  assumes "status_final a = FALHA \<or> status_final a = STARVATION"
  shows "reservando t f a l g =
           (a, l\<lparr>pc := Terminado,
                 ret := (if simulacao_ativa g then SEM_AVIAO_FALHOU else SEM_SIM_ENCERRADA)\<rparr>,
            liberar_prioridade (tipo a) g)"
  using assms
  by (auto simp: reservando_def reservar_iteracao_def checa_falha_terminal retorna_def
        simp del: checa_falha_proj)

subsection \<open>The alert flag along an operation\<close>

lemma adquire_alerta [simp]:
  "em_alerta_critico (fst (adquire rc ok id prox t f a l g)) = em_alerta_critico a"
  "em_alerta_critico (fst (adquire rc ok (devolve rc1) prox t f a l g)) = em_alerta_critico a"
  "em_alerta_critico (fst (adquire rc ok (\<lambda>x. devolve rc1 (devolve rc2 x)) prox t f a l g))
     = em_alerta_critico a"
  by (simp_all add: adquire_def case_prod_beta Let_def)

lemma desembarque_libera_torre_alerta [simp]:
  "em_alerta_critico (fst (desembarque_libera_torre a l g)) = em_alerta_critico a"
  by (simp add: desembarque_libera_torre_def case_prod_beta Let_def)

lemma passo_aviao_alerta_mono:
  assumes "em_alerta_critico a" "\<not> bloco_final (pc l)"
  shows "em_alerta_critico (fst (passo_aviao t ok (pc l) a l g))"
proof (cases "pc l")
  case NaoIniciado
  then show ?thesis using assms by (simp add: inicia_thread_def)
next
  case (Em f p)
  then show ?thesis
    using assms entrada_alerta_mono [of a t f l g] fila_alerta_mono [of a t f l g]
      pos_fila_alerta_mono [of a t f l g] reservando_alerta_mono [of a t f l g]
    by (cases f; cases p) simp_all
next
  case Terminado
  then show ?thesis using assms by simp
qed

lemma passo_executa_fio:
  assumes "i < length (fios s)" "fios s ! i = (a, l)"
  shows "passo (Executa i ok) s =
           s\<lparr>glob := snd (snd (passo_aviao (relogio s) ok (pc l) a l (glob s))),
             fios := (fios s)[i := (fst (passo_aviao (relogio s) ok (pc l) a l (glob s)),
                                    fst (snd (passo_aviao (relogio s) ok (pc l) a l (glob s))))]\<rparr>"
  using assms by (simp add: case_prod_beta)

lemma passo_outro_fio:
  assumes "i < length (fios s)" "j \<noteq> i"
  shows "fios (passo (Executa j ok) s) ! i = fios s ! i"
  using assms by (simp add: case_prod_beta)

lemma passo_alerta_outros:
  assumes "i < length (fios s)"
  shows "em_alerta_critico (fst (fios (passo Tique s) ! i)) = em_alerta_critico (fst (fios s ! i))"
    and "em_alerta_critico (fst (fios (passo (Cria tp) s) ! i)) = em_alerta_critico (fst (fios s ! i))"
    and "em_alerta_critico (fst (fios (passo Monitor s) ! i)) = em_alerta_critico (fst (fios s ! i))"
    and "em_alerta_critico (fst (fios (passo Encerra s) ! i)) = em_alerta_critico (fst (fios s ! i))"
  using assms
  by (simp_all add: nth_append monitor_deadlock_def encerra_def Let_def case_prod_beta)

lemma passo_alerta_mono:
  assumes "i < length (fios s)" "fios s ! i = (a, l)" "em_alerta_critico a" "\<not> bloco_final (pc l)"
  shows "em_alerta_critico (fst (fios (passo ev s) ! i))"
proof (cases ev)
  case (Executa j ok)
  show ?thesis
  proof (cases "j = i")
    case True
    then show ?thesis
      using Executa assms passo_aviao_alerta_mono [of a l "relogio s" ok "glob s"]
      by (simp add: case_prod_beta)
  next
    case False
    then show ?thesis using Executa assms passo_outro_fio [of i s j ok] by simp
  qed
next
  case Tique
  then show ?thesis using assms passo_alerta_outros(1) [of i s] by simp
next
  case (Cria tp)
  then show ?thesis using assms passo_alerta_outros(2) [of i s tp] by simp
next
  case Monitor
  then show ?thesis using assms passo_alerta_outros(3) [of i s] by simp
next
  case Encerra
  then show ?thesis using assms passo_alerta_outros(4) [of i s] by simp
qed

lemma alerta_nao_espera:
  "em_alerta_critico a \<Longrightarrow> \<not> fst (aguardar_prioridade_teste t a g)"
  by (simp add: aguardar_prioridade_teste_def case_prod_beta verificar_starvation_alerta_mono)

lemma bloco_final_limpa:
  "bloco_final (Em f p) \<Longrightarrow> \<not> em_alerta_critico (fst (passo_fase t ok f p a l g))"
  by (cases f; cases p;
      simp add: pouso_fim_def desembarque_fim_def decolagem_fim_def case_prod_beta Let_def)

lemma checa_starvation_boosted:
  "boosted a \<Longrightarrow> boosted (fst (snd (checa_starvation t a e)))"
  "boosted a \<Longrightarrow> \<not> domestico_cede (fst (snd (checa_starvation t a e))) n"
  by (simp_all add: checa_starvation_def domestico_cede_def Let_def case_prod_beta)

lemma cenario_alerta_estado:
  "executa cenario_alerta (inicial 0 3 5 2) =
     \<lparr>relogio = 60, N_PISTAS = 3, N_PORTOES = 5, N_TORRES = 2,
      glob = \<lparr>pistas = 3, portoes = 5, torres = 2, pistas_disp = 3, portoes_disp = 5,
               torres_disp = 2, esperando_internacional = 1, esperando_domestico = 1,
               deadlock_count = 0, acidentes_count = 0, simulacao_ativa = True\<rparr>,
      fios =
        [((novo_aviao INTERNACIONAL 0), fio_novo\<lparr>pc := Em Pouso PosFila\<rparr>),
         ((novo_aviao DOMESTICO 0)\<lparr>status_final := ALERTA_CRITICO, em_alerta_critico := True\<rparr>,
          fio_novo\<lparr>pc := Em Pouso PosFila\<rparr>)]\<rparr>"
  by (simp add: cenario_alerta_def executa_append executa_tiques passos_defs)

lemma cenario_apos_pouso_estado:
  "executa cenario_apos_pouso (inicial 0 3 5 2) =
     \<lparr>relogio = 60, N_PISTAS = 3, N_PORTOES = 5, N_TORRES = 2,
      glob = \<lparr>pistas = 3, portoes = 5, torres = 2, pistas_disp = 3, portoes_disp = 5,
               torres_disp = 2, esperando_internacional = 1, esperando_domestico = 1,
               deadlock_count = 0, acidentes_count = 0, simulacao_ativa = True\<rparr>,
      fios =
        [((novo_aviao INTERNACIONAL 0), fio_novo\<lparr>pc := Em Pouso PosFila\<rparr>),
         ((novo_aviao DOMESTICO 0)\<lparr>inicio_pouso := 60, fim_pouso := 60,
             ultimo_tempo_espera := 60\<rparr>,
          fio_novo\<lparr>pc := Em Desembarque Fila, need_pista := 1, need_torre := 1,
                     start := 60\<rparr>)]\<rparr>"
  unfolding cenario_apos_pouso_def executa_append cenario_alerta_estado
  by (simp add: passos_defs)

subsection \<open>Flags and needs along every execution\<close>

lemma fios_ok_passo:
  assumes "list_all fio_ok (fios s)"
  shows "list_all fio_ok (fios (passo ev s))"
proof (cases ev)
  case (Executa i ok)
  show ?thesis
  proof (cases "i < length (fios s)")
    case True
    obtain a l where al: "fios s ! i = (a, l)" by fastforce
    have "fio_ok (a, l)" using assms True al by (metis list_all_length)
    then show ?thesis
      using Executa True al assms fio_ok_passo_aviao [of a l "relogio s" ok "glob s"]
      by (simp add: case_prod_beta list_all_update del: fio_ok.simps)
  next
    case False
    then show ?thesis using Executa assms by simp
  qed
next
  case Tique
  then show ?thesis using assms by simp
next
  case (Cria tp)
  then show ?thesis using assms by (simp add: fio_novo_def novo_aviao_def bandeiras_def)
next
  case Monitor
  then show ?thesis
    using assms by (auto simp: monitor_deadlock_def Let_def list_all_iff simp del: fio_ok.simps)
next
  case Encerra
  then show ?thesis using assms by (simp add: encerra_def Let_def)
qed

lemma fios_ok_executa:
  "list_all fio_ok (fios s) \<Longrightarrow> list_all fio_ok (fios (executa evs s))"
  by (induction evs arbitrary: s) (simp_all add: fios_ok_passo)

lemma fio_ok_alcancavel:
  assumes "i < length (fios (executa evs (inicial t0 n1 n2 n3)))"
  shows "fio_ok (fios (executa evs (inicial t0 n1 n2 n3)) ! i)"
proof -
  have "list_all fio_ok (fios (inicial t0 n1 n2 n3))" by (simp add: inicial_def)
  then have "list_all fio_ok (fios (executa evs (inicial t0 n1 n2 n3)))"
    by (rule fios_ok_executa)
  then show ?thesis using assms by (simp add: list_all_length)
qed

lemma capacidades_passo [simp]:
  "N_PISTAS (passo ev s) = N_PISTAS s" "N_PORTOES (passo ev s) = N_PORTOES s"
  "N_TORRES (passo ev s) = N_TORRES s"
  by (cases ev; simp add: monitor_deadlock_def encerra_def Let_def case_prod_beta)+

lemma capacidades_executa [simp]:
  "N_PISTAS (executa evs s) = N_PISTAS s" "N_PORTOES (executa evs s) = N_PORTOES s"
  "N_TORRES (executa evs s) = N_TORRES s"
  by (induction evs arbitrary: s; simp)+

lemma cenario_reserva_estado:
  "executa cenario_reserva (inicial 0 3 5 2) =
     \<lparr>relogio = 0, N_PISTAS = 3, N_PORTOES = 5, N_TORRES = 2,
      glob = \<lparr>pistas = 3, portoes = 5, torres = 2, pistas_disp = 2, portoes_disp = 5,
               torres_disp = 1, esperando_internacional = 1, esperando_domestico = 0,
               deadlock_count = 0, acidentes_count = 0, simulacao_ativa = True\<rparr>,
      fios = [(novo_aviao INTERNACIONAL 0,
               fio_novo\<lparr>pc := Em Pouso AdqTorre, need_pista := 1, need_torre := 1\<rparr>)]\<rparr>"
  by (simp add: cenario_reserva_def passos_defs)

subsection \<open>Flags never exceed the debt\<close>

lemma bandeira_le_res:
  assumes "fio_ok (a, l)"
  shows "(if has_pista a then 1 else 0) \<le> res_pista l \<and> 0 \<le> res_pista l
       \<and> (if has_portao a then 1 else 0) \<le> res_portao l \<and> 0 \<le> res_portao l
       \<and> (if has_torre a then 1 else 0) \<le> res_torre l \<and> 0 \<le> res_torre l"
proof (cases "pc l")
  case NaoIniciado
  then show ?thesis
    using assms by (simp add: bandeiras_def res_pista_def res_portao_def res_torre_def)
next
  case (Em f p)
  then show ?thesis
    using assms
    by (cases f; cases p; simp add: bandeiras_def res_pista_def res_portao_def res_torre_def)
next
  case Terminado
  then show ?thesis
    using assms by (simp add: bandeiras_def res_pista_def res_portao_def res_torre_def)
qed

lemma com_bandeira_le_total:
  assumes "list_all fio_ok (fios s)"
  shows "com_bandeira PISTA s \<le> total res_pista s \<and> 0 \<le> total res_pista s
       \<and> com_bandeira PORTAO s \<le> total res_portao s \<and> 0 \<le> total res_portao s
       \<and> com_bandeira TORRE s \<le> total res_torre s \<and> 0 \<le> total res_torre s"
proof -
  have e: "\<And>x. x \<in> set (fios s) \<Longrightarrow> fio_ok (fst x, snd x)"
    using assms by (simp add: list_all_iff)
  show ?thesis
    unfolding com_bandeira_def total_def
    using bandeira_le_res [OF e]
    by (auto simp: split_def intro!: sum_list_mono sum_list_nonneg)
qed

subsection \<open>No runway configured\<close>

lemma verificar_starvation_fim [simp]:
  "fim_pouso (fst (verificar_starvation t a g)) = fim_pouso a"
  by (simp add: verificar_starvation_def Let_def)

lemma fio_sem_pouso_entrada:
  assumes "fio_sem_pouso (a, l)" "pc l = Em Pouso Entrada"
  shows "fio_sem_pouso (fst (entrada t Pouso a l g), fst (snd (entrada t Pouso a l g)))"
proof -
  have ok: "fio_ok (fst (entrada t Pouso a l g), fst (snd (entrada t Pouso a l g)))"
    using assms fio_ok_entrada [of a l Pouso t g] by simp
  show ?thesis
    using ok assms
    by (simp add: entrada_def case_prod_beta retorna_def aguardar_prioridade_entra_def Let_def
          del: fio_ok.simps)
qed

lemma fio_sem_pouso_fila:
  assumes "fio_sem_pouso (a, l)" "pc l = Em Pouso Fila"
  shows "fio_sem_pouso (fst (fila t Pouso a l g), fst (snd (fila t Pouso a l g)))"
proof -
  have ok: "fio_ok (fst (fila t Pouso a l g), fst (snd (fila t Pouso a l g)))"
    using assms fio_ok_fila [of a l Pouso t g] by simp
  show ?thesis
    using ok assms
    by (simp add: fila_def case_prod_beta aguardar_prioridade_teste_def
          aguardar_prioridade_sai_def Let_def del: fio_ok.simps)
qed

lemma fio_sem_pouso_pos_fila:
  assumes "fio_sem_pouso (a, l)" "pc l = Em Pouso PosFila"
  shows "fio_sem_pouso (fst (pos_fila t Pouso a l g), fst (snd (pos_fila t Pouso a l g)))"
proof -
  have ok: "fio_ok (fst (pos_fila t Pouso a l g), fst (snd (pos_fila t Pouso a l g)))"
    using assms fio_ok_pos_fila [of a l Pouso t g] by simp
  show ?thesis
    using ok assms
    by (simp add: pos_fila_def case_prod_beta retorna_def Let_def del: fio_ok.simps)
qed

lemma reservar_iteracao_sem_pista:
  "pistas_disp g = 0 \<Longrightarrow> fst (reservar_iteracao t i tmo 1 ng nt a g) \<noteq> Retorna SEM_OK"
  by (simp add: reservar_iteracao_ok disponivel_def del: checa_falha_proj)

lemma reservar_iteracao_status:
  "fst (reservar_iteracao t i tmo np ng nt a g) = Retorna SEM_AVIAO_FALHOU \<Longrightarrow>
   status_final (fst (snd (reservar_iteracao t i tmo np ng nt a g))) = FALHA
   \<or> status_final (fst (snd (reservar_iteracao t i tmo np ng nt a g))) = STARVATION"
  by (simp add: reservar_iteracao_def case_prod_beta espera_ou_timeout_def Let_def
        split: if_splits)

lemma reservar_iteracao_fim [simp]:
  "fim_pouso (fst (snd (reservar_iteracao t i tmo np ng nt a g))) = fim_pouso a"
  by (simp add: reservar_iteracao_def case_prod_beta)

lemma reservar_iteracao_codigos:
  "fst (reservar_iteracao t i tmo np ng nt a g) = Retorna rc \<Longrightarrow>
   rc = SEM_OK \<or> rc = SEM_TIMEOUT \<or> rc = SEM_SIM_ENCERRADA \<or> rc = SEM_AVIAO_FALHOU"
  by (simp add: reservar_iteracao_def case_prod_beta espera_ou_timeout_def Let_def
        split: if_splits)

lemma fio_sem_pouso_reservando:
  assumes "fio_sem_pouso (a, l)" "pc l = Em Pouso Reservando" "pistas_disp g = 0"
  shows "fio_sem_pouso (fst (reservando t Pouso a l g), fst (snd (reservando t Pouso a l g)))
       \<and> pistas_disp (snd (snd (reservando t Pouso a l g))) = 0"
proof -
  let ?x = "reservar_iteracao t (start l) TIMEOUT_OPERACAO (need_pista l) (need_portao l)
              (need_torre l) a g"
  have n: "need_pista l = 1" using assms by simp
  have ok: "fio_ok (fst (reservando t Pouso a l g), fst (snd (reservando t Pouso a l g)))"
    using assms fio_ok_reservando [of a l Pouso t g] by simp
  have nok: "fst ?x \<noteq> Retorna SEM_OK"
    using reservar_iteracao_sem_pista [OF assms(3)] n by simp
  have d: "pistas_disp (snd (snd (reservando t Pouso a l g))) = 0"
    using nok assms(3) by (simp add: reservando_disp reservar_iteracao_disp)
  have f: "fio_sem_pouso (fst (reservando t Pouso a l g), fst (snd (reservando t Pouso a l g)))"
  proof (cases "fst ?x")
    case Aguarda
    then show ?thesis
      using ok assms by (simp add: reservando_def case_prod_beta del: fio_ok.simps)
  next
    case (Retorna rc)
    then show ?thesis
      using ok assms nok reservar_iteracao_codigos [OF Retorna] reservar_iteracao_status [of t
          "start l" TIMEOUT_OPERACAO "need_pista l" "need_portao l" "need_torre l" a g]
      by (auto simp: reservando_def case_prod_beta retorna_def Let_def simp del: fio_ok.simps)
  qed
  show ?thesis using f d by simp
qed

lemma fio_sem_pouso_passo_aviao:
  assumes "fio_sem_pouso (a, l)" "pistas_disp g = 0"
  shows "fio_sem_pouso (fst (passo_aviao t ok (pc l) a l g), fst (snd (passo_aviao t ok (pc l) a l g)))
       \<and> pistas_disp (snd (snd (passo_aviao t ok (pc l) a l g))) = 0"
proof (cases "pc l")
  case NaoIniciado
  then show ?thesis
    using assms by (simp add: inicia_thread_def bandeiras_def)
next
  case (Em f p)
  then have f: "f = Pouso" and p: "p = Entrada \<or> p = Fila \<or> p = PosFila \<or> p = Reservando"
    using assms(1) by (cases f; cases p; simp)+
  show ?thesis
    using p Em f assms fio_sem_pouso_entrada [of a l t g] fio_sem_pouso_fila [of a l t g]
      fio_sem_pouso_pos_fila [of a l t g] fio_sem_pouso_reservando [of a l g t]
    by (elim disjE) (simp_all del: fio_sem_pouso.simps)
next
  case Terminado
  then show ?thesis using assms by simp
qed

lemma fio_sem_pouso_monitor:
  "fio_sem_pouso (a, l) \<Longrightarrow>
   fio_sem_pouso (if detectado t a then a\<lparr>status_final := DEADLOCK\<rparr> else a, l)"
  by (auto simp: detectado_def bandeiras_def)

lemma sem_pista_passo:
  assumes "pistas_disp (glob s) = 0" "list_all fio_sem_pouso (fios s)"
  shows "pistas_disp (glob (passo ev s)) = 0 \<and> list_all fio_sem_pouso (fios (passo ev s))"
proof (cases ev)
  case (Executa i ok)
  show ?thesis
  proof (cases "i < length (fios s)")
    case True
    obtain a l where al: "fios s ! i = (a, l)" by fastforce
    have "fio_sem_pouso (a, l)" using assms(2) True al by (metis list_all_length)
    from fio_sem_pouso_passo_aviao [OF this assms(1), of "relogio s" ok]
    show ?thesis
      using Executa True al assms(2)
      by (simp add: case_prod_beta list_all_update del: fio_sem_pouso.simps)
  next
    case False
    then show ?thesis using Executa assms by simp
  qed
next
  case Tique
  then show ?thesis using assms by simp
next
  case (Cria tp)
  then show ?thesis
    using assms by (simp add: fio_novo_def novo_aviao_def bandeiras_def)
next
  case Monitor
  then show ?thesis
    using assms fio_sem_pouso_monitor
    by (auto simp: monitor_deadlock_def Let_def list_all_iff simp del: fio_sem_pouso.simps)
next
  case Encerra
  then show ?thesis using assms by (simp add: encerra_def Let_def)
qed

lemma sem_pista_executa:
  "pistas_disp (glob s) = 0 \<Longrightarrow> list_all fio_sem_pouso (fios s) \<Longrightarrow>
   pistas_disp (glob (executa evs s)) = 0 \<and> list_all fio_sem_pouso (fios (executa evs s))"
  by (induction evs arbitrary: s) (simp_all add: sem_pista_passo del: fio_sem_pouso.simps)

lemma reservando_timeout:
  assumes "fst (reservar_iteracao t (start l) TIMEOUT_OPERACAO (need_pista l) (need_portao l)
                  (need_torre l) a g) = Retorna SEM_TIMEOUT"
  shows "reservando t f a l g =
           ((fst (snd (reservar_iteracao t (start l) TIMEOUT_OPERACAO (need_pista l)
                         (need_portao l) (need_torre l) a g)))\<lparr>status_final := FALHA\<rparr>,
            l\<lparr>pc := Terminado, ret := - 1\<rparr>,
            liberar_prioridade (tipo a)
              (snd (snd (reservar_iteracao t (start l) TIMEOUT_OPERACAO (need_pista l)
                           (need_portao l) (need_torre l) a g))))"
  using assms by (simp add: reservando_def case_prod_beta retorna_def)

lemma cenario_sem_pista_estado:
  "executa cenario_sem_pista (inicial 0 0 5 2) =
     \<lparr>relogio = 0, N_PISTAS = 0, N_PORTOES = 5, N_TORRES = 2,
      glob = \<lparr>pistas = 1, portoes = 6, torres = 3, pistas_disp = 0, portoes_disp = 5,
               torres_disp = 2, esperando_internacional = 0, esperando_domestico = 0,
               deadlock_count = 0, acidentes_count = 0, simulacao_ativa = False\<rparr>,
      fios = [(novo_aviao INTERNACIONAL 0,
               fio_novo\<lparr>pc := Terminado, need_pista := 1, need_torre := 1,
                         ret := SEM_SIM_ENCERRADA\<rparr>)]\<rparr>"
  by (simp add: cenario_sem_pista_def passos_defs)

subsection \<open>Rollback and round trip of one thread\<close>


lemma ida_e_volta_fio:
  assumes "fio_ok (a, l)"
  shows "(pc l = Em f Reservando \<and> pc (fst (snd (reservando t f a l g))) = Em f AdqTorre \<longrightarrow>
            pistas_disp (snd (snd (reservando t f a l g))) = pistas_disp g - fst (requisitos f)
            \<and> portoes_disp (snd (snd (reservando t f a l g)))
                = portoes_disp g - fst (snd (requisitos f))
            \<and> torres_disp (snd (snd (reservando t f a l g)))
                = torres_disp g - snd (snd (requisitos f)))"
    and "pc l = Em Pouso Corpo \<longrightarrow>
            pistas_disp (snd (snd (pouso_fim t a l g))) = pistas_disp g + 1
            \<and> portoes_disp (snd (snd (pouso_fim t a l g))) = portoes_disp g
            \<and> torres_disp (snd (snd (pouso_fim t a l g))) = torres_disp g + 1
            \<and> pc (fst (snd (pouso_fim t a l g))) = Em Desembarque Entrada"
    and "pc l = Em Desembarque Corpo \<longrightarrow>
            pistas_disp (snd (snd (desembarque_libera_torre a l g))) = pistas_disp g
            \<and> portoes_disp (snd (snd (desembarque_libera_torre a l g))) = portoes_disp g
            \<and> torres_disp (snd (snd (desembarque_libera_torre a l g))) = torres_disp g + 1
            \<and> pc (fst (snd (desembarque_libera_torre a l g))) = Em Desembarque Ocupacao"
    and "pc l = Em Desembarque Ocupacao \<longrightarrow>
            pistas_disp (snd (snd (desembarque_fim t a l g))) = pistas_disp g
            \<and> portoes_disp (snd (snd (desembarque_fim t a l g))) = portoes_disp g + 1
            \<and> torres_disp (snd (snd (desembarque_fim t a l g))) = torres_disp g
            \<and> pc (fst (snd (desembarque_fim t a l g))) = Em Decolagem Entrada"
    and "pc l = Em Decolagem Corpo \<longrightarrow>
            pistas_disp (snd (snd (decolagem_fim t a l g))) = pistas_disp g + 1
            \<and> portoes_disp (snd (snd (decolagem_fim t a l g))) = portoes_disp g + 1
            \<and> torres_disp (snd (snd (decolagem_fim t a l g))) = torres_disp g + 1
            \<and> pc (fst (snd (decolagem_fim t a l g))) = Terminado
            \<and> ret (fst (snd (decolagem_fim t a l g))) = 0"
proof -
  show "pc l = Em f Reservando \<and> pc (fst (snd (reservando t f a l g))) = Em f AdqTorre \<longrightarrow>
            pistas_disp (snd (snd (reservando t f a l g))) = pistas_disp g - fst (requisitos f)
            \<and> portoes_disp (snd (snd (reservando t f a l g)))
                = portoes_disp g - fst (snd (requisitos f))
            \<and> torres_disp (snd (snd (reservando t f a l g)))
                = torres_disp g - snd (snd (requisitos f))"
  proof (intro impI, elim conjE)
    assume p: "pc l = Em f Reservando"
      and q: "pc (fst (snd (reservando t f a l g))) = Em f AdqTorre"
    have n: "(need_pista l, need_portao l, need_torre l) = requisitos f"
      using assms p by simp
    have k: "fst (reservar_iteracao t (start l) TIMEOUT_OPERACAO (need_pista l) (need_portao l)
                    (need_torre l) a g) = Retorna SEM_OK"
      using q p by (simp add: reservando_pc split: Tentativa.splits if_splits)
    show "pistas_disp (snd (snd (reservando t f a l g))) = pistas_disp g - fst (requisitos f)
            \<and> portoes_disp (snd (snd (reservando t f a l g)))
                = portoes_disp g - fst (snd (requisitos f))
            \<and> torres_disp (snd (snd (reservando t f a l g)))
                = torres_disp g - snd (snd (requisitos f))"
      using k by (simp add: reservando_disp reservar_iteracao_disp n [symmetric])
  qed
qed (use assms in \<open>auto simp: pouso_fim_def desembarque_libera_torre_def desembarque_fim_def
      decolagem_fim_def case_prod_beta Let_def\<close>)

lemma adquire_nao_mexe:
  assumes "pc l = Em f p" "p = AdqTorre \<or> p = AdqPortao \<or> p = AdqPista"
  shows "pistas_disp (snd (snd (passo_fase t True f p a l g))) = pistas_disp g
       \<and> portoes_disp (snd (snd (passo_fase t True f p a l g))) = portoes_disp g
       \<and> torres_disp (snd (snd (passo_fase t True f p a l g))) = torres_disp g
       \<and> need_pista (fst (snd (passo_fase t True f p a l g))) = need_pista l
       \<and> need_portao (fst (snd (passo_fase t True f p a l g))) = need_portao l
       \<and> need_torre (fst (snd (passo_fase t True f p a l g))) = need_torre l"
  using assms by (elim disjE; cases f; simp add: adquire_def)

lemma cenario_antes_da_reserva_estado:
  "executa cenario_antes_da_reserva (inicial 0 3 5 2) =
     \<lparr>relogio = 0, N_PISTAS = 3, N_PORTOES = 5, N_TORRES = 2,
      glob = \<lparr>pistas = 3, portoes = 5, torres = 2, pistas_disp = 3, portoes_disp = 5,
               torres_disp = 2, esperando_internacional = 1, esperando_domestico = 0,
               deadlock_count = 0, acidentes_count = 0, simulacao_ativa = True\<rparr>,
      fios = [(novo_aviao INTERNACIONAL 0,
               fio_novo\<lparr>pc := Em Pouso Reservando, need_pista := 1, need_torre := 1\<rparr>)]\<rparr>"
  by (simp add: cenario_antes_da_reserva_def passos_defs)


lemma cenario_corpo_estado:
  "executa cenario_corpo (inicial 0 3 5 2) =
     \<lparr>relogio = 0, N_PISTAS = 3, N_PORTOES = 5, N_TORRES = 2,
      glob = \<lparr>pistas = 2, portoes = 5, torres = 1, pistas_disp = 2, portoes_disp = 5,
               torres_disp = 1, esperando_internacional = 1, esperando_domestico = 0,
               deadlock_count = 0, acidentes_count = 0, simulacao_ativa = True\<rparr>,
      fios = [((novo_aviao INTERNACIONAL 0)\<lparr>has_pista := True, has_torre := True\<rparr>,
               fio_novo\<lparr>pc := Em Pouso Corpo, need_pista := 1, need_torre := 1\<rparr>)]\<rparr>"
  unfolding cenario_corpo_def executa_append cenario_reserva_estado
  by (simp add: passos_defs)

subsection \<open>Order of acquisition\<close>


subsection \<open>A failed aircraft acquires nothing\<close>

lemma falha_parada_entrada:
  "falha_parada (a, l) \<Longrightarrow> pc l = Em f Entrada \<Longrightarrow>
   falha_parada (fst (entrada t f a l g), fst (snd (entrada t f a l g)))"
  by (simp add: falha_parada_def entrada_def case_prod_beta retorna_def
        aguardar_prioridade_entra_def Let_def)

lemma falha_parada_fila:
  "falha_parada (a, l) \<Longrightarrow> pc l = Em f Fila \<Longrightarrow>
   falha_parada (fst (fila t f a l g), fst (snd (fila t f a l g)))"
  by (cases f; simp add: falha_parada_def fila_def case_prod_beta aguardar_prioridade_teste_def
        Let_def)

lemma falha_parada_pos_fila:
  "pc l = Em f PosFila \<Longrightarrow>
   falha_parada (fst (pos_fila t f a l g), fst (snd (pos_fila t f a l g)))"
  by (simp add: falha_parada_def pos_fila_def case_prod_beta retorna_def Let_def)

lemma falha_parada_reservando:
  "falha_parada (a, l) \<Longrightarrow> pc l = Em f Reservando \<Longrightarrow>
   falha_parada (fst (reservando t f a l g), fst (snd (reservando t f a l g)))"
  by (simp add: falha_parada_def reservando_def reservar_iteracao_def case_prod_beta retorna_def
        Let_def espera_ou_timeout_def)

lemma falha_parada_tarde:
  "falha_parada (a, l) \<Longrightarrow> pc l = Em f p \<Longrightarrow>
   p = AdqTorre \<or> p = AdqPortao \<or> p = AdqPista \<or> p = Corpo \<or> p = Ocupacao \<Longrightarrow>
   falha_parada (fst (passo_fase t ok f p a l g), fst (snd (passo_fase t ok f p a l g)))"
  by (elim disjE; cases f;
      simp add: falha_parada_def adquire_def retorna_def pouso_fim_def
        desembarque_libera_torre_def desembarque_fim_def decolagem_fim_def case_prod_beta Let_def)

lemma falha_parada_passo_aviao:
  assumes "falha_parada (a, l)"
  shows "falha_parada (fst (passo_aviao t ok (pc l) a l g), fst (snd (passo_aviao t ok (pc l) a l g)))"
proof (cases "pc l")
  case NaoIniciado
  then show ?thesis using assms by (simp add: falha_parada_def inicia_thread_def)
next
  case (Em f p)
  then show ?thesis
    using assms falha_parada_entrada [of a l f t g] falha_parada_fila [of a l f t g]
      falha_parada_pos_fila [of l f t a g] falha_parada_reservando [of a l f t g]
      falha_parada_tarde [of a l f p t ok g]
    by (cases p) simp_all
next
  case Terminado
  then show ?thesis using assms by simp
qed

lemma falha_parada_monitor:
  "falha_parada (a, l) \<Longrightarrow>
   falha_parada (if detectado t a then a\<lparr>status_final := DEADLOCK\<rparr> else a, l)"
  by (simp add: falha_parada_def)

lemma falha_parada_passo:
  assumes "list_all falha_parada (fios s)"
  shows "list_all falha_parada (fios (passo ev s))"
proof (cases ev)
  case (Executa i ok)
  show ?thesis
  proof (cases "i < length (fios s)")
    case True
    obtain a l where al: "fios s ! i = (a, l)" by fastforce
    have "falha_parada (a, l)" using assms True al by (metis list_all_length)
    then show ?thesis
      using Executa True al assms falha_parada_passo_aviao [of a l "relogio s" ok "glob s"]
      by (simp add: case_prod_beta list_all_update)
  next
    case False
    then show ?thesis using Executa assms by simp
  qed
next
  case Tique
  then show ?thesis using assms by simp
next
  case (Cria tp)
  then show ?thesis using assms by (simp add: falha_parada_def)
next
  case Monitor
  then show ?thesis
    using assms falha_parada_monitor
    by (auto simp: monitor_deadlock_def Let_def list_all_iff)
next
  case Encerra
  then show ?thesis using assms by (simp add: encerra_def Let_def)
qed

lemma falha_parada_executa:
  "list_all falha_parada (fios s) \<Longrightarrow> list_all falha_parada (fios (executa evs s))"
  by (induction evs arbitrary: s) (simp_all add: falha_parada_passo)

lemma falha_parada_alcancavel:
  assumes "i < length (fios (executa evs (inicial t0 n1 n2 n3)))"
  shows "falha_parada (fios (executa evs (inicial t0 n1 n2 n3)) ! i)"
proof -
  have "list_all falha_parada (fios (inicial t0 n1 n2 n3))" by (simp add: inicial_def)
  then have "list_all falha_parada (fios (executa evs (inicial t0 n1 n2 n3)))"
    by (rule falha_parada_executa)
  then show ?thesis using assms by (simp add: list_all_length)
qed

lemma cenario_timeout_estado:
  "executa cenario_timeout (inicial 0 0 5 2) =
     \<lparr>relogio = 10, N_PISTAS = 0, N_PORTOES = 5, N_TORRES = 2,
      glob = \<lparr>pistas = 0, portoes = 5, torres = 2, pistas_disp = 0, portoes_disp = 5,
               torres_disp = 2, esperando_internacional = 0, esperando_domestico = 0,
               deadlock_count = 0, acidentes_count = 0, simulacao_ativa = True\<rparr>,
      fios = [((novo_aviao INTERNACIONAL 0)\<lparr>status_final := FALHA\<rparr>,
               fio_novo\<lparr>pc := Terminado, need_pista := 1, need_torre := 1, ret := - 1\<rparr>)]\<rparr>"
  by (simp add: cenario_timeout_def executa_append executa_tiques passos_defs)

subsection \<open>The reservation step without a runway\<close>

lemma liberar_prioridade_esperando:
  "esperando_internacional (liberar_prioridade tp g) =
     (if tp = INTERNACIONAL \<and> esperando_internacional g > 0
      then esperando_internacional g - 1 else esperando_internacional g)"
  "esperando_domestico (liberar_prioridade tp g) =
     (if tp = DOMESTICO \<and> esperando_domestico g > 0
      then esperando_domestico g - 1 else esperando_domestico g)"
  by (cases tp; simp add: liberar_prioridade_def)+

lemma reservando_timeout_explicito:
  assumes "fst (reservar_iteracao t (start l) TIMEOUT_OPERACAO (need_pista l) (need_portao l)
                  (need_torre l) a g) = Retorna SEM_TIMEOUT"
  shows "status_final (fst (reservando t f a l g)) = FALHA"
    and "pc (fst (snd (reservando t f a l g))) = Terminado"
    and "ret (fst (snd (reservando t f a l g))) = - 1"
    and "esperando_internacional (snd (snd (reservando t f a l g))) =
           (if tipo a = INTERNACIONAL \<and> esperando_internacional g > 0
            then esperando_internacional g - 1 else esperando_internacional g)"
    and "esperando_domestico (snd (snd (reservando t f a l g))) =
           (if tipo a = DOMESTICO \<and> esperando_domestico g > 0
            then esperando_domestico g - 1 else esperando_domestico g)"
    and "pistas_disp (snd (snd (reservando t f a l g))) = pistas_disp g"
    and "portoes_disp (snd (snd (reservando t f a l g))) = portoes_disp g"
    and "torres_disp (snd (snd (reservando t f a l g))) = torres_disp g"
proof -
  have s: "simulacao_ativa g"
    using assms reservar_iteracao_espera(1) [of t "start l" TIMEOUT_OPERACAO] by blast
  have d: "pistas_disp (snd (snd (reservar_iteracao t (start l) TIMEOUT_OPERACAO (need_pista l)
                           (need_portao l) (need_torre l) a g))) = pistas_disp g"
    "portoes_disp (snd (snd (reservar_iteracao t (start l) TIMEOUT_OPERACAO (need_pista l)
                           (need_portao l) (need_torre l) a g))) = portoes_disp g"
    "torres_disp (snd (snd (reservar_iteracao t (start l) TIMEOUT_OPERACAO (need_pista l)
                           (need_portao l) (need_torre l) a g))) = torres_disp g"
    using assms by (simp_all add: reservar_iteracao_disp)
  have e: "esperando_internacional (snd (snd (reservar_iteracao t (start l) TIMEOUT_OPERACAO
             (need_pista l) (need_portao l) (need_torre l) a g))) = esperando_internacional g"
    "esperando_domestico (snd (snd (reservar_iteracao t (start l) TIMEOUT_OPERACAO
             (need_pista l) (need_portao l) (need_torre l) a g))) = esperando_domestico g"
    by (simp_all add: reservar_iteracao_def case_prod_beta espera_ou_timeout_def Let_def)
  note r = reservando_timeout [OF assms, of f]
  show "status_final (fst (reservando t f a l g)) = FALHA"
    and "pc (fst (snd (reservando t f a l g))) = Terminado"
    and "ret (fst (snd (reservando t f a l g))) = - 1"
    unfolding r by simp_all
  show "esperando_internacional (snd (snd (reservando t f a l g))) =
           (if tipo a = INTERNACIONAL \<and> esperando_internacional g > 0
            then esperando_internacional g - 1 else esperando_internacional g)"
    and "esperando_domestico (snd (snd (reservando t f a l g))) =
           (if tipo a = DOMESTICO \<and> esperando_domestico g > 0
            then esperando_domestico g - 1 else esperando_domestico g)"
    unfolding r using e by (simp_all add: liberar_prioridade_esperando)
  show "pistas_disp (snd (snd (reservando t f a l g))) = pistas_disp g"
    and "portoes_disp (snd (snd (reservando t f a l g))) = portoes_disp g"
    and "torres_disp (snd (snd (reservando t f a l g))) = torres_disp g"
    unfolding r using d by simp_all
qed

lemma reservando_sem_pista:
  assumes "pistas_disp g = 0" "need_pista l = 1"
  shows "\<not> simulacao_ativa g \<Longrightarrow>
           reservando t f a l g
             = (a, l\<lparr>pc := Terminado, ret := SEM_SIM_ENCERRADA\<rparr>, liberar_prioridade (tipo a) g)"
    and "simulacao_ativa g \<Longrightarrow> fst (checa_falha t a g) \<Longrightarrow>
           pc (fst (snd (reservando t f a l g))) = Terminado
           \<and> ret (fst (snd (reservando t f a l g))) = SEM_AVIAO_FALHOU
           \<and> (status_final (fst (reservando t f a l g)) = FALHA
              \<or> status_final (fst (reservando t f a l g)) = STARVATION)"
    and "simulacao_ativa g \<Longrightarrow> \<not> fst (checa_falha t a g) \<Longrightarrow> t - start l < TIMEOUT_OPERACAO \<Longrightarrow>
           fst (snd (reservando t f a l g)) = l
           \<and> fst (reservando t f a l g) = fst (verificar_starvation t a g)"
    and "simulacao_ativa g \<Longrightarrow> \<not> fst (checa_falha t a g) \<Longrightarrow> TIMEOUT_OPERACAO \<le> t - start l \<Longrightarrow>
           fst (reservar_iteracao t (start l) TIMEOUT_OPERACAO (need_pista l) (need_portao l)
                  (need_torre l) a g) = Retorna SEM_TIMEOUT"
proof -
  have n: "fst (reservar_iteracao t (start l) TIMEOUT_OPERACAO (need_pista l) (need_portao l)
                  (need_torre l) a g) \<noteq> Retorna SEM_OK"
    using assms by (simp add: reservar_iteracao_sem_pista)
  note e = reservar_iteracao_espera [of t "start l" TIMEOUT_OPERACAO "need_pista l"
             "need_portao l" "need_torre l" a g]
  show "\<not> simulacao_ativa g \<Longrightarrow>
           reservando t f a l g
             = (a, l\<lparr>pc := Terminado, ret := SEM_SIM_ENCERRADA\<rparr>, liberar_prioridade (tipo a) g)"
    by (simp add: reservando_def reservar_iteracao_def retorna_def)
  show "simulacao_ativa g \<Longrightarrow> fst (checa_falha t a g) \<Longrightarrow>
           pc (fst (snd (reservando t f a l g))) = Terminado
           \<and> ret (fst (snd (reservando t f a l g))) = SEM_AVIAO_FALHOU
           \<and> (status_final (fst (reservando t f a l g)) = FALHA
              \<or> status_final (fst (reservando t f a l g)) = STARVATION)"
    by (simp add: reservando_def reservar_iteracao_def case_prod_beta retorna_def)
  show "simulacao_ativa g \<Longrightarrow> \<not> fst (checa_falha t a g) \<Longrightarrow> t - start l < TIMEOUT_OPERACAO \<Longrightarrow>
           fst (snd (reservando t f a l g)) = l
           \<and> fst (reservando t f a l g) = fst (verificar_starvation t a g)"
  proof -
    assume h: "simulacao_ativa g" "\<not> fst (checa_falha t a g)" "t - start l < TIMEOUT_OPERACAO"
    then have "fst (reservar_iteracao t (start l) TIMEOUT_OPERACAO (need_pista l) (need_portao l)
                  (need_torre l) a g) = Aguarda"
      using e(2) n by blast
    then show ?thesis
      using reservar_iteracao_resultado(1) [OF h(1)]
      by (simp add: reservando_def case_prod_beta)
  qed
  show "simulacao_ativa g \<Longrightarrow> \<not> fst (checa_falha t a g) \<Longrightarrow> TIMEOUT_OPERACAO \<le> t - start l \<Longrightarrow>
           fst (reservar_iteracao t (start l) TIMEOUT_OPERACAO (need_pista l) (need_portao l)
                  (need_torre l) a g) = Retorna SEM_TIMEOUT"
    using e(1) n by blast
qed


lemma cenario_espera_estado:
  "executa cenario_espera (inicial 0 0 5 2) =
     \<lparr>relogio = 10, N_PISTAS = 0, N_PORTOES = 5, N_TORRES = 2,
      glob = \<lparr>pistas = 0, portoes = 5, torres = 2, pistas_disp = 0, portoes_disp = 5,
               torres_disp = 2, esperando_internacional = 1, esperando_domestico = 0,
               deadlock_count = 0, acidentes_count = 0, simulacao_ativa = True\<rparr>,
      fios = [(novo_aviao INTERNACIONAL 0,
               fio_novo\<lparr>pc := Em Pouso Reservando, need_pista := 1, need_torre := 1\<rparr>)]\<rparr>"
  by (simp add: cenario_espera_def executa_append executa_tiques passos_defs)

lemma passo_reservando:
  assumes "i < length (fios s)" "fios s ! i = (a, l)" "pc l = Em f Reservando"
  shows "fios (passo (Executa i ok) s) ! i
           = (fst (reservando (relogio s) f a l (glob s)),
              fst (snd (reservando (relogio s) f a l (glob s))))"
    and "glob (passo (Executa i ok) s) = snd (snd (reservando (relogio s) f a l (glob s)))"
  unfolding passo_executa_fio [OF assms(1,2)] using assms(1,3) by simp_all

subsection \<open>The acquisition pass of So_restrito.c\<close>

lemma sem_post_sem_wait: "sem_post rc (sem_wait rc g) = g"
  by (cases rc) simp_all

lemma sem_post_comuta: "sem_post x (sem_wait rc g) = sem_wait rc (sem_post x g)"
  by (cases x; cases rc) simp_all

lemma fold_sem_post_sem_wait:
  "fold sem_post xs (sem_wait rc g) = sem_wait rc (fold sem_post xs g)"
  by (induction xs arbitrary: g) (simp_all add: sem_post_comuta)

text \<open>
  A pass that meets a timeout either acquires everything or leaves the semaphores as it
  found them.
\<close>

lemma adquirir_fase_for_expirou:
  "adquirir_fase_for feitos resto Expirou g = (n, b, g1) \<Longrightarrow>
     \<not> b \<and> (n = length feitos + length resto \<and> g1 = fold sem_wait resto g
            \<or> n = 0 \<and> g1 = fold sem_post feitos g)"
proof (induction resto arbitrary: feitos g)
  case Nil
  then show ?case by auto
next
  case (Cons rc resto)
  show ?case
  proof (cases "sem_valor rc g > 0")
    case True
    with Cons.prems
    have "adquirir_fase_for (feitos @ [rc]) resto Expirou (sem_wait rc g) = (n, b, g1)"
      by simp
    from Cons.IH [OF this] show ?thesis
      by (auto simp: fold_sem_post_sem_wait sem_post_sem_wait)
  next
    case False
    with Cons.prems show ?thesis by auto
  qed
qed

lemma adquirir_fase_passo_expirou:
  "adquirir_fase_passo f t Expirou g = (r, g1) \<Longrightarrow>
     r = Retorna 0 \<and> g1 = fold sem_wait (ordem_restrito f t) g \<or> r = Aguarda \<and> g1 = g"
proof -
  assume h: "adquirir_fase_passo f t Expirou g = (r, g1)"
  obtain n b g2 where e: "adquirir_fase_for [] (ordem_restrito f t) Expirou g = (n, b, g2)"
    by (cases "adquirir_fase_for [] (ordem_restrito f t) Expirou g") auto
  from adquirir_fase_for_expirou [OF e] h e show ?thesis
    by (auto simp: adquirir_fase_passo_def Let_def split: if_splits)
qed

text \<open>
  A pass left because \<open>a->falhou\<close> was set returns -1 without posting back the units it
  took: with one runway and no tower slot free, an International landing returns -1 and
  the runway semaphore stays at 0.
\<close>

lemma adquirir_fase_for_falhou:
  "adquirir_fase_for feitos resto Falhou g = (n, True, g1) \<Longrightarrow>
     length feitos \<le> n \<and> n < length feitos + length resto
     \<and> g1 = fold sem_wait (take (n - length feitos) resto) g"
proof (induction resto arbitrary: feitos g)
  case Nil
  then show ?case by auto
next
  case (Cons rc resto)
  show ?case
  proof (cases "sem_valor rc g > 0")
    case True
    with Cons.prems
    have "adquirir_fase_for (feitos @ [rc]) resto Falhou (sem_wait rc g) = (n, True, g1)"
      by simp
    from Cons.IH [OF this] show ?thesis
      by (auto simp: take_Cons' Suc_diff_le)
  next
    case False
    with Cons.prems show ?thesis by auto
  qed
qed

lemma adquirir_fase_passo_falhou_retem:
  "adquirir_fase_passo Pouso INTERNACIONAL Falhou (glob (inicial 0 1 5 0))
     = (Retorna (- 1), (glob (inicial 0 1 5 0))\<lparr>pistas := 0\<rparr>)"
  by (simp add: adquirir_fase_passo_def inicial_def)

section \<open>The claims\<close>

text \<open>
  C1. A pass of \<open>reservar_recursos\<close>, in So-final.c and in So_refatorado_corrigido.c, is
  all or nothing and ordered by class. With \<open>c\<close> the result of the \<open>checa_falha\<close> the
  pass runs (its verdict and the aircraft after it), the pass returns SEM_OK exactly when
  the simulation is active, the aircraft has not failed, each of the three counters is at
  least the amount asked, and the aircraft is not a Domestic one without alert facing a
  positive \<open>esperando_internacional\<close>; then each counter goes down by exactly the amount
  asked, and with any other outcome the three counters are unchanged. So a Domestic
  aircraft without alert is never granted while an International one is waiting, and an
  aircraft in alert, of either class, is granted as soon as the amounts are available.
  The alert flag the pass reads is the flag after \<open>checa_falha\<close>: a flag set before stays
  set, and a flag not set before stays unset while the wait is under 60 seconds. The
  other outcomes are tied down as well: SEM_SIM_ENCERRADA exactly when the simulation has
  ended, SEM_AVIAO_FALHOU exactly when \<open>checa_falha\<close> reports a failure, and otherwise,
  when there is no grant, SEM_TIMEOUT once the timeout has passed and another wait before.
\<close>

theorem reservar_recursos_tudo_ou_nada:
  assumes "(x, c) = (reservar_iteracao agora inicio tmo np ng nt a g, checa_falha agora a g)
         \<or> (x, c) = (reservar_iteracao_corrigido agora inicio tmo np ng nt a g,
                      checa_falha_corrigido agora a g)"
  shows "(fst x = Retorna SEM_OK \<longleftrightarrow>
            simulacao_ativa g \<and> \<not> fst c
            \<and> pistas_disp g \<ge> np \<and> portoes_disp g \<ge> ng \<and> torres_disp g \<ge> nt
            \<and> \<not> (tipo a = DOMESTICO \<and> \<not> em_alerta_critico (fst (snd c))
                  \<and> esperando_internacional g > 0))
       \<and> (fst x = Retorna SEM_OK \<longrightarrow>
            pistas_disp (snd (snd x)) = pistas_disp g - np
            \<and> portoes_disp (snd (snd x)) = portoes_disp g - ng
            \<and> torres_disp (snd (snd x)) = torres_disp g - nt)
       \<and> (fst x \<noteq> Retorna SEM_OK \<longrightarrow>
            pistas_disp (snd (snd x)) = pistas_disp g
            \<and> portoes_disp (snd (snd x)) = portoes_disp g
            \<and> torres_disp (snd (snd x)) = torres_disp g)
       \<and> (tipo a = DOMESTICO \<and> \<not> em_alerta_critico (fst (snd c))
            \<and> esperando_internacional g > 0 \<longrightarrow> fst x \<noteq> Retorna SEM_OK)
       \<and> (em_alerta_critico (fst (snd c)) \<and> simulacao_ativa g \<and> \<not> fst c
            \<and> pistas_disp g \<ge> np \<and> portoes_disp g \<ge> ng \<and> torres_disp g \<ge> nt \<longrightarrow>
            fst x = Retorna SEM_OK)
       \<and> (em_alerta_critico a \<longrightarrow> em_alerta_critico (fst (snd c)))
       \<and> (\<not> em_alerta_critico a \<and> agora - ultimo_tempo_espera a < ALERTA_CRITICO_SECS \<longrightarrow>
            \<not> em_alerta_critico (fst (snd c)))
       \<and> (fst x = Retorna SEM_SIM_ENCERRADA \<longleftrightarrow> \<not> simulacao_ativa g)
       \<and> (fst x = Retorna SEM_AVIAO_FALHOU \<longleftrightarrow> simulacao_ativa g \<and> fst c)
       \<and> (fst x = Retorna SEM_TIMEOUT \<longleftrightarrow>
            simulacao_ativa g \<and> \<not> fst c \<and> fst x \<noteq> Retorna SEM_OK \<and> tmo \<le> agora - inicio)
       \<and> (fst x = Aguarda \<longleftrightarrow>
            simulacao_ativa g \<and> \<not> fst c \<and> fst x \<noteq> Retorna SEM_OK \<and> agora - inicio < tmo)
       \<and> (simulacao_ativa g \<longrightarrow> fst (snd x) = fst (snd c))
       \<and> (\<not> simulacao_ativa g \<longrightarrow> snd x = (a, g))"
  using assms
proof
  assume "(x, c) = (reservar_iteracao agora inicio tmo np ng nt a g, checa_falha agora a g)"
  then have x: "x = reservar_iteracao agora inicio tmo np ng nt a g"
    and c: "c = checa_falha agora a g" by simp_all
  note ok = reservar_iteracao_ok [of agora inicio tmo np ng nt a g]
  note d = reservar_iteracao_disp [of agora inicio tmo np ng nt a g]
  note r = reservar_iteracao_resultado [where t = agora and a = a and g = g]
  note e = reservar_iteracao_espera [of agora inicio tmo np ng nt a g]
  have k1: "fst x = Retorna SEM_OK \<longleftrightarrow>
            simulacao_ativa g \<and> \<not> fst c
            \<and> pistas_disp g \<ge> np \<and> portoes_disp g \<ge> ng \<and> torres_disp g \<ge> nt
            \<and> \<not> (tipo a = DOMESTICO \<and> \<not> em_alerta_critico (fst (snd c))
                  \<and> esperando_internacional g > 0)"
    unfolding x c using ok by (simp add: disponivel_def del: checa_falha_proj(1))
  have k2: "fst x = Retorna SEM_OK \<longrightarrow>
            pistas_disp (snd (snd x)) = pistas_disp g - np
            \<and> portoes_disp (snd (snd x)) = portoes_disp g - ng
            \<and> torres_disp (snd (snd x)) = torres_disp g - nt"
    unfolding x using d by simp
  have k3: "fst x \<noteq> Retorna SEM_OK \<longrightarrow>
            pistas_disp (snd (snd x)) = pistas_disp g
            \<and> portoes_disp (snd (snd x)) = portoes_disp g
            \<and> torres_disp (snd (snd x)) = torres_disp g"
    unfolding x using d by simp
  have k6: "(em_alerta_critico a \<longrightarrow> em_alerta_critico (fst (snd c)))
       \<and> (\<not> em_alerta_critico a \<and> agora - ultimo_tempo_espera a < ALERTA_CRITICO_SECS \<longrightarrow>
            \<not> em_alerta_critico (fst (snd c)))"
    unfolding c using verificar_starvation_alerta_mono [of a agora g] alerta_cedo(1) [of a agora g]
    by simp
  have k7: "(fst x = Retorna SEM_SIM_ENCERRADA \<longleftrightarrow> \<not> simulacao_ativa g)
       \<and> (fst x = Retorna SEM_AVIAO_FALHOU \<longleftrightarrow> simulacao_ativa g \<and> fst c)
       \<and> (fst x = Retorna SEM_TIMEOUT \<longleftrightarrow>
            simulacao_ativa g \<and> \<not> fst c \<and> fst x \<noteq> Retorna SEM_OK \<and> tmo \<le> agora - inicio)
       \<and> (fst x = Aguarda \<longleftrightarrow>
            simulacao_ativa g \<and> \<not> fst c \<and> fst x \<noteq> Retorna SEM_OK \<and> agora - inicio < tmo)"
    unfolding x c using e by blast
  have k8: "(simulacao_ativa g \<longrightarrow> fst (snd x) = fst (snd c))
       \<and> (\<not> simulacao_ativa g \<longrightarrow> snd x = (a, g))"
    unfolding x c using r(1,3) by simp
  show ?thesis using k1 k2 k3 k6 k7 k8 by blast
next
  assume "(x, c) = (reservar_iteracao_corrigido agora inicio tmo np ng nt a g,
                    checa_falha_corrigido agora a g)"
  then have x: "x = reservar_iteracao_corrigido agora inicio tmo np ng nt a g"
    and c: "c = checa_falha_corrigido agora a g" by simp_all
  note ok = reservar_iteracao_corrigido_ok [of agora inicio tmo np ng nt a g]
  note d = reservar_iteracao_corrigido_disp [of agora inicio tmo np ng nt a g]
  note r = reservar_iteracao_corrigido_resultado [where t = agora and a = a and g = g]
  note e = reservar_iteracao_corrigido_espera [of agora inicio tmo np ng nt a g]
  have k1: "fst x = Retorna SEM_OK \<longleftrightarrow>
            simulacao_ativa g \<and> \<not> fst c
            \<and> pistas_disp g \<ge> np \<and> portoes_disp g \<ge> ng \<and> torres_disp g \<ge> nt
            \<and> \<not> (tipo a = DOMESTICO \<and> \<not> em_alerta_critico (fst (snd c))
                  \<and> esperando_internacional g > 0)"
    unfolding x c using ok by (simp add: disponivel_def del: checa_falha_corrigido_proj(1))
  have k2: "fst x = Retorna SEM_OK \<longrightarrow>
            pistas_disp (snd (snd x)) = pistas_disp g - np
            \<and> portoes_disp (snd (snd x)) = portoes_disp g - ng
            \<and> torres_disp (snd (snd x)) = torres_disp g - nt"
    unfolding x using d by simp
  have k3: "fst x \<noteq> Retorna SEM_OK \<longrightarrow>
            pistas_disp (snd (snd x)) = pistas_disp g
            \<and> portoes_disp (snd (snd x)) = portoes_disp g
            \<and> torres_disp (snd (snd x)) = torres_disp g"
    unfolding x using d by simp
  have k6: "(em_alerta_critico a \<longrightarrow> em_alerta_critico (fst (snd c)))
       \<and> (\<not> em_alerta_critico a \<and> agora - ultimo_tempo_espera a < ALERTA_CRITICO_SECS \<longrightarrow>
            \<not> em_alerta_critico (fst (snd c)))"
    unfolding c using verificar_starvation_corrigido_alerta_mono [of a agora g]
      alerta_cedo(2) [of a agora g]
    by simp
  have k7: "(fst x = Retorna SEM_SIM_ENCERRADA \<longleftrightarrow> \<not> simulacao_ativa g)
       \<and> (fst x = Retorna SEM_AVIAO_FALHOU \<longleftrightarrow> simulacao_ativa g \<and> fst c)
       \<and> (fst x = Retorna SEM_TIMEOUT \<longleftrightarrow>
            simulacao_ativa g \<and> \<not> fst c \<and> fst x \<noteq> Retorna SEM_OK \<and> tmo \<le> agora - inicio)
       \<and> (fst x = Aguarda \<longleftrightarrow>
            simulacao_ativa g \<and> \<not> fst c \<and> fst x \<noteq> Retorna SEM_OK \<and> agora - inicio < tmo)"
    unfolding x c using e by blast
  have k8: "(simulacao_ativa g \<longrightarrow> fst (snd x) = fst (snd c))
       \<and> (\<not> simulacao_ativa g \<longrightarrow> snd x = (a, g))"
    unfolding x c using r(1) by (simp add: reservar_iteracao_corrigido_def)
  show ?thesis using k1 k2 k3 k6 k7 k8 by blast
qed

theorem reservar_recursos_tudo_ou_nada_witness:
  "fst (reservar_iteracao 0 0 TIMEOUT_OPERACAO 1 0 1 (novo_aviao INTERNACIONAL 0)
          (glob (inicial 0 3 5 2))) = Retorna SEM_OK
   \<and> pistas_disp (snd (snd (reservar_iteracao 0 0 TIMEOUT_OPERACAO 1 0 1
          (novo_aviao INTERNACIONAL 0) (glob (inicial 0 3 5 2))))) = 2
   \<and> portoes_disp (snd (snd (reservar_iteracao 0 0 TIMEOUT_OPERACAO 1 0 1
          (novo_aviao INTERNACIONAL 0) (glob (inicial 0 3 5 2))))) = 5
   \<and> torres_disp (snd (snd (reservar_iteracao 0 0 TIMEOUT_OPERACAO 1 0 1
          (novo_aviao INTERNACIONAL 0) (glob (inicial 0 3 5 2))))) = 1
   \<and> fst (reservar_iteracao 0 0 TIMEOUT_OPERACAO 1 0 1 (novo_aviao DOMESTICO 0)
          cenario_fila_internacional) = Aguarda
   \<and> pistas_disp (snd (snd (reservar_iteracao 0 0 TIMEOUT_OPERACAO 1 0 1
          (novo_aviao DOMESTICO 0) cenario_fila_internacional))) = 3
   \<and> torres_disp (snd (snd (reservar_iteracao 0 0 TIMEOUT_OPERACAO 1 0 1
          (novo_aviao DOMESTICO 0) cenario_fila_internacional))) = 2
   \<and> fst (reservar_iteracao 0 0 TIMEOUT_OPERACAO 1 0 1
          ((novo_aviao DOMESTICO 0)\<lparr>em_alerta_critico := True\<rparr>)
          cenario_fila_internacional) = Retorna SEM_OK
   \<and> fst (reservar_iteracao_corrigido 10 0 TIMEOUT_OPERACAO 1 0 1 (novo_aviao DOMESTICO 0)
          cenario_fila_internacional) = Retorna SEM_TIMEOUT
   \<and> fst (reservar_iteracao_corrigido 0 0 TIMEOUT_OPERACAO 1 0 1
          ((novo_aviao DOMESTICO 0)\<lparr>em_alerta_critico := True\<rparr>)
          cenario_fila_internacional) = Retorna SEM_OK"
proof -
  let ?g0 = "glob (inicial 0 3 5 2)" and ?g1 = cenario_fila_internacional
  let ?i = "novo_aviao INTERNACIONAL 0" and ?d = "novo_aviao DOMESTICO 0"
  let ?c = "(novo_aviao DOMESTICO 0)\<lparr>em_alerta_critico := True\<rparr>"
  have g: "simulacao_ativa ?g0" "pistas_disp ?g0 = 3" "portoes_disp ?g0 = 5"
    "torres_disp ?g0 = 2" "esperando_internacional ?g0 = 0"
    "simulacao_ativa ?g1" "pistas_disp ?g1 = 3" "portoes_disp ?g1 = 5"
    "torres_disp ?g1 = 2" "esperando_internacional ?g1 = 1"
    by (simp_all add: inicial_def cenario_fila_internacional_def)
  have c: "checa_falha 0 ?i ?g0 = (False, ?i, ?g0)" "checa_falha 0 ?d ?g1 = (False, ?d, ?g1)"
    "checa_falha 0 ?c ?g1 = (False, ?c, ?g1)"
    "checa_falha_corrigido 10 ?d ?g1 = (False, ?d, ?g1)"
    "checa_falha_corrigido 0 ?c ?g1 = (False, ?c, ?g1)"
    by (simp_all add: checa_falha_def checa_falha_corrigido_def verificar_starvation_cedo
          verificar_starvation_corrigido_cedo)
  note t = reservar_recursos_tudo_ou_nada
  from t [OF disjI1 [OF refl], of 0 0 TIMEOUT_OPERACAO 1 0 1 ?i ?g0]
       t [OF disjI1 [OF refl], of 0 0 TIMEOUT_OPERACAO 1 0 1 ?d ?g1]
       t [OF disjI1 [OF refl], of 0 0 TIMEOUT_OPERACAO 1 0 1 ?c ?g1]
       t [OF disjI2 [OF refl], of 10 0 TIMEOUT_OPERACAO 1 0 1 ?d ?g1]
       t [OF disjI2 [OF refl], of 0 0 TIMEOUT_OPERACAO 1 0 1 ?c ?g1]
  show ?thesis unfolding c using g by simp
qed

text \<open>
  C2 (counterexample). A new aircraft of So-final.c carries the status SUCESSO, one of
  the four terminal values. \<open>checa_falha\<close> reports false for it, in So-final.c and in
  So_refatorado_corrigido.c, and the entry of \<open>pouso\<close> does not return: the thread goes
  on to the priority queue.
\<close>

theorem checa_falha_sucesso_contraexemplo:
  "status_final (novo_aviao DOMESTICO 0) = SUCESSO
   \<and> \<not> fst (checa_falha 0 (novo_aviao DOMESTICO 0) (glob (inicial 0 3 5 2)))
   \<and> \<not> fst (checa_falha_corrigido 0 (novo_aviao DOMESTICO 0) (glob (inicial 0 3 5 2)))
   \<and> pc (fst (snd (entrada 0 Pouso (novo_aviao DOMESTICO 0) fio_novo (glob (inicial 0 3 5 2)))))
       = Em Pouso Fila"
  by (simp add: verificar_starvation_cedo verificar_starvation_corrigido_cedo entrada_pc)

text \<open>
  C2 (amended). For an aircraft whose status is FALHA or STARVATION, \<open>checa_falha\<close>
  reports true and changes nothing (in So_refatorado_corrigido.c also for DEADLOCK), and
  every check point of an operation ends it at once with a failure value: the entry
  returns -1; the loop of the priority wait does not wait; the check after the priority
  wait releases the priority and returns -1; a pass of the reservation returns
  SEM_AVIAO_FALHOU (SEM_SIM_ENCERRADA when the simulation has ended), and the operation
  releases the priority and returns that code. None of these steps changes the aircraft
  record, so no flag is set, and the reservation counters and the semaphores stay as they
  were. The \<open>sem_wait\<close> calls have no check of their own, but in every state of every
  execution the thread of such an aircraft has ended or stands at the check after the
  priority wait, so it acquires nothing more and enters no further operation. SUCESSO is
  not a failing status for \<open>checa_falha\<close>.
\<close>

theorem checa_falha_curto_circuito:
  assumes "status_final a = FALHA \<or> status_final a = STARVATION"
  shows "checa_falha t a g = (True, a, g)
       \<and> checa_falha_corrigido t a g = (True, a, g)
       \<and> checa_falha_corrigido t (a\<lparr>status_final := DEADLOCK\<rparr>) g
           = (True, a\<lparr>status_final := DEADLOCK\<rparr>, g)
       \<and> entrada t f a l g = (a, l\<lparr>pc := Terminado, ret := - 1\<rparr>, g)
       \<and> \<not> fst (aguardar_prioridade_teste t a g)
       \<and> pos_fila t f a l g
           = (a, l\<lparr>pc := Terminado, ret := - 1\<rparr>, liberar_prioridade (tipo a) g)
       \<and> reservando t f a l g
           = (a, l\<lparr>pc := Terminado,
                   ret := (if simulacao_ativa g then SEM_AVIAO_FALHOU else SEM_SIM_ENCERRADA)\<rparr>,
              liberar_prioridade (tipo a) g)
       \<and> pistas_disp (liberar_prioridade (tipo a) g) = pistas_disp g
       \<and> portoes_disp (liberar_prioridade (tipo a) g) = portoes_disp g
       \<and> torres_disp (liberar_prioridade (tipo a) g) = torres_disp g
       \<and> pistas (liberar_prioridade (tipo a) g) = pistas g
       \<and> portoes (liberar_prioridade (tipo a) g) = portoes g
       \<and> torres (liberar_prioridade (tipo a) g) = torres g
       \<and> (s = executa evs (inicial t0 n_pistas n_portoes n_torres) \<and> i < length (fios s)
            \<and> fios s ! i = (a, l) \<longrightarrow>
              pc l = Terminado \<or> pc l = Em Pouso PosFila \<or> pc l = Em Desembarque PosFila
              \<or> pc l = Em Decolagem PosFila)"
proof -
  note c = checa_falha_terminal [OF assms]
  have e: "entrada t f a l g = (a, l\<lparr>pc := Terminado, ret := - 1\<rparr>, g)"
    by (simp add: entrada_def c retorna_def del: checa_falha_proj)
  have q: "\<not> fst (aguardar_prioridade_teste t a g)"
    by (simp add: aguardar_prioridade_teste_def c del: checa_falha_proj)
  have p: "pos_fila t f a l g
           = (a, l\<lparr>pc := Terminado, ret := - 1\<rparr>, liberar_prioridade (tipo a) g)"
    by (simp add: pos_fila_def c retorna_def del: checa_falha_proj)
  have k: "checa_falha_corrigido t a g = (True, a, g)"
    "checa_falha_corrigido t (a\<lparr>status_final := DEADLOCK\<rparr>) g
       = (True, a\<lparr>status_final := DEADLOCK\<rparr>, g)"
    using assms checa_falha_corrigido_terminal [of a t g]
      checa_falha_corrigido_terminal [of "a\<lparr>status_final := DEADLOCK\<rparr>" t g]
    by auto
  have r: "s = executa evs (inicial t0 n_pistas n_portoes n_torres) \<and> i < length (fios s)
            \<and> fios s ! i = (a, l) \<longrightarrow>
              pc l = Terminado \<or> pc l = Em Pouso PosFila \<or> pc l = Em Desembarque PosFila
              \<or> pc l = Em Decolagem PosFila"
    using assms falha_parada_alcancavel [of i evs t0 n_pistas n_portoes n_torres]
    by (auto simp: falha_parada_def)
  show ?thesis
    using c e q p k r reservando_falhou [OF assms] by simp
qed

theorem checa_falha_curto_circuito_witness:
  "status_final ((novo_aviao INTERNACIONAL 0)\<lparr>status_final := FALHA\<rparr>) = FALHA
   \<and> fios (executa cenario_timeout (inicial 0 0 5 2)) ! 0
       = ((novo_aviao INTERNACIONAL 0)\<lparr>status_final := FALHA\<rparr>,
          fio_novo\<lparr>pc := Terminado, need_pista := 1, need_torre := 1, ret := - 1\<rparr>)
   \<and> pc (snd (fios (executa cenario_timeout (inicial 0 0 5 2)) ! 0)) = Terminado
   \<and> checa_falha 15 ((novo_aviao INTERNACIONAL 0)\<lparr>status_final := FALHA\<rparr>)
         (glob (inicial 0 3 5 2))
       = (True, (novo_aviao INTERNACIONAL 0)\<lparr>status_final := FALHA\<rparr>, glob (inicial 0 3 5 2))
   \<and> entrada 15 Pouso ((novo_aviao INTERNACIONAL 0)\<lparr>status_final := FALHA\<rparr>) fio_novo
         (glob (inicial 0 3 5 2))
       = ((novo_aviao INTERNACIONAL 0)\<lparr>status_final := FALHA\<rparr>,
          fio_novo\<lparr>pc := Terminado, ret := - 1\<rparr>, glob (inicial 0 3 5 2))"
proof -
  let ?a = "(novo_aviao INTERNACIONAL 0)\<lparr>status_final := FALHA\<rparr>"
  let ?l = "fio_novo\<lparr>pc := Terminado, need_pista := 1, need_torre := 1, ret := - 1\<rparr>"
  let ?s = "executa cenario_timeout (inicial 0 0 5 2)"
  have h: "status_final ?a = FALHA \<or> status_final ?a = STARVATION" by simp
  have f: "fios ?s ! 0 = (?a, ?l)" "0 < length (fios ?s)"
    unfolding cenario_timeout_estado by simp_all
  from checa_falha_curto_circuito [OF h, of 15 "glob (inicial 0 3 5 2)" Pouso fio_novo]
       checa_falha_curto_circuito [OF h, where s = ?s and evs = cenario_timeout and t0 = 0
         and n_pistas = 0 and n_portoes = 5 and n_torres = 2 and i = 0 and l = ?l]
  show ?thesis using f by simp
qed

text \<open>
  C3 (counterexample). After the grant of the landing reservation of the only aircraft,
  and before its first \<open>sem_wait\<close>, the runway counter is 2 of 3 and the tower counter 1
  of 2 while no aircraft has a flag set: counter plus flags is not the capacity.
\<close>

theorem capacidade_bandeiras_contraexemplo:
  "pistas_disp (glob (executa cenario_reserva (inicial 0 3 5 2)))
     + com_bandeira PISTA (executa cenario_reserva (inicial 0 3 5 2))
     \<noteq> N_PISTAS (executa cenario_reserva (inicial 0 3 5 2))
   \<and> pistas_disp (glob (executa cenario_reserva (inicial 0 3 5 2))) = 2
   \<and> com_bandeira PISTA (executa cenario_reserva (inicial 0 3 5 2)) = 0
   \<and> torres_disp (glob (executa cenario_reserva (inicial 0 3 5 2)))
     + com_bandeira TORRE (executa cenario_reserva (inicial 0 3 5 2))
     \<noteq> N_TORRES (executa cenario_reserva (inicial 0 3 5 2))"
  unfolding cenario_reserva_estado by (simp add: com_bandeira_def)

text \<open>
  C3 (amended). With non-negative capacities, in every state of every execution and for
  each of the three resource classes: the reservation counter is between 0 and the
  capacity; the counter plus the units the threads have reserved and not yet credited
  back (the remaining needs of the threads between the grant of \<open>reservar_recursos\<close> and
  their \<open>liberar_reserva\<close>) is the capacity; and the number of aircraft with the flag of
  the class set is at most that number of reserved units, so counter plus flags never
  exceeds the capacity.
\<close>

theorem capacidade_conservada:
  assumes "0 \<le> n_pistas" "0 \<le> n_portoes" "0 \<le> n_torres"
    and "s = executa evs (inicial t0 n_pistas n_portoes n_torres)"
  shows "0 \<le> pistas_disp (glob s) \<and> pistas_disp (glob s) \<le> n_pistas
       \<and> 0 \<le> portoes_disp (glob s) \<and> portoes_disp (glob s) \<le> n_portoes
       \<and> 0 \<le> torres_disp (glob s) \<and> torres_disp (glob s) \<le> n_torres
       \<and> pistas_disp (glob s) + total res_pista s = n_pistas
       \<and> portoes_disp (glob s) + total res_portao s = n_portoes
       \<and> torres_disp (glob s) + total res_torre s = n_torres
       \<and> com_bandeira PISTA s \<le> total res_pista s
       \<and> com_bandeira PORTAO s \<le> total res_portao s
       \<and> com_bandeira TORRE s \<le> total res_torre s"
proof -
  have i: "inv s"
    unfolding assms(4) using assms(1,2,3) by (intro inv_executa inv_inicial)
  have n: "N_PISTAS s = n_pistas" "N_PORTOES s = n_portoes" "N_TORRES s = n_torres"
    unfolding assms(4) by (simp_all add: inicial_def)
  have "list_all fio_ok (fios s)" using i by (simp add: inv_def)
  note b = com_bandeira_le_total [OF this]
  show ?thesis using i n b by (simp add: inv_def)
qed

theorem capacidade_conservada_witness:
  "pistas_disp (glob (executa cenario_reserva (inicial 0 3 5 2))) = 2
   \<and> total res_pista (executa cenario_reserva (inicial 0 3 5 2)) = 1
   \<and> torres_disp (glob (executa cenario_reserva (inicial 0 3 5 2))) = 1
   \<and> total res_torre (executa cenario_reserva (inicial 0 3 5 2)) = 1
   \<and> portoes_disp (glob (executa cenario_reserva (inicial 0 3 5 2))) = 5
   \<and> total res_portao (executa cenario_reserva (inicial 0 3 5 2)) = 0"
proof -
  have t: "total res_pista (executa cenario_reserva (inicial 0 3 5 2)) = 1"
    "total res_torre (executa cenario_reserva (inicial 0 3 5 2)) = 1"
    "total res_portao (executa cenario_reserva (inicial 0 3 5 2)) = 0"
    unfolding cenario_reserva_estado
    by (simp_all add: total_def res_pista_def res_torre_def res_portao_def fio_novo_def)
  from capacidade_conservada [of 3 5 2 "executa cenario_reserva (inicial 0 3 5 2)" cenario_reserva 0]
  show ?thesis using t by simp
qed



text \<open>
  C5. In every state of every execution of So-final.c, the step of a thread that is
  granted its reservation debits the three counters by the requirement of the operation;
  the \<open>sem_wait\<close> steps that follow leave the counters alone; and the release steps of
  the operation credit the same amounts back: \<open>pouso\<close> one runway and one tower slot
  together, \<open>decolagem\<close> one of each together, \<open>desembarque\<close> in two parts, the tower
  slot right after the body and the gate after the extra occupancy interval, which
  together are its requirement of one gate and one tower slot.
\<close>

theorem reserva_ida_e_volta:
  assumes "s = executa evs (inicial t0 n_pistas n_portoes n_torres)"
    and "i < length (fios s)" and "fios s ! i = (a, l)"
    and "s1 = passo (Executa i ok) s"
  shows "(pc l = Em f Reservando \<and> pc (snd (fios s1 ! i)) = Em f AdqTorre \<longrightarrow>
            pistas_disp (glob s1) = pistas_disp (glob s) - fst (requisitos f)
            \<and> portoes_disp (glob s1) = portoes_disp (glob s) - fst (snd (requisitos f))
            \<and> torres_disp (glob s1) = torres_disp (glob s) - snd (snd (requisitos f)))
       \<and> (pc l = Em f p \<and> (p = AdqTorre \<or> p = AdqPortao \<or> p = AdqPista) \<and> ok \<longrightarrow>
            pistas_disp (glob s1) = pistas_disp (glob s)
            \<and> portoes_disp (glob s1) = portoes_disp (glob s)
            \<and> torres_disp (glob s1) = torres_disp (glob s))
       \<and> (pc l = Em Pouso Corpo \<longrightarrow>
            pistas_disp (glob s1) = pistas_disp (glob s) + 1
            \<and> portoes_disp (glob s1) = portoes_disp (glob s)
            \<and> torres_disp (glob s1) = torres_disp (glob s) + 1
            \<and> pc (snd (fios s1 ! i)) = Em Desembarque Entrada)
       \<and> (pc l = Em Desembarque Corpo \<longrightarrow>
            pistas_disp (glob s1) = pistas_disp (glob s)
            \<and> portoes_disp (glob s1) = portoes_disp (glob s)
            \<and> torres_disp (glob s1) = torres_disp (glob s) + 1
            \<and> pc (snd (fios s1 ! i)) = Em Desembarque Ocupacao)
       \<and> (pc l = Em Desembarque Ocupacao \<longrightarrow>
            pistas_disp (glob s1) = pistas_disp (glob s)
            \<and> portoes_disp (glob s1) = portoes_disp (glob s) + 1
            \<and> torres_disp (glob s1) = torres_disp (glob s)
            \<and> pc (snd (fios s1 ! i)) = Em Decolagem Entrada)
       \<and> (pc l = Em Decolagem Corpo \<longrightarrow>
            pistas_disp (glob s1) = pistas_disp (glob s) + 1
            \<and> portoes_disp (glob s1) = portoes_disp (glob s) + 1
            \<and> torres_disp (glob s1) = torres_disp (glob s) + 1
            \<and> pc (snd (fios s1 ! i)) = Terminado \<and> ret (snd (fios s1 ! i)) = 0)"
proof -
  have fo: "fio_ok (a, l)"
    using assms(1,2,3) fio_ok_alcancavel [of i evs t0 n_pistas n_portoes n_torres] by simp
  note e = passo_executa_fio [OF assms(2,3), of ok]
  note v1 = ida_e_volta_fio(1) [OF fo, where f = f and t = "relogio s" and g = "glob s"]
  note v2 = ida_e_volta_fio(2) [OF fo, where t = "relogio s" and g = "glob s"]
  note v3 = ida_e_volta_fio(3) [OF fo, where g = "glob s"]
  note v4 = ida_e_volta_fio(4) [OF fo, where t = "relogio s" and g = "glob s"]
  note v5 = ida_e_volta_fio(5) [OF fo, where t = "relogio s" and g = "glob s"]
  have c1: "pc l = Em f Reservando \<and> pc (snd (fios s1 ! i)) = Em f AdqTorre \<longrightarrow>
            pistas_disp (glob s1) = pistas_disp (glob s) - fst (requisitos f)
            \<and> portoes_disp (glob s1) = portoes_disp (glob s) - fst (snd (requisitos f))
            \<and> torres_disp (glob s1) = torres_disp (glob s) - snd (snd (requisitos f))"
    unfolding assms(4) e using v1 assms(2) by auto
  have c2: "pc l = Em f p \<and> (p = AdqTorre \<or> p = AdqPortao \<or> p = AdqPista) \<and> ok \<longrightarrow>
            pistas_disp (glob s1) = pistas_disp (glob s)
            \<and> portoes_disp (glob s1) = portoes_disp (glob s)
            \<and> torres_disp (glob s1) = torres_disp (glob s)"
    unfolding assms(4) e using adquire_nao_mexe [of l f p "relogio s" a "glob s"] by auto
  have c3: "pc l = Em Pouso Corpo \<longrightarrow>
            pistas_disp (glob s1) = pistas_disp (glob s) + 1
            \<and> portoes_disp (glob s1) = portoes_disp (glob s)
            \<and> torres_disp (glob s1) = torres_disp (glob s) + 1
            \<and> pc (snd (fios s1 ! i)) = Em Desembarque Entrada"
    unfolding assms(4) e using v2 assms(2) by auto
  have c4: "pc l = Em Desembarque Corpo \<longrightarrow>
            pistas_disp (glob s1) = pistas_disp (glob s)
            \<and> portoes_disp (glob s1) = portoes_disp (glob s)
            \<and> torres_disp (glob s1) = torres_disp (glob s) + 1
            \<and> pc (snd (fios s1 ! i)) = Em Desembarque Ocupacao"
    unfolding assms(4) e using v3 assms(2) by auto
  have c5: "pc l = Em Desembarque Ocupacao \<longrightarrow>
            pistas_disp (glob s1) = pistas_disp (glob s)
            \<and> portoes_disp (glob s1) = portoes_disp (glob s) + 1
            \<and> torres_disp (glob s1) = torres_disp (glob s)
            \<and> pc (snd (fios s1 ! i)) = Em Decolagem Entrada"
    unfolding assms(4) e using v4 assms(2) by auto
  have c6: "pc l = Em Decolagem Corpo \<longrightarrow>
            pistas_disp (glob s1) = pistas_disp (glob s) + 1
            \<and> portoes_disp (glob s1) = portoes_disp (glob s) + 1
            \<and> torres_disp (glob s1) = torres_disp (glob s) + 1
            \<and> pc (snd (fios s1 ! i)) = Terminado \<and> ret (snd (fios s1 ! i)) = 0"
    unfolding assms(4) e using v5 assms(2) by auto
  show ?thesis using c1 c2 c3 c4 c5 c6 by blast
qed

theorem reserva_ida_e_volta_witness:
  "pc (snd (fios (executa cenario_antes_da_reserva (inicial 0 3 5 2)) ! 0)) = Em Pouso Reservando
   \<and> pistas_disp (glob (executa cenario_antes_da_reserva (inicial 0 3 5 2))) = 3
   \<and> torres_disp (glob (executa cenario_antes_da_reserva (inicial 0 3 5 2))) = 2
   \<and> pistas_disp (glob (passo (Executa 0 True)
        (executa cenario_antes_da_reserva (inicial 0 3 5 2)))) = 2
   \<and> torres_disp (glob (passo (Executa 0 True)
        (executa cenario_antes_da_reserva (inicial 0 3 5 2)))) = 1
   \<and> pc (snd (fios (executa cenario_corpo (inicial 0 3 5 2)) ! 0)) = Em Pouso Corpo
   \<and> pistas_disp (glob (executa cenario_corpo (inicial 0 3 5 2))) = 2
   \<and> torres_disp (glob (executa cenario_corpo (inicial 0 3 5 2))) = 1
   \<and> pistas_disp (glob (passo (Executa 0 True) (executa cenario_corpo (inicial 0 3 5 2)))) = 3
   \<and> torres_disp (glob (passo (Executa 0 True) (executa cenario_corpo (inicial 0 3 5 2)))) = 2"
proof -
  let ?s = "executa cenario_antes_da_reserva (inicial 0 3 5 2)"
  let ?a = "novo_aviao INTERNACIONAL 0"
  let ?l = "fio_novo\<lparr>pc := Em Pouso Reservando, need_pista := 1, need_torre := 1\<rparr>"
  let ?c = "executa cenario_corpo (inicial 0 3 5 2)"
  let ?ac = "(novo_aviao INTERNACIONAL 0)\<lparr>has_pista := True, has_torre := True\<rparr>"
  let ?lc = "fio_novo\<lparr>pc := Em Pouso Corpo, need_pista := 1, need_torre := 1\<rparr>"
  have h: "0 < length (fios ?s)" "fios ?s ! 0 = (?a, ?l)" "pc ?l = Em Pouso Reservando"
    "pistas_disp (glob ?s) = 3" "torres_disp (glob ?s) = 2"
    unfolding cenario_antes_da_reserva_estado by simp_all
  have g: "pc (snd (fios (passo (Executa 0 True) ?s) ! 0)) = Em Pouso AdqTorre"
    unfolding cenario_antes_da_reserva_estado by (simp add: passos_defs)
  have hc: "0 < length (fios ?c)" "fios ?c ! 0 = (?ac, ?lc)" "pc ?lc = Em Pouso Corpo"
    "pistas_disp (glob ?c) = 2" "torres_disp (glob ?c) = 1"
    unfolding cenario_corpo_estado by simp_all
  from reserva_ida_e_volta [OF refl h(1,2) refl, where ok = True and f = Pouso]
       reserva_ida_e_volta [OF refl hc(1,2) refl, where ok = True]
  show ?thesis using h g hc by simp
qed

text \<open>
  C6. In \<open>verificar_starvation\<close> of So-final.c and of So_refatorado_corrigido.c, an
  aircraft that is not yet FALHA, STARVATION or DEADLOCK (this covers every non-terminal
  aircraft) and whose wait, the clock minus \<open>ultimo_tempo_espera\<close>, is at least 90 is
  reclassified by class: a Domestic one becomes STARVATION and \<open>acidentes_count\<close> goes up
  by one, an International one becomes DEADLOCK and \<open>deadlock_count\<close> goes up by one, the
  other counter staying as it was. Whatever the input, the function never turns a status
  into STARVATION for an International aircraft, nor into DEADLOCK for a Domestic one.
\<close>

theorem verificar_starvation_reclassifica:
  assumes "x = verificar_starvation agora a g \<or> x = verificar_starvation_corrigido agora a g"
  shows "(status_final a \<noteq> FALHA \<and> status_final a \<noteq> STARVATION \<and> status_final a \<noteq> DEADLOCK
          \<and> agora - ultimo_tempo_espera a \<ge> TEMPO_MAXIMO_ESPERA \<longrightarrow>
            (if tipo a = DOMESTICO
             then status_final (fst x) = STARVATION
                  \<and> acidentes_count (snd x) = acidentes_count g + 1
                  \<and> deadlock_count (snd x) = deadlock_count g
             else status_final (fst x) = DEADLOCK
                  \<and> deadlock_count (snd x) = deadlock_count g + 1
                  \<and> acidentes_count (snd x) = acidentes_count g))
       \<and> (status_final (fst x) = STARVATION \<and> status_final a \<noteq> STARVATION \<longrightarrow>
            tipo a = DOMESTICO)
       \<and> (status_final (fst x) = DEADLOCK \<and> status_final a \<noteq> DEADLOCK \<longrightarrow>
            tipo a = INTERNACIONAL)"
proof -
  have m: "status_final a \<noteq> FALHA \<and> status_final a \<noteq> STARVATION \<and> status_final a \<noteq> DEADLOCK
          \<and> agora - ultimo_tempo_espera a \<ge> TEMPO_MAXIMO_ESPERA \<longrightarrow>
            (if tipo a = DOMESTICO
             then status_final (fst x) = STARVATION
                  \<and> acidentes_count (snd x) = acidentes_count g + 1
                  \<and> deadlock_count (snd x) = deadlock_count g
             else status_final (fst x) = DEADLOCK
                  \<and> deadlock_count (snd x) = deadlock_count g + 1
                  \<and> acidentes_count (snd x) = acidentes_count g)"
    using assms verificar_starvation_maximo [of a agora g] by auto
  have c: "status_final (fst x) = STARVATION \<and> status_final a \<noteq> STARVATION \<longrightarrow>
            tipo a = DOMESTICO"
    "status_final (fst x) = DEADLOCK \<and> status_final a \<noteq> DEADLOCK \<longrightarrow> tipo a = INTERNACIONAL"
    using assms verificar_starvation_classe [of agora a g] by blast+
  show ?thesis using m c by blast
qed

theorem verificar_starvation_reclassifica_witness:
  "status_final (fst (verificar_starvation 90 (novo_aviao DOMESTICO 0) (glob (inicial 0 3 5 2))))
     = STARVATION
   \<and> acidentes_count (snd (verificar_starvation 90 (novo_aviao DOMESTICO 0)
        (glob (inicial 0 3 5 2)))) = 1
   \<and> status_final (fst (verificar_starvation 90 (novo_aviao INTERNACIONAL 0)
        (glob (inicial 0 3 5 2)))) = DEADLOCK
   \<and> deadlock_count (snd (verificar_starvation 90 (novo_aviao INTERNACIONAL 0)
        (glob (inicial 0 3 5 2)))) = 1"
  using verificar_starvation_reclassifica
          [of "verificar_starvation 90 (novo_aviao DOMESTICO 0) (glob (inicial 0 3 5 2))"
              90 "novo_aviao DOMESTICO 0" "glob (inicial 0 3 5 2)"]
        verificar_starvation_reclassifica
          [of "verificar_starvation 90 (novo_aviao INTERNACIONAL 0) (glob (inicial 0 3 5 2))"
              90 "novo_aviao INTERNACIONAL 0" "glob (inicial 0 3 5 2)"]
  by (simp add: inicial_def)

text \<open>
  C7 (counterexample). In So-final.c the Domestic aircraft of the scenario is put in
  critical alert while it waits behind an International one, and leaves the queue. When
  its landing is complete the flag is cleared; in \<open>desembarque\<close>, with the International
  aircraft still registered, the test of the priority loop holds for it: it waits again.
\<close>

theorem alerta_nao_permanente_contraexemplo:
  "tipo (fst (fios (executa cenario_alerta (inicial 0 3 5 2)) ! 1)) = DOMESTICO
   \<and> em_alerta_critico (fst (fios (executa cenario_alerta (inicial 0 3 5 2)) ! 1))
   \<and> \<not> em_alerta_critico (fst (fios (executa cenario_apos_pouso (inicial 0 3 5 2)) ! 1))
   \<and> pc (snd (fios (executa cenario_apos_pouso (inicial 0 3 5 2)) ! 1)) = Em Desembarque Fila
   \<and> fst (aguardar_prioridade_teste
            (relogio (executa cenario_apos_pouso (inicial 0 3 5 2)))
            (fst (fios (executa cenario_apos_pouso (inicial 0 3 5 2)) ! 1))
            (glob (executa cenario_apos_pouso (inicial 0 3 5 2))))"
  unfolding cenario_alerta_estado cenario_apos_pouso_estado
  by (simp add: aguardar_prioridade_teste_def checa_falha_def verificar_starvation_def
        novo_aviao_def)

text \<open>
  C7 (amended). In So-final.c the override lasts for the rest of the current operation.
  While the alert flag of an aircraft is set, no event of the simulation clears it except
  the step of its own thread that runs the final block of an operation, and that block
  always clears it. While the flag is set the aircraft does not yield: the test of the
  priority loop fails, and a pass of the reservation with the simulation active and the
  amounts available returns SEM_OK (or SEM_AVIAO_FALHOU for a failed aircraft), whatever
  its class and the number of International aircraft waiting. In So.c the override is
  the flag \<open>boosted\<close>: \<open>checa_starvation\<close> never clears it, and a boosted Domestic
  aircraft does not yield.
\<close>

theorem alerta_vale_ate_o_fim_da_operacao:
  assumes "i < length (fios s)" "fios s ! i = (a, l)" "em_alerta_critico a"
  shows "(\<not> bloco_final (pc l) \<longrightarrow> em_alerta_critico (fst (fios (passo ev s) ! i)))
       \<and> (bloco_final (pc l) \<longrightarrow>
            \<not> em_alerta_critico (fst (fios (passo (Executa i ok) s) ! i)))
       \<and> \<not> fst (aguardar_prioridade_teste t a g)
       \<and> (simulacao_ativa g \<and> disponivel np ng nt g \<longrightarrow>
            fst (reservar_iteracao t ini tmo np ng nt a g) = Retorna SEM_OK
            \<or> fst (reservar_iteracao t ini tmo np ng nt a g) = Retorna SEM_AVIAO_FALHOU)
       \<and> (boosted b \<longrightarrow> boosted (fst (snd (checa_starvation t b e)))
                         \<and> \<not> domestico_cede (fst (snd (checa_starvation t b e))) n)"
proof -
  have c1: "\<not> bloco_final (pc l) \<longrightarrow> em_alerta_critico (fst (fios (passo ev s) ! i))"
    using passo_alerta_mono [OF assms] by blast
  have c2: "bloco_final (pc l) \<longrightarrow>
            \<not> em_alerta_critico (fst (fios (passo (Executa i ok) s) ! i))"
  proof
    assume b: "bloco_final (pc l)"
    then obtain f p where fp: "pc l = Em f p" by (cases "pc l") simp_all
    show "\<not> em_alerta_critico (fst (fios (passo (Executa i ok) s) ! i))"
      using assms(1,2) b fp bloco_final_limpa [of f p "relogio s" ok a l "glob s"]
      by (simp add: case_prod_beta)
  qed
  have c3: "\<not> fst (aguardar_prioridade_teste t a g)"
    using assms(3) by (rule alerta_nao_espera)
  have c4: "simulacao_ativa g \<and> disponivel np ng nt g \<longrightarrow>
            fst (reservar_iteracao t ini tmo np ng nt a g) = Retorna SEM_OK
            \<or> fst (reservar_iteracao t ini tmo np ng nt a g) = Retorna SEM_AVIAO_FALHOU"
    using reservar_iteracao_ok [of t ini tmo np ng nt a g]
      reservar_iteracao_resultado(2) [of g t a ini tmo np ng nt]
      verificar_starvation_alerta_mono [OF assms(3), of t g]
    by blast
  have c5: "boosted b \<longrightarrow> boosted (fst (snd (checa_starvation t b e)))
                         \<and> \<not> domestico_cede (fst (snd (checa_starvation t b e))) n"
    using checa_starvation_boosted [of b t e] by blast
  show ?thesis using c1 c2 c3 c4 c5 by blast
qed

theorem alerta_vale_ate_o_fim_da_operacao_witness:
  "1 < length (fios (executa cenario_alerta (inicial 0 3 5 2)))
   \<and> em_alerta_critico (fst (fios (executa cenario_alerta (inicial 0 3 5 2)) ! 1))
   \<and> em_alerta_critico
       (fst (fios (passo (Executa 1 True) (executa cenario_alerta (inicial 0 3 5 2))) ! 1))
   \<and> em_alerta_critico
       (fst (fios (passo Monitor (executa cenario_alerta (inicial 0 3 5 2))) ! 1))"
proof -
  let ?s = "executa cenario_alerta (inicial 0 3 5 2)"
  let ?a = "(novo_aviao DOMESTICO 0)\<lparr>status_final := ALERTA_CRITICO, em_alerta_critico := True\<rparr>"
  let ?l = "fio_novo\<lparr>pc := Em Pouso PosFila\<rparr>"
  have h: "1 < length (fios ?s)" "fios ?s ! 1 = (?a, ?l)" "em_alerta_critico ?a"
    "\<not> bloco_final (pc ?l)"
    unfolding cenario_alerta_estado by simp_all
  from alerta_vale_ate_o_fim_da_operacao [OF h(1,2,3), of "Executa 1 True"]
       alerta_vale_ate_o_fim_da_operacao [OF h(1,2,3), of Monitor]
  show ?thesis using h by simp
qed




text \<open>
  C9 (counterexample). With no runway configured, an aircraft whose landing reservation
  is still waiting when \<open>main\<close> ends the simulation gets SEM_SIM_ENCERRADA, not a
  timeout; its thread ends and its status is still SUCESSO, not FALHA.
\<close>

theorem sem_pista_contraexemplo:
  "N_PISTAS (executa cenario_sem_pista (inicial 0 0 5 2)) = 0
   \<and> pc (snd (fios (executa cenario_sem_pista (inicial 0 0 5 2)) ! 0)) = Terminado
   \<and> ret (snd (fios (executa cenario_sem_pista (inicial 0 0 5 2)) ! 0)) = SEM_SIM_ENCERRADA
   \<and> ret (snd (fios (executa cenario_sem_pista (inicial 0 0 5 2)) ! 0)) \<noteq> SEM_TIMEOUT
   \<and> status_final (fst (fios (executa cenario_sem_pista (inicial 0 0 5 2)) ! 0)) = SUCESSO
   \<and> status_final (fst (fios (executa cenario_sem_pista (inicial 0 0 5 2)) ! 0)) \<noteq> FALHA"
  unfolding cenario_sem_pista_estado by (simp add: fio_novo_def)

text \<open>
  C9 (amended). When a pass of the reservation of an operation returns SEM_TIMEOUT, the
  operation marks the aircraft FALHA, takes it off the priority count of its class (the
  count goes down by one, unless it is already 0), leaves the reservation counters as
  they are and returns -1, which ends the thread. With the runway capacity configured to
  zero, in every state of every execution the runway counter is 0 and no landing
  reservation is granted. A thread at its landing reservation needs one runway, and a
  pass it makes while the simulation is active and \<open>checa_falha\<close> reports no failure
  waits again when less than TIMEOUT_OPERACAO seconds have passed since the reservation
  began, and otherwise times out: the thread ends with -1 and the aircraft is FALHA. A
  pass made after the end of the simulation ends the thread with SEM_SIM_ENCERRADA and
  leaves the aircraft as it was; a pass in which \<open>checa_falha\<close> reports a failure ends
  it with SEM_AVIAO_FALHOU. So every thread is inside \<open>pouso\<close> at or before its
  reservation, or has ended; no aircraft has completed a landing; and a thread that has
  ended returned a failure value and left its aircraft FALHA or STARVATION, unless the
  value is SEM_SIM_ENCERRADA.
\<close>

theorem timeout_marca_falha:
  assumes "s = executa evs (inicial t0 0 n_portoes n_torres)"
    and "i < length (fios s)" and "fios s ! i = (a, l)"
    and "s1 = passo (Executa i ok) s"
  shows "(fst (reservar_iteracao t (start l1) TIMEOUT_OPERACAO (need_pista l1) (need_portao l1)
                 (need_torre l1) a1 g) = Retorna SEM_TIMEOUT \<longrightarrow>
            status_final (fst (reservando t f a1 l1 g)) = FALHA
            \<and> pc (fst (snd (reservando t f a1 l1 g))) = Terminado
            \<and> ret (fst (snd (reservando t f a1 l1 g))) = - 1
            \<and> esperando_internacional (snd (snd (reservando t f a1 l1 g))) =
                (if tipo a1 = INTERNACIONAL \<and> esperando_internacional g > 0
                 then esperando_internacional g - 1 else esperando_internacional g)
            \<and> esperando_domestico (snd (snd (reservando t f a1 l1 g))) =
                (if tipo a1 = DOMESTICO \<and> esperando_domestico g > 0
                 then esperando_domestico g - 1 else esperando_domestico g)
            \<and> pistas_disp (snd (snd (reservando t f a1 l1 g))) = pistas_disp g
            \<and> portoes_disp (snd (snd (reservando t f a1 l1 g))) = portoes_disp g
            \<and> torres_disp (snd (snd (reservando t f a1 l1 g))) = torres_disp g)
       \<and> pistas_disp (glob s) = 0
       \<and> fst (reservar_iteracao t ini tmo 1 ng nt a (glob s)) \<noteq> Retorna SEM_OK
       \<and> sem_reserva (pc l) \<and> fim_pouso a = 0
       \<and> (pc l = Terminado \<longrightarrow> ret l \<noteq> 0)
       \<and> (pc l = Terminado \<and> ret l \<noteq> SEM_SIM_ENCERRADA \<longrightarrow>
            status_final a = FALHA \<or> status_final a = STARVATION)
       \<and> (pc l = Em Pouso Reservando \<longrightarrow>
            need_pista l = 1
            \<and> (simulacao_ativa (glob s) \<and> \<not> fst (checa_falha (relogio s) a (glob s))
                 \<and> relogio s - start l < TIMEOUT_OPERACAO \<longrightarrow>
                 pc (snd (fios s1 ! i)) = Em Pouso Reservando)
            \<and> (simulacao_ativa (glob s) \<and> \<not> fst (checa_falha (relogio s) a (glob s))
                 \<and> TIMEOUT_OPERACAO \<le> relogio s - start l \<longrightarrow>
                 pc (snd (fios s1 ! i)) = Terminado \<and> ret (snd (fios s1 ! i)) = - 1
                 \<and> status_final (fst (fios s1 ! i)) = FALHA
                 \<and> esperando_internacional (glob s1) =
                     (if tipo a = INTERNACIONAL \<and> esperando_internacional (glob s) > 0
                      then esperando_internacional (glob s) - 1
                      else esperando_internacional (glob s))
                 \<and> esperando_domestico (glob s1) =
                     (if tipo a = DOMESTICO \<and> esperando_domestico (glob s) > 0
                      then esperando_domestico (glob s) - 1
                      else esperando_domestico (glob s)))
            \<and> (simulacao_ativa (glob s) \<and> fst (checa_falha (relogio s) a (glob s)) \<longrightarrow>
                 pc (snd (fios s1 ! i)) = Terminado
                 \<and> ret (snd (fios s1 ! i)) = SEM_AVIAO_FALHOU
                 \<and> (status_final (fst (fios s1 ! i)) = FALHA
                    \<or> status_final (fst (fios s1 ! i)) = STARVATION))
            \<and> (\<not> simulacao_ativa (glob s) \<longrightarrow>
                 fios s1 ! i = (a, l\<lparr>pc := Terminado, ret := SEM_SIM_ENCERRADA\<rparr>)))"
proof -
  have k: "pistas_disp (glob s) = 0 \<and> list_all fio_sem_pouso (fios s)"
    unfolding assms(1) by (rule sem_pista_executa) (simp_all add: inicial_def)
  then have fs: "fio_sem_pouso (a, l)"
    using assms(2,3) by (metis list_all_length)
  note te = reservando_timeout_explicito [where t = t and l = l1 and a = a1 and g = g and f = f]
  have c1: "fst (reservar_iteracao t (start l1) TIMEOUT_OPERACAO (need_pista l1) (need_portao l1)
                 (need_torre l1) a1 g) = Retorna SEM_TIMEOUT \<longrightarrow>
            status_final (fst (reservando t f a1 l1 g)) = FALHA
            \<and> pc (fst (snd (reservando t f a1 l1 g))) = Terminado
            \<and> ret (fst (snd (reservando t f a1 l1 g))) = - 1
            \<and> esperando_internacional (snd (snd (reservando t f a1 l1 g))) =
                (if tipo a1 = INTERNACIONAL \<and> esperando_internacional g > 0
                 then esperando_internacional g - 1 else esperando_internacional g)
            \<and> esperando_domestico (snd (snd (reservando t f a1 l1 g))) =
                (if tipo a1 = DOMESTICO \<and> esperando_domestico g > 0
                 then esperando_domestico g - 1 else esperando_domestico g)
            \<and> pistas_disp (snd (snd (reservando t f a1 l1 g))) = pistas_disp g
            \<and> portoes_disp (snd (snd (reservando t f a1 l1 g))) = portoes_disp g
            \<and> torres_disp (snd (snd (reservando t f a1 l1 g))) = torres_disp g"
    using te by blast
  have c2: "fst (reservar_iteracao t ini tmo 1 ng nt a (glob s)) \<noteq> Retorna SEM_OK"
    using k by (simp add: reservar_iteracao_sem_pista)
  have c3: "sem_reserva (pc l) \<and> fim_pouso a = 0 \<and> (pc l = Terminado \<longrightarrow> ret l \<noteq> 0)
       \<and> (pc l = Terminado \<and> ret l \<noteq> SEM_SIM_ENCERRADA \<longrightarrow>
            status_final a = FALHA \<or> status_final a = STARVATION)"
    using fs by auto
  have c4: "pc l = Em Pouso Reservando \<longrightarrow>
            need_pista l = 1
            \<and> (simulacao_ativa (glob s) \<and> \<not> fst (checa_falha (relogio s) a (glob s))
                 \<and> relogio s - start l < TIMEOUT_OPERACAO \<longrightarrow>
                 pc (snd (fios s1 ! i)) = Em Pouso Reservando)
            \<and> (simulacao_ativa (glob s) \<and> \<not> fst (checa_falha (relogio s) a (glob s))
                 \<and> TIMEOUT_OPERACAO \<le> relogio s - start l \<longrightarrow>
                 pc (snd (fios s1 ! i)) = Terminado \<and> ret (snd (fios s1 ! i)) = - 1
                 \<and> status_final (fst (fios s1 ! i)) = FALHA
                 \<and> esperando_internacional (glob s1) =
                     (if tipo a = INTERNACIONAL \<and> esperando_internacional (glob s) > 0
                      then esperando_internacional (glob s) - 1
                      else esperando_internacional (glob s))
                 \<and> esperando_domestico (glob s1) =
                     (if tipo a = DOMESTICO \<and> esperando_domestico (glob s) > 0
                      then esperando_domestico (glob s) - 1
                      else esperando_domestico (glob s)))
            \<and> (simulacao_ativa (glob s) \<and> fst (checa_falha (relogio s) a (glob s)) \<longrightarrow>
                 pc (snd (fios s1 ! i)) = Terminado
                 \<and> ret (snd (fios s1 ! i)) = SEM_AVIAO_FALHOU
                 \<and> (status_final (fst (fios s1 ! i)) = FALHA
                    \<or> status_final (fst (fios s1 ! i)) = STARVATION))
            \<and> (\<not> simulacao_ativa (glob s) \<longrightarrow>
                 fios s1 ! i = (a, l\<lparr>pc := Terminado, ret := SEM_SIM_ENCERRADA\<rparr>))"
  proof
    assume p: "pc l = Em Pouso Reservando"
    have n: "need_pista l = 1" using fs p by simp
    note q = passo_reservando [OF assms(2,3) p, of ok, folded assms(4)]
    note r = reservando_sem_pista(1) [OF conjunct1 [OF k] n, where t = "relogio s" and f = Pouso and a = a]
      reservando_sem_pista(2) [OF conjunct1 [OF k] n, where t = "relogio s" and f = Pouso and a = a]
      reservando_sem_pista(3) [OF conjunct1 [OF k] n, where t = "relogio s" and f = Pouso and a = a]
      reservando_sem_pista(4) [OF conjunct1 [OF k] n, where t = "relogio s" and a = a]
    note x = reservando_timeout_explicito [where t = "relogio s" and l = l and a = a and g = "glob s" and f = Pouso]
    have w: "simulacao_ativa (glob s) \<and> \<not> fst (checa_falha (relogio s) a (glob s))
                 \<and> relogio s - start l < TIMEOUT_OPERACAO \<longrightarrow>
                 pc (snd (fios s1 ! i)) = Em Pouso Reservando"
      unfolding q using r(3) p by (simp del: checa_falha_proj)
    have tm: "simulacao_ativa (glob s) \<and> \<not> fst (checa_falha (relogio s) a (glob s))
                 \<and> TIMEOUT_OPERACAO \<le> relogio s - start l \<longrightarrow>
                 pc (snd (fios s1 ! i)) = Terminado \<and> ret (snd (fios s1 ! i)) = - 1
                 \<and> status_final (fst (fios s1 ! i)) = FALHA
                 \<and> esperando_internacional (glob s1) =
                     (if tipo a = INTERNACIONAL \<and> esperando_internacional (glob s) > 0
                      then esperando_internacional (glob s) - 1
                      else esperando_internacional (glob s))
                 \<and> esperando_domestico (glob s1) =
                     (if tipo a = DOMESTICO \<and> esperando_domestico (glob s) > 0
                      then esperando_domestico (glob s) - 1
                      else esperando_domestico (glob s))"
      unfolding q using r(4) x by (simp del: checa_falha_proj)
    have fa: "simulacao_ativa (glob s) \<and> fst (checa_falha (relogio s) a (glob s)) \<longrightarrow>
                 pc (snd (fios s1 ! i)) = Terminado
                 \<and> ret (snd (fios s1 ! i)) = SEM_AVIAO_FALHOU
                 \<and> (status_final (fst (fios s1 ! i)) = FALHA
                    \<or> status_final (fst (fios s1 ! i)) = STARVATION)"
      unfolding q using r(2) by (simp del: checa_falha_proj)
    have en: "\<not> simulacao_ativa (glob s) \<longrightarrow>
                 fios s1 ! i = (a, l\<lparr>pc := Terminado, ret := SEM_SIM_ENCERRADA\<rparr>)"
      unfolding q using r(1) by simp
    show "need_pista l = 1
            \<and> (simulacao_ativa (glob s) \<and> \<not> fst (checa_falha (relogio s) a (glob s))
                 \<and> relogio s - start l < TIMEOUT_OPERACAO \<longrightarrow>
                 pc (snd (fios s1 ! i)) = Em Pouso Reservando)
            \<and> (simulacao_ativa (glob s) \<and> \<not> fst (checa_falha (relogio s) a (glob s))
                 \<and> TIMEOUT_OPERACAO \<le> relogio s - start l \<longrightarrow>
                 pc (snd (fios s1 ! i)) = Terminado \<and> ret (snd (fios s1 ! i)) = - 1
                 \<and> status_final (fst (fios s1 ! i)) = FALHA
                 \<and> esperando_internacional (glob s1) =
                     (if tipo a = INTERNACIONAL \<and> esperando_internacional (glob s) > 0
                      then esperando_internacional (glob s) - 1
                      else esperando_internacional (glob s))
                 \<and> esperando_domestico (glob s1) =
                     (if tipo a = DOMESTICO \<and> esperando_domestico (glob s) > 0
                      then esperando_domestico (glob s) - 1
                      else esperando_domestico (glob s)))
            \<and> (simulacao_ativa (glob s) \<and> fst (checa_falha (relogio s) a (glob s)) \<longrightarrow>
                 pc (snd (fios s1 ! i)) = Terminado
                 \<and> ret (snd (fios s1 ! i)) = SEM_AVIAO_FALHOU
                 \<and> (status_final (fst (fios s1 ! i)) = FALHA
                    \<or> status_final (fst (fios s1 ! i)) = STARVATION))
            \<and> (\<not> simulacao_ativa (glob s) \<longrightarrow>
                 fios s1 ! i = (a, l\<lparr>pc := Terminado, ret := SEM_SIM_ENCERRADA\<rparr>))"
      using n w tm fa en by blast
  qed
  show ?thesis using k c1 c2 c3 c4 by blast
qed

theorem timeout_marca_falha_witness:
  "pc (snd (fios (executa cenario_espera (inicial 0 0 5 2)) ! 0)) = Em Pouso Reservando
   \<and> relogio (executa cenario_espera (inicial 0 0 5 2))
       - start (snd (fios (executa cenario_espera (inicial 0 0 5 2)) ! 0)) = 10
   \<and> esperando_internacional (glob (executa cenario_espera (inicial 0 0 5 2))) = 1
   \<and> pc (snd (fios (passo (Executa 0 True) (executa cenario_espera (inicial 0 0 5 2))) ! 0))
       = Terminado
   \<and> ret (snd (fios (passo (Executa 0 True) (executa cenario_espera (inicial 0 0 5 2))) ! 0))
       = - 1
   \<and> status_final (fst (fios (passo (Executa 0 True)
         (executa cenario_espera (inicial 0 0 5 2))) ! 0)) = FALHA
   \<and> esperando_internacional (glob (passo (Executa 0 True)
         (executa cenario_espera (inicial 0 0 5 2)))) = 0
   \<and> pc (snd (fios (executa cenario_timeout (inicial 0 0 5 2)) ! 0)) = Terminado
   \<and> ret (snd (fios (executa cenario_timeout (inicial 0 0 5 2)) ! 0)) = - 1
   \<and> (status_final (fst (fios (executa cenario_timeout (inicial 0 0 5 2)) ! 0)) = FALHA
      \<or> status_final (fst (fios (executa cenario_timeout (inicial 0 0 5 2)) ! 0)) = STARVATION)
   \<and> fim_pouso (fst (fios (executa cenario_timeout (inicial 0 0 5 2)) ! 0)) = 0"
proof -
  let ?s = "executa cenario_espera (inicial 0 0 5 2)"
  let ?a = "novo_aviao INTERNACIONAL 0"
  let ?l = "fio_novo\<lparr>pc := Em Pouso Reservando, need_pista := 1, need_torre := 1\<rparr>"
  let ?s2 = "executa cenario_timeout (inicial 0 0 5 2)"
  let ?a2 = "(novo_aviao INTERNACIONAL 0)\<lparr>status_final := FALHA\<rparr>"
  let ?l2 = "fio_novo\<lparr>pc := Terminado, need_pista := 1, need_torre := 1, ret := - 1\<rparr>"
  have h: "0 < length (fios ?s)" "fios ?s ! 0 = (?a, ?l)"
    unfolding cenario_espera_estado by simp_all
  have v: "pc ?l = Em Pouso Reservando" "relogio ?s = 10" "start ?l = 0"
    "simulacao_ativa (glob ?s)" "esperando_internacional (glob ?s) = 1"
    "checa_falha 10 ?a (glob ?s) = (False, ?a, glob ?s)"
    unfolding cenario_espera_estado
    by (simp_all add: fio_novo_def checa_falha_def verificar_starvation_cedo)
  have h2: "0 < length (fios ?s2)" "fios ?s2 ! 0 = (?a2, ?l2)"
    unfolding cenario_timeout_estado by simp_all
  have v2: "pc ?l2 = Terminado" "ret ?l2 = - 1"
    by (simp_all add: fio_novo_def)
  from timeout_marca_falha [OF refl h refl, where ok = True and t = 0 and ?l1.0 = fio_novo
         and ?a1.0 = ?a and g = "glob ?s" and f = Pouso and ini = 0 and tmo = 0 and ng = 0
         and nt = 0]
       timeout_marca_falha [OF refl h2 refl, where ok = True and t = 0 and ?l1.0 = fio_novo
         and ?a1.0 = ?a and g = "glob ?s" and f = Pouso and ini = 0 and tmo = 0 and ng = 0
         and nt = 0]
  show ?thesis unfolding h h2 v v2 using v by simp
qed

text \<open>
  C10. In every state of every execution of So-final.c, a thread that is at the entry of
  an operation, in its priority wait, at its reservation or before its first
  \<open>sem_wait\<close>, or that has not started or has ended, has all three progress flags false:
  each operation clears every flag it set before it returns, on the success path and on
  every rollback path. So the remaining need computed at the start of an operation is its
  full requirement, and from the reservation to the end of the operation the locals
  \<open>need_pista\<close>, \<open>need_portao\<close>, \<open>need_torre\<close> hold that requirement: no resource is
  carried from one operation into the next.
\<close>

theorem bandeiras_limpas_na_entrada:
  assumes "s = executa evs (inicial t0 n_pistas n_portoes n_torres)"
    and "i < length (fios s)" and "fios s ! i = (a, l)"
  shows "(pc l = NaoIniciado \<or> pc l = Terminado \<or> pc l = Em f Entrada \<or> pc l = Em f Fila
          \<or> pc l = Em f PosFila \<or> pc l = Em f Reservando \<or> pc l = Em f AdqTorre \<longrightarrow>
            \<not> has_pista a \<and> \<not> has_portao a \<and> \<not> has_torre a)
       \<and> (pc l = Em f PosFila \<longrightarrow> necessidades f a = requisitos f)
       \<and> (pc l = Em f p \<and> com_necessidades p \<longrightarrow>
            (need_pista l, need_portao l, need_torre l) = requisitos f)"
proof -
  have ok: "fio_ok (a, l)"
    using assms fio_ok_alcancavel [of i evs t0 n_pistas n_portoes n_torres] by simp
  have c1: "pc l = NaoIniciado \<or> pc l = Terminado \<or> pc l = Em f Entrada \<or> pc l = Em f Fila
          \<or> pc l = Em f PosFila \<or> pc l = Em f Reservando \<or> pc l = Em f AdqTorre \<longrightarrow>
            \<not> has_pista a \<and> \<not> has_portao a \<and> \<not> has_torre a"
    using ok by (auto simp: bandeiras_def)
  have c2: "pc l = Em f PosFila \<longrightarrow> necessidades f a = requisitos f"
    using c1 by (simp add: necessidades_sem_bandeiras)
  have c3: "pc l = Em f p \<and> com_necessidades p \<longrightarrow>
            (need_pista l, need_portao l, need_torre l) = requisitos f"
    using ok by auto
  show ?thesis using c1 c2 c3 by blast
qed

theorem bandeiras_limpas_na_entrada_witness:
  "1 = length (fios (executa cenario_reserva (inicial 0 3 5 2)))
   \<and> pc (snd (fios (executa cenario_reserva (inicial 0 3 5 2)) ! 0)) = Em Pouso AdqTorre
   \<and> \<not> has_pista (fst (fios (executa cenario_reserva (inicial 0 3 5 2)) ! 0))
   \<and> \<not> has_portao (fst (fios (executa cenario_reserva (inicial 0 3 5 2)) ! 0))
   \<and> \<not> has_torre (fst (fios (executa cenario_reserva (inicial 0 3 5 2)) ! 0))
   \<and> need_pista (snd (fios (executa cenario_reserva (inicial 0 3 5 2)) ! 0)) = 1
   \<and> need_portao (snd (fios (executa cenario_reserva (inicial 0 3 5 2)) ! 0)) = 0
   \<and> need_torre (snd (fios (executa cenario_reserva (inicial 0 3 5 2)) ! 0)) = 1"
proof -
  let ?s = "executa cenario_reserva (inicial 0 3 5 2)"
  let ?a = "novo_aviao INTERNACIONAL 0"
  let ?l = "fio_novo\<lparr>pc := Em Pouso AdqTorre, need_pista := 1, need_torre := 1\<rparr>"
  have h: "0 < length (fios ?s)" "fios ?s ! 0 = (?a, ?l)" "pc ?l = Em Pouso AdqTorre"
    unfolding cenario_reserva_estado by simp_all
  from bandeiras_limpas_na_entrada [OF refl h(1,2), of Pouso AdqTorre]
  show ?thesis using h unfolding cenario_reserva_estado by simp
qed

end
